theory Spec2Isabelle
  imports Complex_Main "HOL-Library.Multiset"
begin

section \<open>Plant sampling: the entities, their validation and the sample lifecycle\<close>

text \<open>
  A shallow embedding of \<^verbatim>\<open>apps/sampling/models.py\<close>, \<^verbatim>\<open>serializers.py\<close> and
  \<^verbatim>\<open>views.py\<close>. JSON payloads are values of the datatype \<open>json\<close>, a Python dict
  being an association list read with \<open>map_of\<close>. Every exception of the source is a value
  of the type \<open>error\<close>, and a function that may raise returns \<open>error + 'a\<close>.
\<close>

subsection \<open>JSON values and Python's view of them\<close>

datatype json =
    JNull
  | JBool bool
  | JNum rat
  | JStr string
  | JList "json list"
  | JObj "(string \<times> json) list"

text \<open>
  The write statements that the code sends to the database, named by what they do.
\<close>

datatype statement =
    Insert_audit_log
  | Insert_sample
  | Update_sample
  | Delete_growth_metrics
  | Delete_sample_researchers
  | Delete_sample
  | Delete_location
  | Delete_condition
  | Delete_researcher
  | Insert_link
  | Update_link
  | Delete_link
  | Insert_growth_metrics

text \<open>
  \<open>StorageError q\<close> is the exception of the database backend when it fails the
  statement \<open>q\<close>.
\<close>

datatype error =
    ValidationError "string list"
  | InvalidOperation
  | TypeError
  | AttributeError
  | Http404
  | RestrictedError
  | IntegrityError
  | StorageError statement

definition bind_err :: "error + 'a \<Rightarrow> ('a \<Rightarrow> error + 'b) \<Rightarrow> error + 'b" where
  "bind_err r f = (case r of Inl e \<Rightarrow> Inl e | Inr a \<Rightarrow> f a)"

text \<open>\<^verbatim>\<open>not v\<close>: the values Python treats as false.\<close>

fun falsy :: "json \<Rightarrow> bool" where
  "falsy JNull = True"
| "falsy (JBool b) = (\<not> b)"
| "falsy (JNum r) = (r = 0)"
| "falsy (JStr s) = (s = [])"
| "falsy (JList xs) = (xs = [])"
| "falsy (JObj kvs) = (kvs = [])"

text \<open>\<^verbatim>\<open>d.get(key)\<close>, with \<^verbatim>\<open>None\<close> for a missing key.\<close>

definition dict_get :: "(string \<times> json) list \<Rightarrow> string \<Rightarrow> json" where
  "dict_get d key = (case map_of d key of None \<Rightarrow> JNull | Some v \<Rightarrow> v)"

text \<open>\<^verbatim>\<open>d[key] = v\<close>: an existing key keeps its place, a new one goes to the end.\<close>

fun dict_set :: "(string \<times> json) list \<Rightarrow> string \<Rightarrow> json \<Rightarrow> (string \<times> json) list" where
  "dict_set [] key v = [(key, v)]"
| "dict_set ((k, w) # d) key v = (if k = key then (k, v) # d else (k, w) # dict_set d key v)"

text \<open>
  The loop \<^verbatim>\<open>for key in required_keys: if key not in d: raise ...\<close> raises at the first
  missing key; \<open>first_missing\<close> returns that key.
\<close>

fun first_missing :: "string list \<Rightarrow> (string \<times> json) list \<Rightarrow> string option" where
  "first_missing [] d = None"
| "first_missing (key # keys) d =
     (if map_of d key = None then Some key else first_missing keys d)"

definition quoted :: "string \<Rightarrow> string" where
  "quoted s = [CHR 0x27] @ s @ [CHR 0x27]"

text \<open>The \<^verbatim>\<open>repr\<close> of a list of plain strings, as an f-string prints \<^verbatim>\<open>valid_types\<close>.\<close>

fun repr_items :: "string list \<Rightarrow> string" where
  "repr_items [] = []"
| "repr_items [s] = quoted s"
| "repr_items (s # t # ts) = quoted s @ '', '' @ repr_items (t # ts)"

definition repr_list :: "string list \<Rightarrow> string" where
  "repr_list xs = ''['' @ repr_items xs @ '']''"

subsection \<open>Decimal values\<close>

text \<open>
  \<^verbatim>\<open>Decimal(str(v))\<close>. A JSON number is read exactly (the decimal numeral that
  \<^verbatim>\<open>str\<close> prints). A JSON string goes through the \<^verbatim>\<open>decimal\<close> library's own
  parser, which is a parameter \<open>D\<close> of the model: \<open>None\<close> when the library raises
  \<^verbatim>\<open>InvalidOperation\<close>. The \<^verbatim>\<open>str\<close> of \<^verbatim>\<open>None\<close>, of a boolean, of a list and of
  a dict is no decimal literal.
\<close>

datatype decimal = Finite rat | Infinity bool | NaN

type_synonym decimal_parser = "string \<Rightarrow> decimal option"

fun Decimal_str :: "decimal_parser \<Rightarrow> json \<Rightarrow> decimal option" where
  "Decimal_str D (JNum r) = Some (Finite r)"
| "Decimal_str D (JStr s) = D s"
| "Decimal_str D v = None"

text \<open>
  The block
  \<^verbatim>\<open>
  try:
      x = Decimal(str(v))
      if not (lo <= x <= hi):
          raise ValidationError(msg)
  except (ValueError, TypeError, KeyError):
      raise ValidationError("Invalid ... value")
  \<close>
  \<^verbatim>\<open>InvalidOperation\<close> (from the constructor, or from ordering a NaN) is an
  \<^verbatim>\<open>ArithmeticError\<close> and Django's \<^verbatim>\<open>ValidationError\<close> is a plain
  \<^verbatim>\<open>Exception\<close>: the \<^verbatim>\<open>except\<close> clause catches neither, and nothing in the
  \<^verbatim>\<open>try\<close> body raises what it does catch. An infinity fails one of the two
  comparisons.
\<close>

definition check_range :: "decimal option \<Rightarrow> rat \<Rightarrow> rat \<Rightarrow> string \<Rightarrow> error + unit" where
  "check_range x lo hi msg =
     (case x of
        None \<Rightarrow> Inl InvalidOperation
      | Some NaN \<Rightarrow> Inl InvalidOperation
      | Some (Infinity _) \<Rightarrow> Inl (ValidationError [msg])
      | Some (Finite r) \<Rightarrow> if lo \<le> r \<and> r \<le> hi then Inr () else Inl (ValidationError [msg]))"

subsection \<open>SamplingLocation.clean\<close>

definition SITE_TYPE_CHOICES :: "(string \<times> string) list" where
  "SITE_TYPE_CHOICES =
     [(''forest'', ''Forest''), (''grassland'', ''Grassland''), (''wetland'', ''Wetland''),
      (''desert'', ''Desert''), (''agricultural'', ''Agricultural''), (''urban'', ''Urban''),
      (''coastal'', ''Coastal''), (''mountain'', ''Mountain'')]"

text \<open>\<^verbatim>\<open>value not in valid_types\<close>: only a string can equal one of the choices.\<close>

definition not_in_choices :: "json \<Rightarrow> string list \<Rightarrow> bool" where
  "not_in_choices v valid_types = (case v of JStr s \<Rightarrow> s \<notin> set valid_types | _ \<Rightarrow> True)"

definition clean_site_type :: "(string \<times> json) list \<Rightarrow> error + unit" where
  "clean_site_type location_data =
     (case map_of location_data ''site_type'' of
        None \<Rightarrow> Inr ()
      | Some v \<Rightarrow>
          (let valid_types = map fst SITE_TYPE_CHOICES in
           if not_in_choices v valid_types
           then Inl (ValidationError [''Invalid site_type. Must be one of: '' @ repr_list valid_types])
           else Inr ()))"

definition clean_coordinates :: "decimal_parser \<Rightarrow> json \<Rightarrow> error + unit" where
  "clean_coordinates D coords =
     (case coords of
        JObj c \<Rightarrow>
          if map_of c ''latitude'' = None \<or> map_of c ''longitude'' = None
          then Inl (ValidationError [''coordinates must contain '' @ quoted ''latitude'' @ '' and '' @ quoted ''longitude''])
          else bind_err (check_range (Decimal_str D (dict_get c ''latitude'')) (-90) 90
                           ''Latitude must be between -90 and 90'')
                 (\<lambda>_. check_range (Decimal_str D (dict_get c ''longitude'')) (-180) 180
                           ''Longitude must be between -180 and 180'')
      | _ \<Rightarrow> Inl (ValidationError [''coordinates must be a JSON object'']))"

definition clean_location :: "decimal_parser \<Rightarrow> json \<Rightarrow> error + unit" where
  "clean_location D location_data =
     (case location_data of
        JObj d \<Rightarrow>
          (case first_missing [''coordinates'', ''region'', ''country''] d of
             Some key \<Rightarrow> Inl (ValidationError [''location_data must contain '' @ quoted key])
           | None \<Rightarrow>
               bind_err (clean_coordinates D (dict_get d ''coordinates''))
                 (\<lambda>_. clean_site_type d))
      | _ \<Rightarrow> Inl (ValidationError [''location_data must be a JSON object'']))"

subsection \<open>EnvironmentalConditions.clean\<close>

definition SOIL_TYPE_CHOICES :: "(string \<times> string) list" where
  "SOIL_TYPE_CHOICES =
     [(''clay'', ''Clay''), (''sandy'', ''Sandy''), (''loamy'', ''Loamy''), (''silty'', ''Silty''),
      (''peaty'', ''Peaty''), (''chalky'', ''Chalky''), (''saline'', ''Saline'')]"

text \<open>
  Text is the list of its UTF-8 bytes. The message of the temperature range ends, in the
  bytes of models.py (line 147), with \<^verbatim>\<open>EC A7 B8 43\<close>: the character U+C9F8 and the letter C.
\<close>

definition degree_C :: string where
  "degree_C = [CHR 0xEC, CHR 0xA7, CHR 0xB8, CHR ''C'']"

definition clean_soil_type :: "(string \<times> json) list \<Rightarrow> error + unit" where
  "clean_soil_type soil =
     (let valid_types = map fst SOIL_TYPE_CHOICES in
      if not_in_choices (dict_get soil ''type'') valid_types
      then Inl (ValidationError [''Invalid soil type. Must be one of: '' @ repr_list valid_types])
      else Inr ())"

definition clean_condition :: "decimal_parser \<Rightarrow> json \<Rightarrow> error + unit" where
  "clean_condition D condition_data =
     (case condition_data of
        JObj d \<Rightarrow>
          (case first_missing [''soil_composition'', ''temperature'', ''humidity'', ''altitude''] d of
             Some key \<Rightarrow> Inl (ValidationError [''condition_data must contain '' @ quoted key])
           | None \<Rightarrow>
               (case dict_get d ''soil_composition'' of
                  JObj soil \<Rightarrow>
                    (case first_missing [''pH'', ''nutrients'', ''type''] soil of
                       Some key \<Rightarrow>
                         Inl (ValidationError [''soil_composition must contain '' @ quoted key])
                     | None \<Rightarrow>
                         bind_err (check_range (Decimal_str D (dict_get soil ''pH'')) 0 14
                                     ''pH must be between 0 and 14'')
                        (\<lambda>_. bind_err (check_range (Decimal_str D (dict_get d ''temperature'')) (-50) 60
                                     (''Temperature must be between -50 and 60'' @ degree_C))
                        (\<lambda>_. bind_err (check_range (Decimal_str D (dict_get d ''humidity'')) 0 100
                                     ''Humidity must be between 0 and 100%'')
                        (\<lambda>_. bind_err (check_range (Decimal_str D (dict_get d ''altitude'')) (-500) 9000
                                     ''Altitude must be between -500 and 9000 meters'')
                        (\<lambda>_. clean_soil_type soil)))))
                | _ \<Rightarrow> Inl (ValidationError [''soil_composition must be a JSON object''])))
      | _ \<Rightarrow> Inl (ValidationError [''condition_data must be a JSON object'']))"

subsection \<open>Dates\<close>

text \<open>
  A calendar date (year, month, day) with the order of \<^verbatim>\<open>datetime.date\<close>.
  \<open>strptime_ymd\<close> is \<^verbatim>\<open>datetime.strptime(s, '%Y-%m-%d').date()\<close> on text that is all
  ASCII: \<^verbatim>\<open>%Y\<close> is four digits, \<^verbatim>\<open>%m\<close> matches \<^verbatim>\<open>1[0-2]|0[1-9]|[1-9]\<close>, \<^verbatim>\<open>%d\<close> matches
  \<^verbatim>\<open>3[0-1]|[1-2]\d|0[1-9]|[1-9]| [1-9]\<close>, the whole string has to be consumed, and the
  date has to exist (year 1 or later, the day within the month). \<open>None\<close> is the
  \<^verbatim>\<open>ValueError\<close> of the library. On text with a character outside ASCII the library
  still accepts the decimal digits of other scripts for \<^verbatim>\<open>\d\<close>; what it returns there is
  a parameter of the model (the field \<open>strptime_other\<close> of the environment below), and
  \<open>strptime\<close> puts the two together.
\<close>

datatype date = Date nat nat nat

fun date_less :: "date \<Rightarrow> date \<Rightarrow> bool" where
  "date_less (Date y m d) (Date y' m' d') =
     (y < y' \<or> (y = y' \<and> (m < m' \<or> (m = m' \<and> d < d'))))"

definition is_leap :: "nat \<Rightarrow> bool" where
  "is_leap y = (y mod 4 = 0 \<and> (y mod 100 \<noteq> 0 \<or> y mod 400 = 0))"

definition days_in_month :: "nat \<Rightarrow> nat \<Rightarrow> nat" where
  "days_in_month y m =
     (if m = 2 then (if is_leap y then 29 else 28)
      else if m = 4 \<or> m = 6 \<or> m = 9 \<or> m = 11 then 30 else 31)"

definition valid_date :: "date \<Rightarrow> bool" where
  "valid_date dt =
     (case dt of Date y m d \<Rightarrow>
        1 \<le> y \<and> y \<le> 9999 \<and> 1 \<le> m \<and> m \<le> 12 \<and> 1 \<le> d \<and> d \<le> days_in_month y m)"

definition is_digit :: "char \<Rightarrow> bool" where
  "is_digit ch = (48 \<le> (of_char ch :: nat) \<and> (of_char ch :: nat) \<le> 57)"

definition digit_val :: "char \<Rightarrow> nat" where
  "digit_val ch = of_char ch - 48"

definition digit_char :: "nat \<Rightarrow> char" where
  "digit_char n = char_of (48 + n mod 10)"

fun match_month :: "string \<Rightarrow> nat option" where
  "match_month [a, b] =
     (if a = CHR ''1'' \<and> (b = CHR ''0'' \<or> b = CHR ''1'' \<or> b = CHR ''2'') then Some (10 + digit_val b)
      else if a = CHR ''0'' \<and> is_digit b \<and> b \<noteq> CHR ''0'' then Some (digit_val b)
      else None)"
| "match_month [a] = (if is_digit a \<and> a \<noteq> CHR ''0'' then Some (digit_val a) else None)"
| "match_month s = None"

fun match_day :: "string \<Rightarrow> nat option" where
  "match_day [a, b] =
     (if a = CHR ''3'' \<and> (b = CHR ''0'' \<or> b = CHR ''1'') then Some (30 + digit_val b)
      else if (a = CHR ''1'' \<or> a = CHR ''2'') \<and> is_digit b then Some (10 * digit_val a + digit_val b)
      else if a = CHR ''0'' \<and> is_digit b \<and> b \<noteq> CHR ''0'' then Some (digit_val b)
      else if a = CHR '' '' \<and> is_digit b \<and> b \<noteq> CHR ''0'' then Some (digit_val b)
      else None)"
| "match_day [a] = (if is_digit a \<and> a \<noteq> CHR ''0'' then Some (digit_val a) else None)"
| "match_day s = None"

definition make_date :: "nat \<Rightarrow> nat \<Rightarrow> nat \<Rightarrow> date option" where
  "make_date y m d = (if 1 \<le> y \<and> d \<le> days_in_month y m then Some (Date y m d) else None)"

definition strptime_ymd :: "string \<Rightarrow> date option" where
  "strptime_ymd s =
     (case s of
        y1 # y2 # y3 # y4 # dash # rest \<Rightarrow>
          if is_digit y1 \<and> is_digit y2 \<and> is_digit y3 \<and> is_digit y4 \<and> dash = CHR ''-''
          then
            (let ms = takeWhile (\<lambda>ch. ch \<noteq> CHR ''-'') rest;
                 ds = drop (Suc (length ms)) rest
             in if length ms < length rest
                then (case match_month ms of
                        None \<Rightarrow> None
                      | Some m \<Rightarrow>
                          (case match_day ds of
                             None \<Rightarrow> None
                           | Some d \<Rightarrow>
                               make_date (1000 * digit_val y1 + 100 * digit_val y2 +
                                          10 * digit_val y3 + digit_val y4) m d))
                else None)
          else None
      | _ \<Rightarrow> None)"

definition is_ascii :: "char \<Rightarrow> bool" where
  "is_ascii ch = ((of_char ch :: nat) < 128)"

text \<open>\<^verbatim>\<open>date.isoformat()\<close>: \<^verbatim>\<open>'%04d-%02d-%02d'\<close>.\<close>

fun isoformat :: "date \<Rightarrow> string" where
  "isoformat (Date y m d) =
     [digit_char (y div 1000), digit_char (y div 100), digit_char (y div 10), digit_char y,
      CHR ''-'', digit_char (m div 10), digit_char m,
      CHR ''-'', digit_char (d div 10), digit_char d]"

text \<open>\<^verbatim>\<open>str(n)\<close> of a non-negative integer.\<close>

fun str_nat :: "nat \<Rightarrow> string" where
  "str_nat n = (if n < 10 then [digit_char n] else str_nat (n div 10) @ [digit_char (n mod 10)])"

declare str_nat.simps [simp del]

subsection \<open>The environment of a request\<close>

text \<open>
  What a request reads from outside the store: \<^verbatim>\<open>timezone.now()\<close> (seconds on an abstract
  clock), \<^verbatim>\<open>date.today()\<close>, the UTC date of a timestamp (\<^verbatim>\<open>datetime.date()\<close>), the result
  of \<^verbatim>\<open>strptime\<close> on date text that is not all ASCII, and the storage backend's failures:
  \<open>failing k\<close> says that the \<open>k\<close>-th write statement of the request raises.
\<close>

record env =
  now :: nat
  today :: date
  utc_date :: "nat \<Rightarrow> date"
  strptime_other :: "string \<Rightarrow> date option"
  failing :: "nat \<Rightarrow> bool"

definition strptime :: "env \<Rightarrow> string \<Rightarrow> date option" where
  "strptime ev s = (if list_all is_ascii s then strptime_ymd s else strptime_other ev s)"

subsection \<open>PlantSample.clean and the date that save fills in\<close>

text \<open>
  \<^verbatim>\<open>not str(v).strip()\<close>: only a string can print as blank text, and it does when every
  character of it is one that \<^verbatim>\<open>str.strip\<close> removes: U+0009 to U+000D, U+001C to U+0020,
  U+0085, U+00A0, U+1680, U+2000 to U+200A, U+2028, U+2029, U+202F, U+205F and U+3000.
  \<open>is_space\<close> are those of one byte, \<open>is_space2\<close> and \<open>is_space3\<close> the UTF-8 encodings of
  the others.
\<close>

definition is_space :: "char \<Rightarrow> bool" where
  "is_space ch = ((of_char ch :: nat) \<in> {9, 10, 11, 12, 13, 28, 29, 30, 31, 32})"

definition is_space2 :: "char \<Rightarrow> char \<Rightarrow> bool" where
  "is_space2 a b = (a = CHR 0xC2 \<and> (b = CHR 0x85 \<or> b = CHR 0xA0))"

definition is_space3 :: "char \<Rightarrow> char \<Rightarrow> char \<Rightarrow> bool" where
  "is_space3 a b c =
     ((a = CHR 0xE1 \<and> b = CHR 0x9A \<and> c = CHR 0x80) \<or>
      (a = CHR 0xE2 \<and> b = CHR 0x80 \<and>
         ((0x80 \<le> (of_char c :: nat) \<and> (of_char c :: nat) \<le> 0x8A) \<or>
          c = CHR 0xA8 \<or> c = CHR 0xA9 \<or> c = CHR 0xAF)) \<or>
      (a = CHR 0xE2 \<and> b = CHR 0x81 \<and> c = CHR 0x9F) \<or>
      (a = CHR 0xE3 \<and> b = CHR 0x80 \<and> c = CHR 0x80))"

fun all_space :: "string \<Rightarrow> bool" where
  "all_space [] = True"
| "all_space [a] = is_space a"
| "all_space [a, b] = (if is_space a then all_space [b] else is_space2 a b)"
| "all_space (a # b # c # s) =
     (if is_space a then all_space (b # c # s)
      else if is_space2 a b then all_space (c # s)
      else is_space3 a b c \<and> all_space s)"

definition str_strip_empty :: "json \<Rightarrow> bool" where
  "str_strip_empty v = (case v of JStr s \<Rightarrow> all_space s | _ \<Rightarrow> False)"

text \<open>
  \<^verbatim>\<open>PlantSample.clean\<close> (models.py, 247-271). \<^verbatim>\<open>strptime\<close> of a value that is not a
  string raises \<^verbatim>\<open>TypeError\<close>, which the \<^verbatim>\<open>except (ValueError, KeyError)\<close> lets
  through, as it does the \<^verbatim>\<open>ValidationError\<close> of a future date.
\<close>

definition clean_sampling_date :: "env \<Rightarrow> (string \<times> json) list \<Rightarrow> error + unit" where
  "clean_sampling_date ev d =
     (if map_of d ''sampling_date'' \<noteq> None
      then (case dict_get d ''sampling_date'' of
              JStr sampling_date_str \<Rightarrow>
                (case strptime ev sampling_date_str of
                   None \<Rightarrow> Inl (ValidationError [''Invalid sampling_date format. Use YYYY-MM-DD''])
                 | Some sampling_date \<Rightarrow>
                     if date_less (today ev) sampling_date
                     then Inl (ValidationError [''Sampling date cannot be in the future''])
                     else Inr ())
            | _ \<Rightarrow> Inl TypeError)
      else Inr ())"

definition clean_sample :: "env \<Rightarrow> json \<Rightarrow> error + unit" where
  "clean_sample ev sample_detail_value =
     (case sample_detail_value of
        JObj d \<Rightarrow>
          (case first_missing [''sampling_date'', ''species'', ''common_name''] d of
             Some key \<Rightarrow> Inl (ValidationError [''sample_detail must contain '' @ quoted key])
           | None \<Rightarrow>
               if falsy (dict_get d ''species'') \<or> str_strip_empty (dict_get d ''species'')
               then Inl (ValidationError [''Species name cannot be empty''])
               else clean_sampling_date ev d)
      | _ \<Rightarrow> Inl (ValidationError [''sample_detail must be a JSON object'']))"

text \<open>
  The first statement of \<^verbatim>\<open>PlantSample.save\<close>:
  \<^verbatim>\<open>if not self.sample_detail.get('sampling_date'): self.sample_detail['sampling_date'] = date.today().isoformat()\<close>.
\<close>

definition autofill_sampling_date :: "date \<Rightarrow> (string \<times> json) list \<Rightarrow> (string \<times> json) list" where
  "autofill_sampling_date today_date d =
     (if falsy (dict_get d ''sampling_date'')
      then dict_set d ''sampling_date'' (JStr (isoformat today_date))
      else d)"

subsection \<open>The tables\<close>

text \<open>
  One record per model class, one list of rows per table (in insertion order). Primary
  keys are the \<^verbatim>\<open>AutoField\<close> counters of the store. Timestamps are seconds on an abstract
  clock. A stored \<^verbatim>\<open>sample_detail\<close> is a dict: both sample serializers refuse any other
  JSON value before an instance is built.
\<close>

record SamplingLocation =
  location_id :: nat
  location_data :: json
  loc_created_at :: nat

record EnvironmentalConditions =
  condition_id :: nat
  condition_data :: json
  recorded_at :: nat

record ResearcherInfo =
  researcher_id :: nat
  name :: string
  email :: string
  phone :: "string option"
  affiliation :: "string option"
  res_created_at :: nat

record PlantSample =
  sample_id :: nat
  sample_detail :: "(string \<times> json) list"
  location :: nat
  condition :: nat
  is_deleted :: bool
  deleted_at :: "nat option"
  created_at :: nat
  updated_at :: nat

record SampleResearchers =
  sr_id :: nat
  sr_sample :: nat
  sr_researcher :: nat
  role :: "string option"
  assigned_at :: nat

record GrowthMetrics =
  growth_id :: nat
  gm_sample :: nat
  height :: "rat option"
  leaf_count :: "int option"
  stem_diameter :: "rat option"
  health_status :: "string option"
  measured_at :: nat

record SampleAuditLog =
  log_id :: nat
  log_sample_id :: nat
  action :: string
  performed_at :: nat
  details :: json

record store =
  locations :: "SamplingLocation list"
  conditions :: "EnvironmentalConditions list"
  researchers :: "ResearcherInfo list"
  samples :: "PlantSample list"
  sample_researchers :: "SampleResearchers list"
  growth_metrics :: "GrowthMetrics list"
  audit_log :: "SampleAuditLog list"
  next_sample_id :: nat
  next_sr_id :: nat
  next_growth_id :: nat
  next_log_id :: nat

subsection \<open>Transactions\<close>

text \<open>
  The body of a \<^verbatim>\<open>with transaction.atomic():\<close> block is a computation over the number
  of write statements run so far and the store; it stops at the first exception.
  \<open>atomic\<close> commits the final store when the body returns and keeps the store it
  started from when the body raises.
\<close>

type_synonym 'a tx = "nat \<times> store \<Rightarrow> error + ('a \<times> nat \<times> store)"

definition return_tx :: "'a \<Rightarrow> 'a tx" where
  "return_tx a = (\<lambda>s. Inr (a, s))"

definition bind_tx :: "'a tx \<Rightarrow> ('a \<Rightarrow> 'b tx) \<Rightarrow> 'b tx" where
  "bind_tx m f = (\<lambda>s. case m s of Inl e \<Rightarrow> Inl e | Inr (a, s') \<Rightarrow> f a s')"

text \<open>A read of the store that may raise.\<close>

definition check :: "(store \<Rightarrow> error + 'a) \<Rightarrow> 'a tx" where
  "check f = (\<lambda>(k, st). case f st of Inl e \<Rightarrow> Inl e | Inr a \<Rightarrow> Inr (a, (k, st)))"

definition query :: "(store \<Rightarrow> 'a) \<Rightarrow> 'a tx" where
  "query f = (\<lambda>(k, st). Inr (f st, (k, st)))"

text \<open>
  A write statement \<open>q\<close> with its effect \<open>w\<close> on the store: the backend may fail it, and
  a constraint of the table may refuse it.
\<close>

definition execute :: "env \<Rightarrow> statement \<Rightarrow> (store \<Rightarrow> error + ('a \<times> store)) \<Rightarrow> 'a tx" where
  "execute ev q w =
     (\<lambda>(k, st). if failing ev k then Inl (StorageError q)
                else (case w st of Inl e \<Rightarrow> Inl e | Inr (a, st') \<Rightarrow> Inr (a, (Suc k, st'))))"

definition atomic :: "'a tx \<Rightarrow> store \<Rightarrow> (error + 'a) \<times> store" where
  "atomic m st = (case m (0, st) of Inl e \<Rightarrow> (Inl e, st) | Inr (a, (k, st')) \<Rightarrow> (Inr a, st'))"

subsection \<open>Writes of the models\<close>

text \<open>\<^verbatim>\<open>SampleAuditLog.objects.create(sample_id=..., action=..., details=...)\<close>.\<close>

definition insert_audit :: "nat \<Rightarrow> nat \<Rightarrow> string \<Rightarrow> json \<Rightarrow> store \<Rightarrow> error + (SampleAuditLog \<times> store)" where
  "insert_audit t sid act det st =
     (let row = \<lparr>log_id = next_log_id st, log_sample_id = sid, action = act,
                 performed_at = t, details = det\<rparr>
      in Inr (row, st\<lparr>audit_log := audit_log st @ [row], next_log_id := Suc (next_log_id st)\<rparr>))"

definition SampleAuditLog_create :: "env \<Rightarrow> nat \<Rightarrow> string \<Rightarrow> json \<Rightarrow> SampleAuditLog tx" where
  "SampleAuditLog_create ev sid act det = execute ev Insert_audit_log (insert_audit (now ev) sid act det)"

text \<open>
  \<^verbatim>\<open>full_clean\<close> of a sample: the field checks of the two foreign keys (the referenced
  row has to exist), then \<^verbatim>\<open>clean\<close>. Django collects the validation errors of both
  steps into one \<^verbatim>\<open>ValidationError\<close>; any other exception of \<^verbatim>\<open>clean\<close> goes through
  as it is. After the date was filled in, the detail is never an empty dict, so the
  blank check of the JSON field cannot fail.
\<close>

definition clean_fields_sample :: "store \<Rightarrow> PlantSample \<Rightarrow> string list" where
  "clean_fields_sample st self =
     (if location self \<in> location_id ` set (locations st) then []
      else [''sampling location instance with location_id '' @ str_nat (location self) @
            '' does not exist.'']) @
     (if condition self \<in> condition_id ` set (conditions st) then []
      else [''environmental conditions instance with condition_id '' @ str_nat (condition self) @
            '' does not exist.''])"

definition full_clean_sample :: "env \<Rightarrow> PlantSample \<Rightarrow> store \<Rightarrow> error + unit" where
  "full_clean_sample ev self st =
     (let field_errors = clean_fields_sample st self in
      case clean_sample ev (JObj (sample_detail self)) of
        Inl (ValidationError msgs) \<Rightarrow> Inl (ValidationError (field_errors @ msgs))
      | Inl e \<Rightarrow> Inl e
      | Inr u \<Rightarrow> if field_errors = [] then Inr () else Inl (ValidationError field_errors))"

text \<open>
  \<^verbatim>\<open>super().save()\<close>: an INSERT for a new instance (\<open>adding\<close>), with the next primary key
  and both timestamps set, and an UPDATE of the row otherwise, with \<^verbatim>\<open>updated_at\<close> set.
\<close>

definition write_sample :: "nat \<Rightarrow> bool \<Rightarrow> PlantSample \<Rightarrow> store \<Rightarrow> error + (PlantSample \<times> store)" where
  "write_sample t adding self st =
     (if adding
      then (let row = self\<lparr>sample_id := next_sample_id st, created_at := t, updated_at := t\<rparr>
            in Inr (row, st\<lparr>samples := samples st @ [row],
                            next_sample_id := Suc (next_sample_id st)\<rparr>))
      else (let row = self\<lparr>updated_at := t\<rparr>
            in Inr (row, st\<lparr>samples := map (\<lambda>r. if sample_id r = sample_id row then row else r)
                                            (samples st)\<rparr>)))"

text \<open>\<^verbatim>\<open>PlantSample.save\<close> (models.py, 273-279).\<close>

definition PlantSample_save :: "env \<Rightarrow> bool \<Rightarrow> PlantSample \<Rightarrow> PlantSample tx" where
  "PlantSample_save ev adding self =
     (let self = self\<lparr>sample_detail := autofill_sampling_date (today ev) (sample_detail self)\<rparr>
      in bind_tx (check (full_clean_sample ev self))
           (\<lambda>u. execute ev (if adding then Insert_sample else Update_sample)
                  (write_sample (now ev) adding self)))"

text \<open>\<^verbatim>\<open>PlantSample.soft_delete\<close> (models.py, 281-285); \<^verbatim>\<open>delete\<close> is overridden to call it.\<close>

definition PlantSample_soft_delete :: "env \<Rightarrow> PlantSample \<Rightarrow> PlantSample tx" where
  "PlantSample_soft_delete ev self =
     PlantSample_save ev False (self\<lparr>is_deleted := True, deleted_at := Some (now ev)\<rparr>)"

text \<open>
  \<^verbatim>\<open>PlantSample.hard_delete\<close> (models.py, 287-294), three statements in this order.
  \<^verbatim>\<open>super().delete()\<close> removes the row and, by \<^verbatim>\<open>on_delete=CASCADE\<close>, whatever growth
  metrics and researcher links still point to it.
\<close>

definition delete_growth_metrics_of :: "nat \<Rightarrow> store \<Rightarrow> error + (unit \<times> store)" where
  "delete_growth_metrics_of sid st =
     Inr ((), st\<lparr>growth_metrics := filter (\<lambda>g. gm_sample g \<noteq> sid) (growth_metrics st)\<rparr>)"

definition delete_sample_researchers_of :: "nat \<Rightarrow> store \<Rightarrow> error + (unit \<times> store)" where
  "delete_sample_researchers_of sid st =
     Inr ((), st\<lparr>sample_researchers := filter (\<lambda>l. sr_sample l \<noteq> sid) (sample_researchers st)\<rparr>)"

definition delete_sample_row :: "nat \<Rightarrow> store \<Rightarrow> error + (unit \<times> store)" where
  "delete_sample_row sid st =
     Inr ((), st\<lparr>growth_metrics := filter (\<lambda>g. gm_sample g \<noteq> sid) (growth_metrics st),
                 sample_researchers := filter (\<lambda>l. sr_sample l \<noteq> sid) (sample_researchers st),
                 samples := filter (\<lambda>s. sample_id s \<noteq> sid) (samples st)\<rparr>)"

definition PlantSample_hard_delete :: "env \<Rightarrow> PlantSample \<Rightarrow> unit tx" where
  "PlantSample_hard_delete ev self =
     bind_tx (execute ev Delete_growth_metrics (delete_growth_metrics_of (sample_id self)))
       (\<lambda>u. bind_tx (execute ev Delete_sample_researchers (delete_sample_researchers_of (sample_id self)))
       (\<lambda>u. execute ev Delete_sample (delete_sample_row (sample_id self))))"

subsection \<open>Serializers of samples\<close>

text \<open>
  The body of a sample request is the three serializer fields, each present or absent
  (any other key of the body is ignored); primary keys are numbers. A field that fails
  contributes its message to \<^verbatim>\<open>serializer.errors\<close>; the serializer is valid when no
  field fails, and its validated data are the fields that were present.
\<close>

record sample_request =
  req_sample_detail :: "json option"
  req_location :: "nat option"
  req_condition :: "nat option"

record sample_validated =
  v_sample_detail :: "(string \<times> json) list option"
  v_location :: "nat option"
  v_condition :: "nat option"

text \<open>
  \<^verbatim>\<open>validate_sample_detail\<close>, the same body in \<^verbatim>\<open>PlantSampleCreateSerializer\<close>
  (serializers.py, 228-238) and \<^verbatim>\<open>PlantSampleUpdateSerializer\<close> (248-258).
\<close>

definition validate_sample_detail :: "json \<Rightarrow> string + (string \<times> json) list" where
  "validate_sample_detail v =
     (case v of
        JObj d \<Rightarrow>
          (case first_missing [''sampling_date'', ''species'', ''common_name''] d of
             Some key \<Rightarrow> Inl (''sample_detail must contain '' @ quoted key)
           | None \<Rightarrow> Inr d)
      | _ \<Rightarrow> Inl ''sample_detail must be a JSON object'')"

text \<open>The JSON field refuses \<^verbatim>\<open>null\<close> before the method above runs.\<close>

definition sample_detail_field :: "json \<Rightarrow> string + (string \<times> json) list" where
  "sample_detail_field v =
     (case v of JNull \<Rightarrow> Inl ''This field may not be null.'' | _ \<Rightarrow> validate_sample_detail v)"

definition pk_field :: "nat list \<Rightarrow> nat \<Rightarrow> string + nat" where
  "pk_field pks pk =
     (if pk \<in> set pks then Inr pk
      else Inl (''Invalid pk '' @ [CHR 0x22] @ str_nat pk @ [CHR 0x22] @ '' - object does not exist.''))"

text \<open>An absent field is an error unless the serializer is partial.\<close>

definition run_field :: "bool \<Rightarrow> 'a option \<Rightarrow> ('a \<Rightarrow> string + 'b) \<Rightarrow> string + 'b option" where
  "run_field partial v validate =
     (case v of
        None \<Rightarrow> if partial then Inr None else Inl ''This field is required.''
      | Some x \<Rightarrow> (case validate x of Inl m \<Rightarrow> Inl m | Inr y \<Rightarrow> Inr (Some y)))"

definition field_errors :: "string \<Rightarrow> string + 'b \<Rightarrow> (string \<times> string list) list" where
  "field_errors field r = (case r of Inl m \<Rightarrow> [(field, [m])] | Inr y \<Rightarrow> [])"

definition PlantSampleSerializer_validate ::
    "bool \<Rightarrow> store \<Rightarrow> sample_request \<Rightarrow> (string \<times> string list) list + sample_validated" where
  "PlantSampleSerializer_validate partial st req =
     (let a = run_field partial (req_sample_detail req) sample_detail_field;
          b = run_field partial (req_location req) (pk_field (map location_id (locations st)));
          c = run_field partial (req_condition req) (pk_field (map condition_id (conditions st)))
      in case (a, b, c) of
           (Inr d, Inr l, Inr k) \<Rightarrow> Inr \<lparr>v_sample_detail = d, v_location = l, v_condition = k\<rparr>
         | _ \<Rightarrow> Inl (field_errors ''sample_detail'' a @ field_errors ''location'' b @
                     field_errors ''condition'' c))"

text \<open>
  \<^verbatim>\<open>ModelSerializer.update\<close>: \<^verbatim>\<open>setattr(instance, attr, value)\<close> for each validated field.
  \<^verbatim>\<open>ModelSerializer.create\<close> builds the instance from the validated fields, all three
  of which a valid non-partial serializer has; the other columns take their defaults.
\<close>

definition set_validated :: "sample_validated \<Rightarrow> PlantSample \<Rightarrow> PlantSample" where
  "set_validated v instance =
     instance\<lparr>sample_detail := (case v_sample_detail v of Some d \<Rightarrow> d | None \<Rightarrow> sample_detail instance),
              location := (case v_location v of Some l \<Rightarrow> l | None \<Rightarrow> location instance),
              condition := (case v_condition v of Some k \<Rightarrow> k | None \<Rightarrow> condition instance)\<rparr>"

definition new_sample :: PlantSample where
  "new_sample = \<lparr>sample_id = 0, sample_detail = [], location = 0, condition = 0,
                 is_deleted = False, deleted_at = None, created_at = 0, updated_at = 0\<rparr>"

subsection \<open>What the sample views return\<close>

record researcher_item =
  ri_researcher_id :: nat
  ri_name :: string
  ri_email :: string
  ri_role :: "string option"

text \<open>
  \<^verbatim>\<open>PlantSampleDetailSerializer\<close>. The two \<^verbatim>\<open>_local\<close> fields are the timestamps moved by
  eight hours; their rendering as text is not modelled.
\<close>

record sample_detail_data =
  d_sample_id :: nat
  d_sample_detail :: "(string \<times> json) list"
  d_location :: nat
  d_location_data :: "SamplingLocation option"
  d_condition :: nat
  d_condition_data :: "EnvironmentalConditions option"
  d_researchers :: "researcher_item list"
  d_growth_measurements :: "GrowthMetrics list"
  d_status :: string
  d_created_at :: nat
  d_created_at_local :: nat
  d_updated_at :: nat
  d_updated_at_local :: nat

text \<open>\<^verbatim>\<open>PlantSampleListSerializer\<close>: \<^verbatim>\<open>obj.sample_detail.get(key, '')\<close> for the three detail keys.\<close>

record sample_list_item =
  li_sample_id :: nat
  li_species :: json
  li_common_name :: json
  li_sampling_date :: json
  li_created_at :: nat
  li_updated_at :: nat

record link_data =
  ld_id :: nat
  ld_sample :: nat
  ld_researcher :: nat
  ld_researcher_name :: "string option"
  ld_researcher_email :: "string option"
  ld_role :: "string option"
  ld_assigned_at :: nat

datatype body =
    Json json
  | Errors "(string \<times> string list) list"
  | Error error
  | SampleDetail sample_detail_data
  | SampleList "sample_list_item list"
  | GrowthData GrowthMetrics
  | GrowthList "GrowthMetrics list"
  | LinkData link_data
  | AuditList "SampleAuditLog list"
  | NoContent

text \<open>
  \<open>Response status body\<close>. \<open>Error e\<close> is the body \<^verbatim>\<open>{'error': str(e)}\<close> of the views'
  \<^verbatim>\<open>except Exception as e\<close> (status 400), the 404 of \<^verbatim>\<open>get_object_or_404\<close>, and the 500 of
  an exception that no view catches.
\<close>

datatype response = Response nat body

definition dict_get_default :: "(string \<times> json) list \<Rightarrow> string \<Rightarrow> json \<Rightarrow> json" where
  "dict_get_default d key dflt = (case map_of d key of None \<Rightarrow> dflt | Some v \<Rightarrow> v)"

definition get_researchers :: "store \<Rightarrow> PlantSample \<Rightarrow> researcher_item list" where
  "get_researchers st obj =
     concat (map (\<lambda>sr. case find (\<lambda>r. researcher_id r = sr_researcher sr) (researchers st) of
                          None \<Rightarrow> []
                        | Some r \<Rightarrow> [\<lparr>ri_researcher_id = researcher_id r, ri_name = name r,
                                      ri_email = email r, ri_role = role sr\<rparr>])
                 (filter (\<lambda>sr. sr_sample sr = sample_id obj) (sample_researchers st)))"

definition get_status :: "PlantSample \<Rightarrow> string" where
  "get_status obj = (if is_deleted obj then ''deleted'' else ''active'')"

definition PlantSampleDetailSerializer_data :: "PlantSample \<Rightarrow> store \<Rightarrow> sample_detail_data" where
  "PlantSampleDetailSerializer_data obj st =
     \<lparr>d_sample_id = sample_id obj,
      d_sample_detail = sample_detail obj,
      d_location = location obj,
      d_location_data = find (\<lambda>l. location_id l = location obj) (locations st),
      d_condition = condition obj,
      d_condition_data = find (\<lambda>k. condition_id k = condition obj) (conditions st),
      d_researchers = get_researchers st obj,
      d_growth_measurements = filter (\<lambda>g. gm_sample g = sample_id obj) (growth_metrics st),
      d_status = get_status obj,
      d_created_at = created_at obj,
      d_created_at_local = created_at obj + 8 * 3600,
      d_updated_at = updated_at obj,
      d_updated_at_local = updated_at obj + 8 * 3600\<rparr>"

definition PlantSampleListSerializer_data :: "PlantSample \<Rightarrow> sample_list_item" where
  "PlantSampleListSerializer_data obj =
     \<lparr>li_sample_id = sample_id obj,
      li_species = dict_get_default (sample_detail obj) ''species'' (JStr ''''),
      li_common_name = dict_get_default (sample_detail obj) ''common_name'' (JStr ''''),
      li_sampling_date = dict_get_default (sample_detail obj) ''sampling_date'' (JStr ''''),
      li_created_at = created_at obj,
      li_updated_at = updated_at obj\<rparr>"

text \<open>
  \<^verbatim>\<open>order_by('-field')\<close>: descending in the field. The query fixes no order among rows
  with the same value; they stay in the order of the table.
\<close>

definition order_by_desc :: "('a \<Rightarrow> nat) \<Rightarrow> 'a list \<Rightarrow> 'a list" where
  "order_by_desc f xs = sort_key (\<lambda>x. - int (f x)) xs"

definition get_sample :: "store \<Rightarrow> nat \<Rightarrow> PlantSample option" where
  "get_sample st sid = find (\<lambda>s. sample_id s = sid) (samples st)"

subsection \<open>The sample views\<close>

text \<open>\<^verbatim>\<open>PlantSampleListView\<close> (views.py, 135-140).\<close>

definition PlantSampleListView_get :: "store \<Rightarrow> response" where
  "PlantSampleListView_get st =
     Response 200 (SampleList (map PlantSampleListSerializer_data
        (order_by_desc created_at (filter (\<lambda>s. \<not> is_deleted s) (samples st)))))"

text \<open>\<^verbatim>\<open>PlantSampleCreateView.post\<close> (views.py, 149-179).\<close>

definition create_sample_tx :: "env \<Rightarrow> sample_validated \<Rightarrow> sample_detail_data tx" where
  "create_sample_tx ev v =
     bind_tx (PlantSample_save ev True (set_validated v new_sample))
       (\<lambda>sample. bind_tx (SampleAuditLog_create ev (sample_id sample) ''CREATED''
                            (JObj [(''species'', dict_get (sample_detail sample) ''species''),
                                   (''location_id'', JNum (of_nat (location sample)))]))
       (\<lambda>entry. query (PlantSampleDetailSerializer_data sample)))"

definition PlantSampleCreateView_post :: "env \<Rightarrow> sample_request \<Rightarrow> store \<Rightarrow> response \<times> store" where
  "PlantSampleCreateView_post ev req st =
     (case PlantSampleSerializer_validate False st req of
        Inr v \<Rightarrow>
          (case atomic (create_sample_tx ev v) st of
             (Inr data, st') \<Rightarrow> (Response 201 (SampleDetail data), st')
           | (Inl e, st') \<Rightarrow> (Response 400 (Error e), st'))
      | Inl errors \<Rightarrow> (Response 400 (Errors errors), st))"

text \<open>\<^verbatim>\<open>PlantSampleDetailView.get\<close> (views.py, 189-204).\<close>

definition deleted_marker :: "string \<Rightarrow> nat \<Rightarrow> body" where
  "deleted_marker message sid =
     Json (JObj [(''message'', JStr message), (''sample_id'', JNum (of_nat sid)),
                 (''status'', JStr ''deleted'')])"

definition PlantSampleDetailView_get :: "nat \<Rightarrow> store \<Rightarrow> response" where
  "PlantSampleDetailView_get sid st =
     (case get_sample st sid of
        None \<Rightarrow> Response 404 (Error Http404)
      | Some sample \<Rightarrow>
          if is_deleted sample then Response 200 (deleted_marker ''Sample deleted'' sid)
          else Response 200 (SampleDetail (PlantSampleDetailSerializer_data sample st)))"

text \<open>\<^verbatim>\<open>PlantSampleDetailView.delete\<close> (views.py, 206-248): the soft delete.\<close>

definition soft_delete_tx :: "env \<Rightarrow> PlantSample \<Rightarrow> json tx" where
  "soft_delete_tx ev sample =
     (let species = dict_get_default (sample_detail sample) ''species'' (JStr ''Unknown'')
      in bind_tx (SampleAuditLog_create ev (sample_id sample) ''DELETED''
                    (JObj [(''species'', species)]))
           (\<lambda>entry. bind_tx (PlantSample_soft_delete ev sample)
           (\<lambda>s. return_tx species)))"

definition PlantSampleDetailView_delete :: "env \<Rightarrow> nat \<Rightarrow> store \<Rightarrow> response \<times> store" where
  "PlantSampleDetailView_delete ev sid st =
     (case get_sample st sid of
        None \<Rightarrow> (Response 404 (Error Http404), st)
      | Some sample \<Rightarrow>
          if is_deleted sample
          then (Response 200 (deleted_marker ''Sample already deleted'' sid), st)
          else (case atomic (soft_delete_tx ev sample) st of
                  (Inr species, st') \<Rightarrow>
                    (Response 200 (Json (JObj
                       [(''message'', JStr (''Sample '' @ str_nat sid @ '' soft deleted successfully'')),
                        (''deleted_sample'',
                           JObj [(''sample_id'', JNum (of_nat sid)), (''species'', species),
                                 (''status'', JStr ''deleted'')])])), st')
                | (Inl e, st') \<Rightarrow> (Response 400 (Error e), st')))"

text \<open>
  \<^verbatim>\<open>PlantSampleUpdateView.put\<close> and \<^verbatim>\<open>.patch\<close> (views.py, 257-337): the same body, the
  serializer being partial for \<^verbatim>\<open>patch\<close>.
\<close>

definition update_sample_tx :: "env \<Rightarrow> PlantSample \<Rightarrow> sample_validated \<Rightarrow> sample_detail_data tx" where
  "update_sample_tx ev sample v =
     (let old_detail = sample_detail sample
      in bind_tx (PlantSample_save ev False (set_validated v sample))
           (\<lambda>updated_sample.
              bind_tx (SampleAuditLog_create ev (sample_id updated_sample) ''UPDATED''
                         (JObj [(''old_detail'', JObj old_detail),
                                (''new_detail'', JObj (sample_detail updated_sample))]))
           (\<lambda>entry. query (PlantSampleDetailSerializer_data updated_sample))))"

definition update_sample :: "bool \<Rightarrow> env \<Rightarrow> nat \<Rightarrow> sample_request \<Rightarrow> store \<Rightarrow> response \<times> store" where
  "update_sample partial ev sid req st =
     (case get_sample st sid of
        None \<Rightarrow> (Response 404 (Error Http404), st)
      | Some sample \<Rightarrow>
          if is_deleted sample
          then (Response 400 (Json (JObj [(''error'',
                   JStr (''Sample '' @ str_nat sid @ '' is deleted and cannot be updated''))])), st)
          else (case PlantSampleSerializer_validate partial st req of
                  Inr v \<Rightarrow>
                    (case atomic (update_sample_tx ev sample v) st of
                       (Inr data, st') \<Rightarrow> (Response 200 (SampleDetail data), st')
                     | (Inl e, st') \<Rightarrow> (Response 400 (Error e), st'))
                | Inl errors \<Rightarrow> (Response 400 (Errors errors), st)))"

definition PlantSampleUpdateView_put :: "env \<Rightarrow> nat \<Rightarrow> sample_request \<Rightarrow> store \<Rightarrow> response \<times> store" where
  "PlantSampleUpdateView_put = update_sample False"

definition PlantSampleUpdateView_patch :: "env \<Rightarrow> nat \<Rightarrow> sample_request \<Rightarrow> store \<Rightarrow> response \<times> store" where
  "PlantSampleUpdateView_patch = update_sample True"

text \<open>\<^verbatim>\<open>PlantSampleHardDeleteView.delete\<close> (views.py, 346-382).\<close>

definition hard_delete_tx :: "env \<Rightarrow> PlantSample \<Rightarrow> json tx" where
  "hard_delete_tx ev sample =
     (let species = dict_get_default (sample_detail sample) ''species'' (JStr ''Unknown'')
      in bind_tx (SampleAuditLog_create ev (sample_id sample) ''HARD_DELETED''
                    (JObj [(''species'', species),
                           (''warning'', JStr ''PERMANENT DELETION - All data removed from database'')]))
           (\<lambda>entry. bind_tx (PlantSample_hard_delete ev sample)
           (\<lambda>u. return_tx species)))"

definition PlantSampleHardDeleteView_delete :: "env \<Rightarrow> nat \<Rightarrow> store \<Rightarrow> response \<times> store" where
  "PlantSampleHardDeleteView_delete ev sid st =
     (case get_sample st sid of
        None \<Rightarrow> (Response 404 (Error Http404), st)
      | Some sample \<Rightarrow>
          (case atomic (hard_delete_tx ev sample) st of
             (Inr species, st') \<Rightarrow>
               (Response 200 (Json (JObj
                  [(''message'', JStr (''Sample '' @ str_nat sid @ '' permanently deleted from database'')),
                   (''deleted_sample'',
                      JObj [(''sample_id'', JNum (of_nat sid)), (''species'', species),
                            (''deletion_type'', JStr ''permanent'')]),
                   (''warning'',
                      JStr ''This action cannot be undone. All data has been permanently removed.'')])),
                st')
           | (Inl e, st') \<Rightarrow> (Response 400 (Error e), st')))"


subsection \<open>Deleting locations, conditions and researchers\<close>

text \<open>
  The generic \<^verbatim>\<open>RetrieveUpdateDestroyAPIView\<close> of \<^verbatim>\<open>SamplingLocationDetailView\<close> and
  \<^verbatim>\<open>EnvironmentalConditionsDetailView\<close> (views.py, 78-108) calls \<^verbatim>\<open>instance.delete()\<close>.
  Both foreign keys of \<^verbatim>\<open>PlantSample\<close> are declared \<^verbatim>\<open>on_delete=models.RESTRICT\<close>
  (models.py, 222-233): the delete raises \<^verbatim>\<open>RestrictedError\<close> while a sample row
  refers to the instance. The view does not catch it, which is a status 500.
\<close>

definition delete_location :: "nat \<Rightarrow> store \<Rightarrow> error + (unit \<times> store)" where
  "delete_location lid st =
     (if \<exists>s \<in> set (samples st). location s = lid then Inl RestrictedError
      else Inr ((), st\<lparr>locations := filter (\<lambda>l. location_id l \<noteq> lid) (locations st)\<rparr>))"

definition SamplingLocationDetailView_delete :: "env \<Rightarrow> nat \<Rightarrow> store \<Rightarrow> response \<times> store" where
  "SamplingLocationDetailView_delete ev lid st =
     (case find (\<lambda>l. location_id l = lid) (locations st) of
        None \<Rightarrow> (Response 404 (Error Http404), st)
      | Some instance \<Rightarrow>
          (case atomic (execute ev Delete_location (delete_location lid)) st of
             (Inr u, st') \<Rightarrow> (Response 204 NoContent, st')
           | (Inl e, st') \<Rightarrow> (Response 500 (Error e), st')))"

definition delete_condition :: "nat \<Rightarrow> store \<Rightarrow> error + (unit \<times> store)" where
  "delete_condition cid st =
     (if \<exists>s \<in> set (samples st). condition s = cid then Inl RestrictedError
      else Inr ((), st\<lparr>conditions := filter (\<lambda>k. condition_id k \<noteq> cid) (conditions st)\<rparr>))"

definition EnvironmentalConditionsDetailView_delete :: "env \<Rightarrow> nat \<Rightarrow> store \<Rightarrow> response \<times> store" where
  "EnvironmentalConditionsDetailView_delete ev cid st =
     (case find (\<lambda>k. condition_id k = cid) (conditions st) of
        None \<Rightarrow> (Response 404 (Error Http404), st)
      | Some instance \<Rightarrow>
          (case atomic (execute ev Delete_condition (delete_condition cid)) st of
             (Inr u, st') \<Rightarrow> (Response 204 NoContent, st')
           | (Inl e, st') \<Rightarrow> (Response 500 (Error e), st')))"

text \<open>
  \<^verbatim>\<open>ResearcherInfoDetailView\<close> (views.py, 122-130): the links of the researcher go with
  it (\<^verbatim>\<open>on_delete=models.CASCADE\<close>, models.py, 325-330).
\<close>

definition delete_researcher :: "nat \<Rightarrow> store \<Rightarrow> error + (unit \<times> store)" where
  "delete_researcher rid st =
     Inr ((), st\<lparr>sample_researchers := filter (\<lambda>l. sr_researcher l \<noteq> rid) (sample_researchers st),
                 researchers := filter (\<lambda>r. researcher_id r \<noteq> rid) (researchers st)\<rparr>)"

definition ResearcherInfoDetailView_delete :: "env \<Rightarrow> nat \<Rightarrow> store \<Rightarrow> response \<times> store" where
  "ResearcherInfoDetailView_delete ev rid st =
     (case find (\<lambda>r. researcher_id r = rid) (researchers st) of
        None \<Rightarrow> (Response 404 (Error Http404), st)
      | Some instance \<Rightarrow>
          (case atomic (execute ev Delete_researcher (delete_researcher rid)) st of
             (Inr u, st') \<Rightarrow> (Response 204 NoContent, st')
           | (Inl e, st') \<Rightarrow> (Response 500 (Error e), st')))"

subsection \<open>Links between samples and researchers\<close>

definition ROLE_CHOICES :: "(string \<times> string) list" where
  "ROLE_CHOICES =
     [(''lead_researcher'', ''Lead Researcher''), (''assistant_researcher'', ''Assistant Researcher''),
      (''field_technician'', ''Field Technician''), (''data_analyst'', ''Data Analyst''),
      (''supervisor'', ''Supervisor'')]"

record link_request =
  lr_sample :: "nat option"
  lr_researcher :: "nat option"
  lr_role :: "string option"

text \<open>A choice field that may be blank: the empty text or one of the choices.\<close>

definition choice_field :: "string list \<Rightarrow> string \<Rightarrow> string + string" where
  "choice_field choices v =
     (if v = [] \<or> v \<in> set choices then Inr v
      else Inl ([CHR 0x22] @ v @ [CHR 0x22] @ '' is not a valid choice.''))"

text \<open>
  \<^verbatim>\<open>Meta.unique_together = [['sample', 'researcher']]\<close> (models.py, 339-341) is a unique
  constraint of the table, which refuses the write with \<^verbatim>\<open>IntegrityError\<close>, and gives
  both link serializers a validator that looks for another row with the same pair.
\<close>

definition pair_taken :: "store \<Rightarrow> nat option \<Rightarrow> nat \<Rightarrow> nat \<Rightarrow> bool" where
  "pair_taken st instance_id sid rid =
     (\<exists>l \<in> set (sample_researchers st).
        sr_sample l = sid \<and> sr_researcher l = rid \<and> Some (sr_id l) \<noteq> instance_id)"

definition unique_message :: string where
  "unique_message = ''The fields sample, researcher must make a unique set.''"

definition SampleResearchersSerializer_validate ::
    "bool \<Rightarrow> SampleResearchers option \<Rightarrow> store \<Rightarrow> link_request \<Rightarrow>
       (string \<times> string list) list + link_request" where
  "SampleResearchersSerializer_validate partial instance st req =
     (let a = run_field partial (lr_sample req) (pk_field (map sample_id (samples st)));
          b = run_field partial (lr_researcher req) (pk_field (map researcher_id (researchers st)));
          c = run_field True (lr_role req) (choice_field (map fst ROLE_CHOICES))
      in case (a, b, c) of
           (Inr s, Inr r, Inr ro) \<Rightarrow>
             (case (case s of Some x \<Rightarrow> Some x | None \<Rightarrow> map_option sr_sample instance,
                    case r of Some x \<Rightarrow> Some x | None \<Rightarrow> map_option sr_researcher instance) of
                (Some sid, Some rid) \<Rightarrow>
                  if pair_taken st (map_option sr_id instance) sid rid
                  then Inl [(''non_field_errors'', [unique_message])]
                  else Inr \<lparr>lr_sample = s, lr_researcher = r, lr_role = ro\<rparr>
              | _ \<Rightarrow> Inr \<lparr>lr_sample = s, lr_researcher = r, lr_role = ro\<rparr>)
         | _ \<Rightarrow> Inl (field_errors ''sample'' a @ field_errors ''researcher'' b @
                     field_errors ''role'' c))"

definition insert_link :: "nat \<Rightarrow> nat \<Rightarrow> nat \<Rightarrow> string option \<Rightarrow> store \<Rightarrow>
    error + (SampleResearchers \<times> store)" where
  "insert_link t sid rid ro st =
     (if pair_taken st None sid rid then Inl IntegrityError
      else (let row = \<lparr>sr_id = next_sr_id st, sr_sample = sid, sr_researcher = rid, role = ro,
                        assigned_at = t\<rparr>
            in Inr (row, st\<lparr>sample_researchers := sample_researchers st @ [row],
                            next_sr_id := Suc (next_sr_id st)\<rparr>)))"

definition update_link :: "SampleResearchers \<Rightarrow> store \<Rightarrow> error + (SampleResearchers \<times> store)" where
  "update_link row st =
     (if pair_taken st (Some (sr_id row)) (sr_sample row) (sr_researcher row) then Inl IntegrityError
      else Inr (row, st\<lparr>sample_researchers :=
                           map (\<lambda>l. if sr_id l = sr_id row then row else l) (sample_researchers st)\<rparr>))"

definition delete_link :: "nat \<Rightarrow> store \<Rightarrow> error + (unit \<times> store)" where
  "delete_link lid st =
     Inr ((), st\<lparr>sample_researchers := filter (\<lambda>l. sr_id l \<noteq> lid) (sample_researchers st)\<rparr>)"

definition SampleResearchersSerializer_data :: "SampleResearchers \<Rightarrow> store \<Rightarrow> link_data" where
  "SampleResearchersSerializer_data obj st =
     (let r = find (\<lambda>r. researcher_id r = sr_researcher obj) (researchers st)
      in \<lparr>ld_id = sr_id obj, ld_sample = sr_sample obj, ld_researcher = sr_researcher obj,
          ld_researcher_name = map_option name r, ld_researcher_email = map_option email r,
          ld_role = role obj, ld_assigned_at = assigned_at obj\<rparr>)"

text \<open>
  \<^verbatim>\<open>SampleResearchersCreateView.post\<close> (views.py, 400-417). There is no
  \<^verbatim>\<open>transaction.atomic\<close> here: the one INSERT is its own transaction.
\<close>

definition SampleResearchersCreateView_post :: "env \<Rightarrow> link_request \<Rightarrow> store \<Rightarrow> response \<times> store" where
  "SampleResearchersCreateView_post ev req st =
     (case SampleResearchersSerializer_validate False None st req of
        Inr v \<Rightarrow>
          (case (lr_sample v, lr_researcher v) of
             (Some sid, Some rid) \<Rightarrow>
               (case atomic (execute ev Insert_link (insert_link (now ev) sid rid (lr_role v))) st of
                  (Inr relationship, st') \<Rightarrow>
                    (Response 201 (LinkData (SampleResearchersSerializer_data relationship st')), st')
                | (Inl e, st') \<Rightarrow> (Response 400 (Error e), st'))
           | _ \<Rightarrow> (Response 400 (Errors []), st))
      | Inl errors \<Rightarrow> (Response 400 (Errors errors), st))"

text \<open>
  \<^verbatim>\<open>SampleResearchersDetailView\<close> (views.py, 420-428), the generic update (\<^verbatim>\<open>PUT\<close>, and
  \<^verbatim>\<open>PATCH\<close> with a partial serializer) and delete.
\<close>

definition set_link_validated :: "link_request \<Rightarrow> SampleResearchers \<Rightarrow> SampleResearchers" where
  "set_link_validated v instance =
     instance\<lparr>sr_sample := (case lr_sample v of Some s \<Rightarrow> s | None \<Rightarrow> sr_sample instance),
              sr_researcher := (case lr_researcher v of Some r \<Rightarrow> r | None \<Rightarrow> sr_researcher instance),
              role := (case lr_role v of Some ro \<Rightarrow> Some ro | None \<Rightarrow> role instance)\<rparr>"

definition SampleResearchersDetailView_update ::
    "bool \<Rightarrow> env \<Rightarrow> nat \<Rightarrow> link_request \<Rightarrow> store \<Rightarrow> response \<times> store" where
  "SampleResearchersDetailView_update partial ev lid req st =
     (case find (\<lambda>l. sr_id l = lid) (sample_researchers st) of
        None \<Rightarrow> (Response 404 (Error Http404), st)
      | Some instance \<Rightarrow>
          (case SampleResearchersSerializer_validate partial (Some instance) st req of
             Inr v \<Rightarrow>
               (case atomic (execute ev Update_link (update_link (set_link_validated v instance))) st of
                  (Inr row, st') \<Rightarrow> (Response 200 (LinkData (SampleResearchersSerializer_data row st')), st')
                | (Inl e, st') \<Rightarrow> (Response 500 (Error e), st'))
           | Inl errors \<Rightarrow> (Response 400 (Errors errors), st)))"

definition SampleResearchersDetailView_delete :: "env \<Rightarrow> nat \<Rightarrow> store \<Rightarrow> response \<times> store" where
  "SampleResearchersDetailView_delete ev lid st =
     (case find (\<lambda>l. sr_id l = lid) (sample_researchers st) of
        None \<Rightarrow> (Response 404 (Error Http404), st)
      | Some instance \<Rightarrow>
          (case atomic (execute ev Delete_link (delete_link lid)) st of
             (Inr u, st') \<Rightarrow> (Response 204 NoContent, st')
           | (Inl e, st') \<Rightarrow> (Response 500 (Error e), st')))"

subsection \<open>Growth metrics\<close>

definition HEALTH_STATUS_CHOICES :: "(string \<times> string) list" where
  "HEALTH_STATUS_CHOICES =
     [(''excellent'', ''Excellent''), (''good'', ''Good''), (''fair'', ''Fair''), (''poor'', ''Poor''),
      (''critical'', ''Critical'')]"

text \<open>
  The body of a growth request holds the values as the serializer fields parsed them
  (a decimal of at most ten digits, two of them after the point; an integer; text), absent
  or \<^verbatim>\<open>null\<close> being \<open>None\<close>. Modelled are the validators that the model declares
  (models.py, 371-395).
\<close>

record growth_request =
  gr_height :: "rat option"
  gr_leaf_count :: "int option"
  gr_stem_diameter :: "rat option"
  gr_health_status :: "string option"

definition range_field :: "'a::linorder \<Rightarrow> string \<Rightarrow> 'a \<Rightarrow> string \<Rightarrow> 'a \<Rightarrow> string + 'a" where
  "range_field lo lo_text hi hi_text v =
     (if v < lo then Inl (''Ensure this value is greater than or equal to '' @ lo_text @ ''.'')
      else if hi < v then Inl (''Ensure this value is less than or equal to '' @ hi_text @ ''.'')
      else Inr v)"

definition GrowthMetricsSerializer_validate ::
    "store \<Rightarrow> nat \<Rightarrow> growth_request \<Rightarrow> (string \<times> string list) list + growth_request" where
  "GrowthMetricsSerializer_validate st sid req =
     (let s = pk_field (map sample_id (samples st)) sid;
          h = run_field True (gr_height req) (range_field 0 ''0'' 200 ''200'');
          l = run_field True (gr_leaf_count req) (range_field 0 ''0'' 100000 ''100000'');
          d = run_field True (gr_stem_diameter req) (range_field 0 ''0'' 50 ''50'');
          c = run_field True (gr_health_status req) (choice_field (map fst HEALTH_STATUS_CHOICES))
      in case (s, h, l, d, c) of
           (Inr s', Inr h', Inr l', Inr d', Inr c') \<Rightarrow>
             Inr \<lparr>gr_height = h', gr_leaf_count = l', gr_stem_diameter = d', gr_health_status = c'\<rparr>
         | _ \<Rightarrow> Inl (field_errors ''sample'' s @ field_errors ''height'' h @
                     field_errors ''leaf_count'' l @ field_errors ''stem_diameter'' d @
                     field_errors ''health_status'' c))"

text \<open>
  \<^verbatim>\<open>GrowthMetrics.clean\<close> (models.py, 406-419). \<^verbatim>\<open>measured_at\<close> is \<^verbatim>\<open>auto_now_add\<close>: it is
  still \<^verbatim>\<open>None\<close> when \<^verbatim>\<open>save\<close> runs \<^verbatim>\<open>full_clean\<close> on a new instance. A missing sample and
  an unreadable date are passed over (\<^verbatim>\<open>except (PlantSample.DoesNotExist, ValueError): pass\<close>).
\<close>

definition clean_growth :: "env \<Rightarrow> nat \<Rightarrow> nat option \<Rightarrow> store \<Rightarrow> error + unit" where
  "clean_growth ev sid measured st =
     (case measured of
        None \<Rightarrow> Inr ()
      | Some t \<Rightarrow>
          if sid = 0 then Inr ()
          else (case get_sample st sid of
                  None \<Rightarrow> Inr ()
                | Some sample \<Rightarrow>
                    (let sample_date_str = dict_get (sample_detail sample) ''sampling_date''
                     in if falsy sample_date_str then Inr ()
                        else (case sample_date_str of
                                JStr s \<Rightarrow>
                                  (case strptime ev s of
                                     None \<Rightarrow> Inr ()
                                   | Some sample_date \<Rightarrow>
                                       if date_less (utc_date ev t) sample_date
                                       then Inl (ValidationError
                                         [''Growth metric date cannot be before sample collection date''])
                                       else Inr ())
                              | _ \<Rightarrow> Inl TypeError))))"

definition clean_fields_growth :: "store \<Rightarrow> nat \<Rightarrow> growth_request \<Rightarrow> string list" where
  "clean_fields_growth st sid v =
     concat (map snd
       (field_errors ''sample'' (pk_field (map sample_id (samples st)) sid) @
        field_errors ''height'' (run_field True (gr_height v) (range_field 0 ''0'' 200 ''200'')) @
        field_errors ''leaf_count'' (run_field True (gr_leaf_count v) (range_field 0 ''0'' 100000 ''100000'')) @
        field_errors ''stem_diameter'' (run_field True (gr_stem_diameter v) (range_field 0 ''0'' 50 ''50'')) @
        field_errors ''health_status''
          (run_field True (gr_health_status v) (choice_field (map fst HEALTH_STATUS_CHOICES)))))"

definition full_clean_growth :: "env \<Rightarrow> nat \<Rightarrow> growth_request \<Rightarrow> nat option \<Rightarrow> store \<Rightarrow> error + unit" where
  "full_clean_growth ev sid v measured st =
     (let errors = clean_fields_growth st sid v in
      case clean_growth ev sid measured st of
        Inl (ValidationError msgs) \<Rightarrow> Inl (ValidationError (errors @ msgs))
      | Inl e \<Rightarrow> Inl e
      | Inr u \<Rightarrow> if errors = [] then Inr () else Inl (ValidationError errors))"

definition insert_growth :: "nat \<Rightarrow> nat \<Rightarrow> growth_request \<Rightarrow> store \<Rightarrow> error + (GrowthMetrics \<times> store)" where
  "insert_growth t sid v st =
     (let row = \<lparr>growth_id = next_growth_id st, gm_sample = sid, height = gr_height v,
                 leaf_count = gr_leaf_count v, stem_diameter = gr_stem_diameter v,
                 health_status = gr_health_status v, measured_at = t\<rparr>
      in Inr (row, st\<lparr>growth_metrics := growth_metrics st @ [row],
                      next_growth_id := Suc (next_growth_id st)\<rparr>))"

text \<open>\<^verbatim>\<open>GrowthMetrics.save\<close> of a new instance (models.py, 421-423).\<close>

definition GrowthMetrics_create :: "env \<Rightarrow> nat \<Rightarrow> growth_request \<Rightarrow> GrowthMetrics tx" where
  "GrowthMetrics_create ev sid v =
     bind_tx (check (full_clean_growth ev sid v None))
       (\<lambda>u. execute ev Insert_growth_metrics (insert_growth (now ev) sid v))"

text \<open>\<^verbatim>\<open>float(x) if x else None\<close>: a zero decimal is false. The rounding of \<^verbatim>\<open>float\<close> is not modelled.\<close>

definition float_or_none :: "rat option \<Rightarrow> json" where
  "float_or_none x = (case x of None \<Rightarrow> JNull | Some r \<Rightarrow> if r = 0 then JNull else JNum r)"

definition growth_details :: "GrowthMetrics \<Rightarrow> json" where
  "growth_details g =
     JObj [(''growth_id'', JNum (of_nat (growth_id g))),
           (''height'', float_or_none (height g)),
           (''leaf_count'', (case leaf_count g of None \<Rightarrow> JNull | Some n \<Rightarrow> JNum (of_int n))),
           (''stem_diameter'', float_or_none (stem_diameter g)),
           (''health_status'', (case health_status g of None \<Rightarrow> JNull | Some s \<Rightarrow> JStr s))]"

text \<open>\<^verbatim>\<open>GrowthMetricsCreateForSampleView.post\<close> (views.py, 470-508).\<close>

definition add_growth_tx :: "env \<Rightarrow> nat \<Rightarrow> growth_request \<Rightarrow> GrowthMetrics tx" where
  "add_growth_tx ev sid v =
     bind_tx (GrowthMetrics_create ev sid v)
       (\<lambda>growth. bind_tx (SampleAuditLog_create ev sid ''GROWTH_METRICS_ADDED'' (growth_details growth))
       (\<lambda>entry. return_tx growth))"

definition GrowthMetricsCreateForSampleView_post ::
    "env \<Rightarrow> nat \<Rightarrow> growth_request \<Rightarrow> store \<Rightarrow> response \<times> store" where
  "GrowthMetricsCreateForSampleView_post ev sid req st =
     (case get_sample st sid of
        None \<Rightarrow> (Response 404 (Error Http404), st)
      | Some sample \<Rightarrow>
          (case GrowthMetricsSerializer_validate st sid req of
             Inr v \<Rightarrow>
               (case atomic (add_growth_tx ev sid v) st of
                  (Inr growth, st') \<Rightarrow> (Response 201 (GrowthData growth), st')
                | (Inl e, st') \<Rightarrow> (Response 400 (Error e), st'))
           | Inl errors \<Rightarrow> (Response 400 (Errors errors), st)))"

text \<open>\<^verbatim>\<open>GrowthMetricsBySampleView.get_queryset\<close> (views.py, 459-461).\<close>

definition GrowthMetricsBySampleView_get :: "nat \<Rightarrow> store \<Rightarrow> response" where
  "GrowthMetricsBySampleView_get sid st =
     Response 200 (GrowthList (order_by_desc measured_at
        (filter (\<lambda>g. gm_sample g = sid) (growth_metrics st))))"

subsection \<open>The audit row that a view writes\<close>

text \<open>
  Shorthand for the statements below: the row that \<^verbatim>\<open>SampleAuditLog.objects.create\<close>
  inserts into a given store, and the store with that row.
\<close>

definition audit_entry :: "env \<Rightarrow> store \<Rightarrow> nat \<Rightarrow> string \<Rightarrow> json \<Rightarrow> SampleAuditLog" where
  "audit_entry ev st sid act det =
     \<lparr>log_id = next_log_id st, log_sample_id = sid, action = act, performed_at = now ev, details = det\<rparr>"

definition with_audit :: "SampleAuditLog \<Rightarrow> store \<Rightarrow> store" where
  "with_audit row st = st\<lparr>audit_log := audit_log st @ [row], next_log_id := Suc (next_log_id st)\<rparr>"

subsection \<open>A small store for the concrete cases\<close>

text \<open>
  One location, one condition, one researcher; sample 1 is active, sample 2 is soft
  deleted; each has one growth metric, sample 1 has one researcher link.
\<close>

definition example_env :: env where
  "example_env = \<lparr>now = 1000, today = Date 2024 3 10, utc_date = (\<lambda>t. Date 2024 3 10),
                   strptime_other = (\<lambda>s. None), failing = (\<lambda>k. False)\<rparr>"

definition oak :: PlantSample where
  "oak = \<lparr>sample_id = 1,
          sample_detail = [(''species'', JStr ''Quercus robur''), (''common_name'', JStr ''English Oak''),
                           (''sampling_date'', JStr ''2024-03-01'')],
          location = 1, condition = 1, is_deleted = False, deleted_at = None,
          created_at = 100, updated_at = 100\<rparr>"

definition beech :: PlantSample where
  "beech = \<lparr>sample_id = 2,
            sample_detail = [(''species'', JStr ''Fagus sylvatica''), (''common_name'', JStr ''Beech''),
                             (''sampling_date'', JStr ''2024-03-02'')],
            location = 1, condition = 1, is_deleted = True, deleted_at = Some 300,
            created_at = 200, updated_at = 300\<rparr>"

definition example_store :: store where
  "example_store =
     \<lparr>locations =
        [\<lparr>location_id = 1,
          location_data = JObj [(''coordinates'', JObj [(''latitude'', JNum 48), (''longitude'', JNum 11)]),
                                (''region'', JStr ''Bavaria''), (''country'', JStr ''Germany'')],
          loc_created_at = 10\<rparr>],
      conditions =
        [\<lparr>condition_id = 1,
          condition_data = JObj [(''soil_composition'',
                                    JObj [(''pH'', JNum 7), (''nutrients'', JStr ''rich''),
                                          (''type'', JStr ''loamy'')]),
                                 (''temperature'', JNum 12), (''humidity'', JNum 60),
                                 (''altitude'', JNum 500)],
          recorded_at = 10\<rparr>],
      researchers =
        [\<lparr>researcher_id = 1, name = ''Ada'', email = ''ada@example.org'', phone = None,
          affiliation = None, res_created_at = 10\<rparr>],
      samples = [oak, beech],
      sample_researchers =
        [\<lparr>sr_id = 1, sr_sample = 1, sr_researcher = 1, role = Some ''lead_researcher'',
          assigned_at = 150\<rparr>],
      growth_metrics =
        [\<lparr>growth_id = 1, gm_sample = 1, height = Some 12, leaf_count = Some 30,
          stem_diameter = None, health_status = Some ''good'', measured_at = 400\<rparr>,
         \<lparr>growth_id = 2, gm_sample = 2, height = Some 20, leaf_count = None,
          stem_diameter = None, health_status = None, measured_at = 250\<rparr>],
      audit_log =
        [\<lparr>log_id = 1, log_sample_id = 1, action = ''CREATED'', performed_at = 100,
          details = JObj [(''species'', JStr ''Quercus robur''), (''location_id'', JNum 1)]\<rparr>,
         \<lparr>log_id = 2, log_sample_id = 2, action = ''CREATED'', performed_at = 200,
          details = JObj [(''species'', JStr ''Fagus sylvatica''), (''location_id'', JNum 1)]\<rparr>,
         \<lparr>log_id = 3, log_sample_id = 2, action = ''DELETED'', performed_at = 300,
          details = JObj [(''species'', JStr ''Fagus sylvatica'')]\<rparr>],
      next_sample_id = 3, next_sr_id = 2, next_growth_id = 3, next_log_id = 4\<rparr>"

definition new_growth :: "env \<Rightarrow> store \<Rightarrow> nat \<Rightarrow> growth_request \<Rightarrow> GrowthMetrics" where
  "new_growth ev st sid v =
     \<lparr>growth_id = next_growth_id st, gm_sample = sid, height = gr_height v,
      leaf_count = gr_leaf_count v, stem_diameter = gr_stem_diameter v,
      health_status = gr_health_status v, measured_at = now ev\<rparr>"

definition with_growth :: "GrowthMetrics \<Rightarrow> store \<Rightarrow> store" where
  "with_growth row st = st\<lparr>growth_metrics := growth_metrics st @ [row],
                            next_growth_id := Suc (next_growth_id st)\<rparr>"

definition with_sample :: "PlantSample \<Rightarrow> store \<Rightarrow> store" where
  "with_sample row st = st\<lparr>samples := samples st @ [row], next_sample_id := Suc (next_sample_id st)\<rparr>"

definition replace_sample :: "PlantSample \<Rightarrow> store \<Rightarrow> store" where
  "replace_sample row st =
     st\<lparr>samples := map (\<lambda>r. if sample_id r = sample_id row then row else r) (samples st)\<rparr>"

(*DEFS-END*)

section \<open>Properties\<close>

subsection \<open>Transactions and saves, step by step\<close>


lemma strptime_nonempty: "strptime ev [] = None"
  by (simp add: strptime_def strptime_ymd_def)

lemma clean_sample_date_truthy:
  assumes "clean_sample t (JObj d) = Inr ()"
  shows "\<not> falsy (dict_get d ''sampling_date'')"
proof -
  from assms have "clean_sampling_date t d = Inr ()" "map_of d ''sampling_date'' \<noteq> None"
    by (auto simp: clean_sample_def split: option.splits if_splits)
  then obtain s where s: "dict_get d ''sampling_date'' = JStr s" "strptime t s \<noteq> None"
    by (auto simp: clean_sampling_date_def split: json.splits option.splits if_splits)
  then have "s \<noteq> []" using strptime_nonempty [of t] by auto
  with s show ?thesis by simp
qed

lemma autofill_clean:
  "clean_sample t (JObj d) = Inr () \<Longrightarrow> autofill_sampling_date t' d = d"
  by (simp add: autofill_sampling_date_def clean_sample_date_truthy)

lemma full_clean_sample_Inr:
  "full_clean_sample t s st = Inr () \<longleftrightarrow>
     clean_fields_sample st s = [] \<and> clean_sample t (JObj (sample_detail s)) = Inr ()"
  by (auto simp: full_clean_sample_def Let_def split: sum.splits error.splits)


lemma execute_run:
  "\<not> failing ev k \<Longrightarrow> w st = Inr (a, st') \<Longrightarrow> execute ev q w (k, st) = Inr (a, (Suc k, st'))"
  by (simp add: execute_def)

lemma execute_failing:
  "failing ev k \<Longrightarrow> execute ev q w (k, st) = Inl (StorageError q)"
  by (simp add: execute_def)

lemma execute_refused:
  "\<not> failing ev k \<Longrightarrow> w st = Inl e \<Longrightarrow> execute ev q w (k, st) = Inl e"
  by (simp add: execute_def)

lemma bind_tx_Inr: "m s = Inr (a, s') \<Longrightarrow> bind_tx m f s = f a s'"
  by (simp add: bind_tx_def)

lemma bind_tx_Inl: "m s = Inl e \<Longrightarrow> bind_tx m f s = Inl e"
  by (simp add: bind_tx_def)

lemma check_Inr: "f st = Inr a \<Longrightarrow> check f (k, st) = Inr (a, (k, st))"
  by (simp add: check_def)

lemma check_Inl: "f st = Inl e \<Longrightarrow> check f (k, st) = Inl e"
  by (simp add: check_def)

lemma atomic_Inr: "m (0, st) = Inr (a, (k, st')) \<Longrightarrow> atomic m st = (Inr a, st')"
  by (simp add: atomic_def)

lemma atomic_Inl: "m (0, st) = Inl e \<Longrightarrow> atomic m st = (Inl e, st)"
  by (simp add: atomic_def)

lemma audit_create_run:
  "\<not> failing ev k \<Longrightarrow>
   SampleAuditLog_create ev sid act det (k, st) =
     Inr (audit_entry ev st sid act det, (Suc k, with_audit (audit_entry ev st sid act det) st))"
  by (simp add: SampleAuditLog_create_def execute_def insert_audit_def Let_def audit_entry_def with_audit_def)

lemma save_existing_run:
  assumes "\<not> failing ev k" and "full_clean_sample ev self st = Inr ()"
  shows "PlantSample_save ev False self (k, st) =
     Inr (self\<lparr>updated_at := now ev\<rparr>,
          (Suc k, st\<lparr>samples := map (\<lambda>r. if sample_id r = sample_id self then self\<lparr>updated_at := now ev\<rparr> else r)
                                   (samples st)\<rparr>))"
proof -
  have c: "clean_sample ev (JObj (sample_detail self)) = Inr ()"
    using assms(2) by (simp add: full_clean_sample_Inr)
  have af: "self\<lparr>sample_detail := autofill_sampling_date (today ev) (sample_detail self)\<rparr> = self"
    by (simp add: autofill_clean [OF c])
  have w: "write_sample (now ev) False self st =
     Inr (self\<lparr>updated_at := now ev\<rparr>,
          st\<lparr>samples := map (\<lambda>r. if sample_id r = sample_id self then self\<lparr>updated_at := now ev\<rparr> else r)
                                   (samples st)\<rparr>)"
    by (simp add: write_sample_def Let_def)
  have ch: "check (full_clean_sample ev self) (k, st) = Inr ((), (k, st))"
    using assms(2) by (simp add: check_def)
  show ?thesis
    unfolding PlantSample_save_def Let_def af
    using assms(1) by (simp add: bind_tx_def ch execute_def w)
qed


subsection \<open>Validation of locations and conditions\<close>


lemma clean_location_shape:
  assumes "map_of d ''coordinates'' = Some (JObj c)"
    and "map_of d ''region'' \<noteq> None" and "map_of d ''country'' \<noteq> None"
    and "map_of c ''latitude'' = Some vlat" and "Decimal_str D vlat = Some (Finite lat)"
    and "map_of c ''longitude'' = Some vlon" and "Decimal_str D vlon = Some (Finite lon)"
  shows "clean_location D (JObj d) =
     (if \<not> (-90 \<le> lat \<and> lat \<le> 90) then Inl (ValidationError [''Latitude must be between -90 and 90''])
      else if \<not> (-180 \<le> lon \<and> lon \<le> 180) then Inl (ValidationError [''Longitude must be between -180 and 180''])
      else clean_site_type d)"
  using assms
  by (auto simp: clean_location_def clean_coordinates_def dict_get_def bind_err_def check_range_def)

lemma clean_condition_shape:
  assumes "map_of d ''soil_composition'' = Some (JObj soil)"
    and "map_of d ''temperature'' = Some vtemp" and "Decimal_str D vtemp = Some (Finite temp)"
    and "map_of d ''humidity'' = Some vhum" and "Decimal_str D vhum = Some (Finite hum)"
    and "map_of d ''altitude'' = Some valt" and "Decimal_str D valt = Some (Finite alt)"
    and "map_of soil ''pH'' = Some vph" and "Decimal_str D vph = Some (Finite ph)"
    and "map_of soil ''nutrients'' \<noteq> None"
    and "map_of soil ''type'' = Some ty"
  shows "clean_condition D (JObj d) =
     (if \<not> (0 \<le> ph \<and> ph \<le> 14) then Inl (ValidationError [''pH must be between 0 and 14''])
      else if \<not> (-50 \<le> temp \<and> temp \<le> 60) then Inl (ValidationError [''Temperature must be between -50 and 60'' @ degree_C])
      else if \<not> (0 \<le> hum \<and> hum \<le> 100) then Inl (ValidationError [''Humidity must be between 0 and 100%''])
      else if \<not> (-500 \<le> alt \<and> alt \<le> 9000) then Inl (ValidationError [''Altitude must be between -500 and 9000 meters''])
      else clean_soil_type soil)"
  using assms
  by (auto simp: clean_condition_def dict_get_def bind_err_def check_range_def)

lemma site_types: "set (map fst SITE_TYPE_CHOICES) =
  {''forest'', ''grassland'', ''wetland'', ''desert'', ''agricultural'', ''urban'', ''coastal'', ''mountain''}"
  by (simp add: SITE_TYPE_CHOICES_def)

lemma soil_types: "set (map fst SOIL_TYPE_CHOICES) =
  {''clay'', ''sandy'', ''loamy'', ''silty'', ''peaty'', ''chalky'', ''saline''}"
  by (simp add: SOIL_TYPE_CHOICES_def)

lemma clean_site_type_ok:
  "clean_site_type d = Inr () \<longleftrightarrow>
     (map_of d ''site_type'' = None \<or>
      (\<exists>s \<in> {''forest'', ''grassland'', ''wetland'', ''desert'', ''agricultural'', ''urban'', ''coastal'', ''mountain''}.
          map_of d ''site_type'' = Some (JStr s)))"
  unfolding clean_site_type_def not_in_choices_def Let_def site_types
  by (auto split: option.splits json.splits)

lemma clean_site_type_bad:
  "clean_site_type d \<noteq> Inr () \<Longrightarrow> clean_site_type d =
     Inl (ValidationError [''Invalid site_type. Must be one of: '' @ repr_list (map fst SITE_TYPE_CHOICES)])"
  unfolding clean_site_type_def Let_def
  by (auto split: option.splits)

lemma clean_soil_type_ok:
  "map_of soil ''type'' = Some ty \<Longrightarrow> clean_soil_type soil = Inr () \<longleftrightarrow>
     (\<exists>s \<in> {''clay'', ''sandy'', ''loamy'', ''silty'', ''peaty'', ''chalky'', ''saline''}. ty = JStr s)"
  unfolding clean_soil_type_def not_in_choices_def Let_def soil_types dict_get_def
  by (auto split: option.splits json.splits)

lemma clean_soil_type_bad:
  "clean_soil_type d \<noteq> Inr () \<Longrightarrow> clean_soil_type d =
     Inl (ValidationError [''Invalid soil type. Must be one of: '' @ repr_list (map fst SOIL_TYPE_CHOICES)])"
  unfolding clean_soil_type_def Let_def
  by (auto split: if_splits)


text \<open>
  Claim C9. A location payload and a condition payload that have the documented shape,
  each numeric field holding a value that \<^verbatim>\<open>Decimal(str(v))\<close> reads as a finite decimal (a
  JSON number, or a numeral sent as text): when every number lies in its documented range,
  bounds included (latitude -90..90, longitude -180..180, pH 0..14, temperature -50..60,
  humidity 0..100, altitude -500..9000) and the enumerated fields are in the fixed sets,
  \<open>clean\<close> accepts; a number outside its range while the fields checked before it
  are in range is rejected with the message naming that field, and so is a site type or
  a soil type outside the fixed set. The comparison is exact on the decimal value.
\<close>

theorem validation_accepts_in_range_rejects_outside:
  assumes "map_of d ''coordinates'' = Some (JObj c)"
    and "map_of d ''region'' \<noteq> None" and "map_of d ''country'' \<noteq> None"
    and "map_of c ''latitude'' = Some vlat" and "Decimal_str D vlat = Some (Finite lat)"
    and "map_of c ''longitude'' = Some vlon" and "Decimal_str D vlon = Some (Finite lon)"
    and "map_of e ''soil_composition'' = Some (JObj soil)"
    and "map_of e ''temperature'' = Some vtemp" and "Decimal_str D vtemp = Some (Finite temp)"
    and "map_of e ''humidity'' = Some vhum" and "Decimal_str D vhum = Some (Finite hum)"
    and "map_of e ''altitude'' = Some valt" and "Decimal_str D valt = Some (Finite alt)"
    and "map_of soil ''pH'' = Some vph" and "Decimal_str D vph = Some (Finite ph)"
    and "map_of soil ''nutrients'' \<noteq> None"
    and "map_of soil ''type'' = Some ty"
  shows
    "(-90 \<le> lat \<and> lat \<le> 90 \<and> -180 \<le> lon \<and> lon \<le> 180 \<and>
        (map_of d ''site_type'' = None \<or>
         (\<exists>s \<in> {''forest'', ''grassland'', ''wetland'', ''desert'', ''agricultural'', ''urban'',
                   ''coastal'', ''mountain''}. map_of d ''site_type'' = Some (JStr s)))
        \<longrightarrow> clean_location D (JObj d) = Inr ()) \<and>
     (\<not> (-90 \<le> lat \<and> lat \<le> 90)
        \<longrightarrow> clean_location D (JObj d) =
              Inl (ValidationError [''Latitude must be between -90 and 90''])) \<and>
     (-90 \<le> lat \<and> lat \<le> 90 \<and> \<not> (-180 \<le> lon \<and> lon \<le> 180)
        \<longrightarrow> clean_location D (JObj d) =
              Inl (ValidationError [''Longitude must be between -180 and 180''])) \<and>
     (-90 \<le> lat \<and> lat \<le> 90 \<and> -180 \<le> lon \<and> lon \<le> 180 \<and>
        \<not> (map_of d ''site_type'' = None \<or>
         (\<exists>s \<in> {''forest'', ''grassland'', ''wetland'', ''desert'', ''agricultural'', ''urban'',
                   ''coastal'', ''mountain''}. map_of d ''site_type'' = Some (JStr s)))
        \<longrightarrow> clean_location D (JObj d) =
              Inl (ValidationError [''Invalid site_type. Must be one of: '' @
                     repr_list (map fst SITE_TYPE_CHOICES)])) \<and>
     (0 \<le> ph \<and> ph \<le> 14 \<and> -50 \<le> temp \<and> temp \<le> 60 \<and> 0 \<le> hum \<and> hum \<le> 100 \<and>
        -500 \<le> alt \<and> alt \<le> 9000 \<and>
        (\<exists>s \<in> {''clay'', ''sandy'', ''loamy'', ''silty'', ''peaty'', ''chalky'', ''saline''}. ty = JStr s)
        \<longrightarrow> clean_condition D (JObj e) = Inr ()) \<and>
     (\<not> (0 \<le> ph \<and> ph \<le> 14)
        \<longrightarrow> clean_condition D (JObj e) = Inl (ValidationError [''pH must be between 0 and 14''])) \<and>
     (0 \<le> ph \<and> ph \<le> 14 \<and> \<not> (-50 \<le> temp \<and> temp \<le> 60)
        \<longrightarrow> clean_condition D (JObj e) =
              Inl (ValidationError [''Temperature must be between -50 and 60'' @ degree_C])) \<and>
     (0 \<le> ph \<and> ph \<le> 14 \<and> -50 \<le> temp \<and> temp \<le> 60 \<and> \<not> (0 \<le> hum \<and> hum \<le> 100)
        \<longrightarrow> clean_condition D (JObj e) =
              Inl (ValidationError [''Humidity must be between 0 and 100%''])) \<and>
     (0 \<le> ph \<and> ph \<le> 14 \<and> -50 \<le> temp \<and> temp \<le> 60 \<and> 0 \<le> hum \<and> hum \<le> 100 \<and>
        \<not> (-500 \<le> alt \<and> alt \<le> 9000)
        \<longrightarrow> clean_condition D (JObj e) =
              Inl (ValidationError [''Altitude must be between -500 and 9000 meters''])) \<and>
     (0 \<le> ph \<and> ph \<le> 14 \<and> -50 \<le> temp \<and> temp \<le> 60 \<and> 0 \<le> hum \<and> hum \<le> 100 \<and>
        -500 \<le> alt \<and> alt \<le> 9000 \<and>
        \<not> (\<exists>s \<in> {''clay'', ''sandy'', ''loamy'', ''silty'', ''peaty'', ''chalky'', ''saline''}. ty = JStr s)
        \<longrightarrow> clean_condition D (JObj e) =
              Inl (ValidationError [''Invalid soil type. Must be one of: '' @
                     repr_list (map fst SOIL_TYPE_CHOICES)]))"
proof -
  have loc: "clean_location D (JObj d) =
     (if \<not> (-90 \<le> lat \<and> lat \<le> 90) then Inl (ValidationError [''Latitude must be between -90 and 90''])
      else if \<not> (-180 \<le> lon \<and> lon \<le> 180) then Inl (ValidationError [''Longitude must be between -180 and 180''])
      else clean_site_type d)"
    using assms(1-7) by (rule clean_location_shape)
  have cond: "clean_condition D (JObj e) =
     (if \<not> (0 \<le> ph \<and> ph \<le> 14) then Inl (ValidationError [''pH must be between 0 and 14''])
      else if \<not> (-50 \<le> temp \<and> temp \<le> 60) then Inl (ValidationError [''Temperature must be between -50 and 60'' @ degree_C])
      else if \<not> (0 \<le> hum \<and> hum \<le> 100) then Inl (ValidationError [''Humidity must be between 0 and 100%''])
      else if \<not> (-500 \<le> alt \<and> alt \<le> 9000) then Inl (ValidationError [''Altitude must be between -500 and 9000 meters''])
      else clean_soil_type soil)"
    using assms(8-18) by (rule clean_condition_shape)
  note site = clean_site_type_ok [of d] clean_site_type_bad [of d]
  note soil = clean_soil_type_ok [OF assms(18)] clean_soil_type_bad [of soil]
  have l1: "-90 \<le> lat \<and> lat \<le> 90 \<and> -180 \<le> lon \<and> lon \<le> 180 \<and>
        (map_of d ''site_type'' = None \<or>
         (\<exists>s \<in> {''forest'', ''grassland'', ''wetland'', ''desert'', ''agricultural'', ''urban'',
                   ''coastal'', ''mountain''}. map_of d ''site_type'' = Some (JStr s)))
        \<longrightarrow> clean_location D (JObj d) = Inr ()"
    using site(1) by (simp add: loc)
  have l2: "\<not> (-90 \<le> lat \<and> lat \<le> 90)
        \<longrightarrow> clean_location D (JObj d) =
              Inl (ValidationError [''Latitude must be between -90 and 90''])"
    by (simp add: loc)
  have l3: "-90 \<le> lat \<and> lat \<le> 90 \<and> \<not> (-180 \<le> lon \<and> lon \<le> 180)
        \<longrightarrow> clean_location D (JObj d) =
              Inl (ValidationError [''Longitude must be between -180 and 180''])"
    by (simp add: loc)
  have l4: "-90 \<le> lat \<and> lat \<le> 90 \<and> -180 \<le> lon \<and> lon \<le> 180 \<and>
        \<not> (map_of d ''site_type'' = None \<or>
         (\<exists>s \<in> {''forest'', ''grassland'', ''wetland'', ''desert'', ''agricultural'', ''urban'',
                   ''coastal'', ''mountain''}. map_of d ''site_type'' = Some (JStr s)))
        \<longrightarrow> clean_location D (JObj d) =
              Inl (ValidationError [''Invalid site_type. Must be one of: '' @
                     repr_list (map fst SITE_TYPE_CHOICES)])"
    using site by (simp add: loc)
  have c1: "0 \<le> ph \<and> ph \<le> 14 \<and> -50 \<le> temp \<and> temp \<le> 60 \<and> 0 \<le> hum \<and> hum \<le> 100 \<and>
        -500 \<le> alt \<and> alt \<le> 9000 \<and>
        (\<exists>s \<in> {''clay'', ''sandy'', ''loamy'', ''silty'', ''peaty'', ''chalky'', ''saline''}. ty = JStr s)
        \<longrightarrow> clean_condition D (JObj e) = Inr ()"
    using soil(1) by (simp add: cond)
  have c2: "\<not> (0 \<le> ph \<and> ph \<le> 14)
        \<longrightarrow> clean_condition D (JObj e) = Inl (ValidationError [''pH must be between 0 and 14''])"
    by (simp add: cond)
  have c3: "0 \<le> ph \<and> ph \<le> 14 \<and> \<not> (-50 \<le> temp \<and> temp \<le> 60)
        \<longrightarrow> clean_condition D (JObj e) =
              Inl (ValidationError [''Temperature must be between -50 and 60'' @ degree_C])"
    by (simp add: cond)
  have c4: "0 \<le> ph \<and> ph \<le> 14 \<and> -50 \<le> temp \<and> temp \<le> 60 \<and> \<not> (0 \<le> hum \<and> hum \<le> 100)
        \<longrightarrow> clean_condition D (JObj e) =
              Inl (ValidationError [''Humidity must be between 0 and 100%''])"
    by (simp add: cond)
  have c5: "0 \<le> ph \<and> ph \<le> 14 \<and> -50 \<le> temp \<and> temp \<le> 60 \<and> 0 \<le> hum \<and> hum \<le> 100 \<and>
        \<not> (-500 \<le> alt \<and> alt \<le> 9000)
        \<longrightarrow> clean_condition D (JObj e) =
              Inl (ValidationError [''Altitude must be between -500 and 9000 meters''])"
    by (simp add: cond)
  have c6: "0 \<le> ph \<and> ph \<le> 14 \<and> -50 \<le> temp \<and> temp \<le> 60 \<and> 0 \<le> hum \<and> hum \<le> 100 \<and>
        -500 \<le> alt \<and> alt \<le> 9000 \<and>
        \<not> (\<exists>s \<in> {''clay'', ''sandy'', ''loamy'', ''silty'', ''peaty'', ''chalky'', ''saline''}. ty = JStr s)
        \<longrightarrow> clean_condition D (JObj e) =
              Inl (ValidationError [''Invalid soil type. Must be one of: '' @
                     repr_list (map fst SOIL_TYPE_CHOICES)])"
    using soil by (simp add: cond)
  from l1 l2 l3 l4 c1 c2 c3 c4 c5 c6 show ?thesis by blast
qed


theorem validation_accepts_in_range_rejects_outside_witness:
  "clean_location (\<lambda>s. if s = ''-180'' then Some (Finite (-180)) else None)
     (JObj [(''coordinates'', JObj [(''latitude'', JNum 90), (''longitude'', JStr ''-180'')]),
            (''region'', JStr ''Bavaria''), (''country'', JStr ''Germany''),
            (''site_type'', JStr ''forest'')]) = Inr () \<and>
   clean_condition (\<lambda>s. if s = ''-180'' then Some (Finite (-180)) else None)
     (JObj [(''soil_composition'',
               JObj [(''pH'', JNum 14), (''nutrients'', JStr ''rich''), (''type'', JStr ''clay'')]),
            (''temperature'', JNum 60), (''humidity'', JNum 0), (''altitude'', JNum (-500))]) = Inr () \<and>
   clean_location (\<lambda>s. if s = ''91'' then Some (Finite 91) else None)
     (JObj [(''coordinates'', JObj [(''latitude'', JStr ''91''), (''longitude'', JNum 0)]),
            (''region'', JStr ''Bavaria''), (''country'', JStr ''Germany'')]) =
     Inl (ValidationError [''Latitude must be between -90 and 90'']) \<and>
   clean_condition (\<lambda>s. if s = ''91'' then Some (Finite 91) else None)
     (JObj [(''soil_composition'',
               JObj [(''pH'', JNum 7), (''nutrients'', JStr ''rich''), (''type'', JStr ''clay'')]),
            (''temperature'', JNum 61), (''humidity'', JNum 50), (''altitude'', JNum 100)]) =
     Inl (ValidationError [''Temperature must be between -50 and 60'' @
                           [CHR 0xEC, CHR 0xA7, CHR 0xB8, CHR ''C'']])"
  using
    validation_accepts_in_range_rejects_outside
      [of "[(''coordinates'', JObj [(''latitude'', JNum 90), (''longitude'', JStr ''-180'')]),
            (''region'', JStr ''Bavaria''), (''country'', JStr ''Germany''),
            (''site_type'', JStr ''forest'')]"
          "[(''latitude'', JNum 90), (''longitude'', JStr ''-180'')]" "JNum 90"
          "\<lambda>s. if s = ''-180'' then Some (Finite (-180)) else None" 90 "JStr ''-180''" "-180"
          "[(''soil_composition'',
               JObj [(''pH'', JNum 14), (''nutrients'', JStr ''rich''), (''type'', JStr ''clay'')]),
            (''temperature'', JNum 60), (''humidity'', JNum 0), (''altitude'', JNum (-500))]"
          "[(''pH'', JNum 14), (''nutrients'', JStr ''rich''), (''type'', JStr ''clay'')]"
          "JNum 60" 60 "JNum 0" 0 "JNum (-500)" "-500" "JNum 14" 14 "JStr ''clay''"]
    validation_accepts_in_range_rejects_outside
      [of "[(''coordinates'', JObj [(''latitude'', JStr ''91''), (''longitude'', JNum 0)]),
            (''region'', JStr ''Bavaria''), (''country'', JStr ''Germany'')]"
          "[(''latitude'', JStr ''91''), (''longitude'', JNum 0)]" "JStr ''91''"
          "\<lambda>s. if s = ''91'' then Some (Finite 91) else None" 91 "JNum 0" 0
          "[(''soil_composition'',
               JObj [(''pH'', JNum 7), (''nutrients'', JStr ''rich''), (''type'', JStr ''clay'')]),
            (''temperature'', JNum 61), (''humidity'', JNum 50), (''altitude'', JNum 100)]"
          "[(''pH'', JNum 7), (''nutrients'', JStr ''rich''), (''type'', JStr ''clay'')]"
          "JNum 61" 61 "JNum 50" 50 "JNum 100" 100 "JNum 7" 7 "JStr ''clay''"]
  by (simp add: degree_C_def)

subsection \<open>Soft delete\<close>

lemma find_Some_holds: "find P xs = Some x \<Longrightarrow> P x"
  by (induction xs) (auto split: if_splits)

lemma find_map_replace:
  "find P xs = Some x \<Longrightarrow> P row \<Longrightarrow> find P (map (\<lambda>r. if P r then row else r) xs) = Some row"
  by (induction xs) (auto split: if_splits)

lemma get_sample_id: "get_sample st sid = Some s \<Longrightarrow> sample_id s = sid"
  unfolding get_sample_def by (drule find_Some_holds)

lemma full_clean_sample_cong:
  "sample_detail s' = sample_detail s \<Longrightarrow> location s' = location s \<Longrightarrow> condition s' = condition s \<Longrightarrow>
   locations st' = locations st \<Longrightarrow> conditions st' = conditions st \<Longrightarrow>
   full_clean_sample t s' st' = full_clean_sample t s st"
  by (simp add: full_clean_sample_def clean_fields_sample_def)

lemma soft_delete_tx_run:
  assumes s: "get_sample st sid = Some s"
    and ok: "full_clean_sample ev s st = Inr ()"
    and nf: "\<not> failing ev 0" "\<not> failing ev (Suc 0)"
  shows "atomic (soft_delete_tx ev s) st =
     (Inr (dict_get_default (sample_detail s) ''species'' (JStr ''Unknown'')),
      (with_audit (audit_entry ev st sid ''DELETED''
          (JObj [(''species'', dict_get_default (sample_detail s) ''species'' (JStr ''Unknown''))])) st)
        \<lparr>samples := map (\<lambda>r. if sample_id r = sid
                              then s\<lparr>is_deleted := True, deleted_at := Some (now ev), updated_at := now ev\<rparr>
                              else r) (samples st)\<rparr>)"
proof -
  let ?sp = "dict_get_default (sample_detail s) ''species'' (JStr ''Unknown'')"
  let ?e = "audit_entry ev st sid ''DELETED'' (JObj [(''species'', ?sp)])"
  let ?s' = "s\<lparr>is_deleted := True, deleted_at := Some (now ev)\<rparr>"
  have sid: "sample_id s = sid" using s by (rule get_sample_id)
  have a: "SampleAuditLog_create ev (sample_id s) ''DELETED'' (JObj [(''species'', ?sp)]) (0, st) =
      Inr (?e, (Suc 0, with_audit ?e st))"
    using nf(1) by (simp add: audit_create_run sid)
  have ok': "full_clean_sample ev ?s' (with_audit ?e st) = Inr ()"
  proof -
    have "full_clean_sample ev ?s' (with_audit ?e st) = full_clean_sample ev s st"
      by (rule full_clean_sample_cong) (simp_all add: with_audit_def)
    with ok show ?thesis by simp
  qed
  have b: "PlantSample_soft_delete ev s (Suc 0, with_audit ?e st) =
      Inr (?s'\<lparr>updated_at := now ev\<rparr>,
           (Suc (Suc 0), (with_audit ?e st)\<lparr>samples := map (\<lambda>r. if sample_id r = sample_id ?s'
                    then ?s'\<lparr>updated_at := now ev\<rparr> else r) (samples (with_audit ?e st))\<rparr>))"
    unfolding PlantSample_soft_delete_def
    by (rule save_existing_run [OF nf(2) ok'])
  have sm: "samples (with_audit ?e st) = samples st"
    by (simp add: with_audit_def)
  have "soft_delete_tx ev s (0, st) =
      Inr (?sp, (Suc (Suc 0), (with_audit ?e st)\<lparr>samples := map (\<lambda>r. if sample_id r = sid
                    then ?s'\<lparr>updated_at := now ev\<rparr> else r) (samples st)\<rparr>))"
    unfolding soft_delete_tx_def Let_def
    by (simp only: bind_tx_def a b sum.case prod.case return_tx_def sm)
       (simp add: sid)
  then show ?thesis
    by (simp only: atomic_def sum.case prod.case)
qed

lemma get_sample_after_update:
  assumes "get_sample st sid = Some s" "sample_id row = sid" "samples st' = map (\<lambda>r. if sample_id r = sid then row else r) (samples st)"
  shows "get_sample st' sid = Some row"
  using find_map_replace [of "\<lambda>s. sample_id s = sid" "samples st" s row] assms
  by (simp add: get_sample_def)

text \<open>
  Claim C3. Soft delete of an active sample whose stored row passes validation today
  (as every row does that a save has written), the storage not failing: the first call
  sets \<open>is_deleted\<close> and \<open>deleted_at\<close> and appends one DELETED audit entry, touching no
  growth metric and no researcher link. A second call, whatever the environment, answers
  status 200 with the "Sample already deleted" marker and leaves the store as it is, so
  no second audit entry is written; the sample reads as the same deleted marker after
  the first and after the second call.
\<close>

theorem soft_delete_idempotent:
  assumes "get_sample st sid = Some s" and "\<not> is_deleted s"
    and "full_clean_sample ev s st = Inr ()"
    and "\<not> failing ev 0" and "\<not> failing ev (Suc 0)"
  shows "\<exists>body st1 row entry.
      PlantSampleDetailView_delete ev sid st = (Response 200 body, st1) \<and>
      get_sample st1 sid = Some row \<and> is_deleted row \<and> deleted_at row = Some (now ev) \<and>
      sample_detail row = sample_detail s \<and>
      audit_log st1 = audit_log st @ [entry] \<and> log_sample_id entry = sid \<and>
      action entry = ''DELETED'' \<and>
      growth_metrics st1 = growth_metrics st \<and> sample_researchers st1 = sample_researchers st \<and>
      PlantSampleDetailView_get sid st1 = Response 200 (deleted_marker ''Sample deleted'' sid) \<and>
      PlantSampleDetailView_delete ev' sid st1 =
        (Response 200 (deleted_marker ''Sample already deleted'' sid), st1) \<and>
      PlantSampleDetailView_get sid (snd (PlantSampleDetailView_delete ev' sid st1)) =
        Response 200 (deleted_marker ''Sample deleted'' sid)"
proof -
  let ?sp = "dict_get_default (sample_detail s) ''species'' (JStr ''Unknown'')"
  let ?e = "audit_entry ev st sid ''DELETED'' (JObj [(''species'', ?sp)])"
  let ?row = "s\<lparr>is_deleted := True, deleted_at := Some (now ev), updated_at := now ev\<rparr>"
  let ?st1 = "(with_audit ?e st)\<lparr>samples := map (\<lambda>r. if sample_id r = sid then ?row else r) (samples st)\<rparr>"
  have sid: "sample_id s = sid" using assms(1) by (rule get_sample_id)
  have tx: "atomic (soft_delete_tx ev s) st = (Inr ?sp, ?st1)"
    using assms(1,3,4,5) by (rule soft_delete_tx_run)
  have v1: "PlantSampleDetailView_delete ev sid st =
      (Response 200 (Json (JObj
         [(''message'', JStr (''Sample '' @ str_nat sid @ '' soft deleted successfully'')),
          (''deleted_sample'',
             JObj [(''sample_id'', JNum (of_nat sid)), (''species'', ?sp),
                   (''status'', JStr ''deleted'')])])), ?st1)"
    using assms(1,2) by (simp add: PlantSampleDetailView_delete_def tx)
  have g1: "get_sample ?st1 sid = Some ?row"
    by (rule get_sample_after_update [OF assms(1)]) (simp_all add: sid)
  have a1: "audit_log ?st1 = audit_log st @ [?e]"
    by (simp add: with_audit_def)
  have k1: "growth_metrics ?st1 = growth_metrics st" "sample_researchers ?st1 = sample_researchers st"
    by (simp_all add: with_audit_def)
  have r1: "PlantSampleDetailView_get sid ?st1 = Response 200 (deleted_marker ''Sample deleted'' sid)"
    by (simp add: PlantSampleDetailView_get_def g1)
  have v2: "PlantSampleDetailView_delete ev' sid ?st1 =
        (Response 200 (deleted_marker ''Sample already deleted'' sid), ?st1)"
    by (simp add: PlantSampleDetailView_delete_def g1)
  have e1: "log_sample_id ?e = sid" "action ?e = ''DELETED''"
    by (simp_all add: audit_entry_def)
  have row: "is_deleted ?row" "deleted_at ?row = Some (now ev)" "sample_detail ?row = sample_detail s"
    by simp_all
  have r2: "PlantSampleDetailView_get sid (snd (PlantSampleDetailView_delete ev' sid ?st1)) =
        Response 200 (deleted_marker ''Sample deleted'' sid)"
    by (simp only: v2 snd_conv r1)
  from v1 g1 row a1 e1 k1 r1 v2 r2 show ?thesis by blast
qed

theorem soft_delete_idempotent_witness:
  "\<exists>body st1 row entry.
      PlantSampleDetailView_delete example_env 1 example_store = (Response 200 body, st1) \<and>
      get_sample st1 1 = Some row \<and> is_deleted row \<and> deleted_at row = Some (now example_env) \<and>
      sample_detail row = sample_detail oak \<and>
      audit_log st1 = audit_log example_store @ [entry] \<and> log_sample_id entry = 1 \<and>
      action entry = ''DELETED'' \<and>
      growth_metrics st1 = growth_metrics example_store \<and>
      sample_researchers st1 = sample_researchers example_store \<and>
      PlantSampleDetailView_get 1 st1 = Response 200 (deleted_marker ''Sample deleted'' 1) \<and>
      PlantSampleDetailView_delete example_env 1 st1 =
        (Response 200 (deleted_marker ''Sample already deleted'' 1), st1) \<and>
      PlantSampleDetailView_get 1 (snd (PlantSampleDetailView_delete example_env 1 st1)) =
        Response 200 (deleted_marker ''Sample deleted'' 1)"
proof (rule soft_delete_idempotent [of example_store 1 oak example_env example_env])
  show "get_sample example_store 1 = Some oak"
    by (simp add: get_sample_def example_store_def oak_def beech_def)
  show "\<not> is_deleted oak" by (simp add: oak_def)
  show "full_clean_sample example_env oak example_store = Inr ()"
    by code_simp
  show "\<not> failing example_env 0" by (simp add: example_env_def)
  show "\<not> failing example_env (Suc 0)" by (simp add: example_env_def)
qed

subsection \<open>Hard delete\<close>

lemma find_filter_none: "find P (filter (\<lambda>x. \<not> P x) xs) = None"
  by (induction xs) auto

lemma get_sample_after_delete_row:
  "samples st' = filter (\<lambda>s. sample_id s \<noteq> sid) (samples st) \<Longrightarrow> get_sample st' sid = None"
  using find_filter_none [of "\<lambda>s. sample_id s = sid" "samples st"]
  by (simp add: get_sample_def)


lemma hard_delete_tx_run:
  assumes nf: "\<not> failing ev 0" "\<not> failing ev 1" "\<not> failing ev 2" "\<not> failing ev 3"
    and sid: "sample_id s = sid"
    and e: "e = audit_entry ev st sid ''HARD_DELETED''
                (JObj [(''species'', dict_get_default (sample_detail s) ''species'' (JStr ''Unknown'')),
                       (''warning'', JStr ''PERMANENT DELETION - All data removed from database'')])"
    and 1: "delete_growth_metrics_of sid (with_audit e st) = Inr ((), st1)"
    and 2: "delete_sample_researchers_of sid st1 = Inr ((), st2)"
    and 3: "delete_sample_row sid st2 = Inr ((), st3)"
  shows "atomic (hard_delete_tx ev s) st =
     (Inr (dict_get_default (sample_detail s) ''species'' (JStr ''Unknown'')), st3)"
proof -
  have a: "SampleAuditLog_create ev (sample_id s) ''HARD_DELETED''
      (JObj [(''species'', dict_get_default (sample_detail s) ''species'' (JStr ''Unknown'')),
             (''warning'', JStr ''PERMANENT DELETION - All data removed from database'')]) (0, st) =
      Inr (e, (Suc 0, with_audit e st))"
    using nf(1) by (simp add: audit_create_run sid e)
  have x1: "execute ev Delete_growth_metrics (delete_growth_metrics_of sid) (Suc 0, with_audit e st) = Inr ((), (Suc (Suc 0), st1))"
    using nf(2) 1 by (simp add: execute_def)
  have x2: "execute ev Delete_sample_researchers (delete_sample_researchers_of sid) (Suc (Suc 0), st1) = Inr ((), (Suc (Suc (Suc 0)), st2))"
    using nf(3) 2 by (simp add: execute_def numeral_2_eq_2)
  have x3: "execute ev Delete_sample (delete_sample_row sid) (Suc (Suc (Suc 0)), st2) = Inr ((), (Suc (Suc (Suc (Suc 0))), st3))"
    using nf(4) 3 by (simp add: execute_def numeral_3_eq_3)
  have h: "PlantSample_hard_delete ev s (Suc 0, with_audit e st) = Inr ((), (Suc (Suc (Suc (Suc 0))), st3))"
    unfolding PlantSample_hard_delete_def sid
    by (simp only: bind_tx_def x1 x2 x3 sum.case prod.case)
  have "hard_delete_tx ev s (0, st) =
      Inr (dict_get_default (sample_detail s) ''species'' (JStr ''Unknown''), (Suc (Suc (Suc (Suc 0))), st3))"
    unfolding hard_delete_tx_def Let_def
    by (simp only: bind_tx_def a h sum.case prod.case return_tx_def)
  then show ?thesis
    by (simp only: atomic_def sum.case prod.case)
qed





subsection \<open>Reads\<close>

lemma mset_order_by_desc: "mset (order_by_desc f xs) = mset xs"
  by (simp add: order_by_desc_def)

lemma sorted_order_by_desc: "sorted_wrt (\<lambda>a b. f b \<le> f a) (order_by_desc f xs)"
proof -
  have "sorted (map (\<lambda>x. - int (f x)) (sort_key (\<lambda>x. - int (f x)) xs))" by simp
  then have "sorted_wrt (\<lambda>a b. - int (f a) \<le> - int (f b)) (sort_key (\<lambda>x. - int (f x)) xs)"
    by (simp add: sorted_map)
  then show ?thesis
    by (simp add: order_by_desc_def)
qed

text \<open>
  Claim C6. The sample list is the list projection (sample id, species, common name,
  sampling date, created and updated timestamps) of exactly the samples that are not soft
  deleted, each once, newest first by creation time. Reading a soft-deleted sample by
  id returns the marker (message, sample_id, status deleted) and not the detail
  projection, which an active sample gets.
\<close>

theorem soft_deleted_hidden_from_reads:
  "(\<exists>xs. PlantSampleListView_get st = Response 200 (SampleList (map PlantSampleListSerializer_data xs)) \<and>
         mset xs = mset (filter (\<lambda>s. \<not> is_deleted s) (samples st)) \<and>
         sorted_wrt (\<lambda>a b. created_at b \<le> created_at a) xs) \<and>
   (\<forall>x. PlantSampleListSerializer_data x =
         \<lparr>li_sample_id = sample_id x,
          li_species = dict_get_default (sample_detail x) ''species'' (JStr ''''),
          li_common_name = dict_get_default (sample_detail x) ''common_name'' (JStr ''''),
          li_sampling_date = dict_get_default (sample_detail x) ''sampling_date'' (JStr ''''),
          li_created_at = created_at x, li_updated_at = updated_at x\<rparr>) \<and>
   (get_sample st sid = Some s \<and> is_deleted s \<longrightarrow>
      PlantSampleDetailView_get sid st =
        Response 200 (Json (JObj [(''message'', JStr ''Sample deleted''),
                                  (''sample_id'', JNum (of_nat sid)),
                                  (''status'', JStr ''deleted'')]))) \<and>
   (get_sample st sid = Some s \<and> \<not> is_deleted s \<longrightarrow>
      PlantSampleDetailView_get sid st =
        Response 200 (SampleDetail (PlantSampleDetailSerializer_data s st)))"
proof -
  let ?xs = "order_by_desc created_at (filter (\<lambda>s. \<not> is_deleted s) (samples st))"
  have a: "PlantSampleListView_get st = Response 200 (SampleList (map PlantSampleListSerializer_data ?xs))"
    by (simp add: PlantSampleListView_get_def)
  have b: "mset ?xs = mset (filter (\<lambda>s. \<not> is_deleted s) (samples st))"
    by (rule mset_order_by_desc)
  have c: "sorted_wrt (\<lambda>a b. created_at b \<le> created_at a) ?xs"
    by (rule sorted_order_by_desc)
  have d: "\<forall>x. PlantSampleListSerializer_data x =
         \<lparr>li_sample_id = sample_id x,
          li_species = dict_get_default (sample_detail x) ''species'' (JStr ''''),
          li_common_name = dict_get_default (sample_detail x) ''common_name'' (JStr ''''),
          li_sampling_date = dict_get_default (sample_detail x) ''sampling_date'' (JStr ''''),
          li_created_at = created_at x, li_updated_at = updated_at x\<rparr>"
    by (simp add: PlantSampleListSerializer_data_def)
  have e: "get_sample st sid = Some s \<and> is_deleted s \<longrightarrow>
      PlantSampleDetailView_get sid st =
        Response 200 (Json (JObj [(''message'', JStr ''Sample deleted''),
                                  (''sample_id'', JNum (of_nat sid)),
                                  (''status'', JStr ''deleted'')]))"
    by (simp add: PlantSampleDetailView_get_def deleted_marker_def)
  have f: "get_sample st sid = Some s \<and> \<not> is_deleted s \<longrightarrow>
      PlantSampleDetailView_get sid st =
        Response 200 (SampleDetail (PlantSampleDetailSerializer_data s st))"
    by (simp add: PlantSampleDetailView_get_def)
  from a b c d e f show ?thesis by blast
qed

theorem soft_deleted_hidden_from_reads_witness:
  "PlantSampleListView_get example_store =
     Response 200 (SampleList
       [\<lparr>li_sample_id = 1, li_species = JStr ''Quercus robur'', li_common_name = JStr ''English Oak'',
         li_sampling_date = JStr ''2024-03-01'', li_created_at = 100, li_updated_at = 100\<rparr>]) \<and>
   PlantSampleDetailView_get 2 example_store =
     Response 200 (Json (JObj [(''message'', JStr ''Sample deleted''), (''sample_id'', JNum 2),
                               (''status'', JStr ''deleted'')])) \<and>
   PlantSampleDetailView_get 1 example_store =
     Response 200 (SampleDetail (PlantSampleDetailSerializer_data oak example_store))"
proof -
  have g2: "get_sample example_store 2 = Some beech"
    by (simp add: get_sample_def example_store_def oak_def beech_def)
  have g1: "get_sample example_store 1 = Some oak"
    by (simp add: get_sample_def example_store_def oak_def beech_def)
  have d2: "is_deleted beech" by (simp add: beech_def)
  have d1: "\<not> is_deleted oak" by (simp add: oak_def)
  have l: "PlantSampleListView_get example_store =
     Response 200 (SampleList
       [\<lparr>li_sample_id = 1, li_species = JStr ''Quercus robur'', li_common_name = JStr ''English Oak'',
         li_sampling_date = JStr ''2024-03-01'', li_created_at = 100, li_updated_at = 100\<rparr>])"
    by (simp add: PlantSampleListView_get_def example_store_def oak_def beech_def order_by_desc_def
        PlantSampleListSerializer_data_def dict_get_default_def)
  from soft_deleted_hidden_from_reads [of example_store 2 beech]
       soft_deleted_hidden_from_reads [of example_store 1 oak] g1 g2 d1 d2 l
  show ?thesis by simp
qed

subsection \<open>Restricted deletes\<close>

lemma find_Some_ex: "(\<exists>x \<in> set xs. P x) \<Longrightarrow> \<exists>y. find P xs = Some y"
  by (induction xs) auto

lemma atomic_execute:
  "atomic (execute ev q w) st =
     (if failing ev 0 then (Inl (StorageError q), st)
      else (case w st of Inl e \<Rightarrow> (Inl e, st) | Inr (a, st') \<Rightarrow> (Inr a, st')))"
  by (simp add: atomic_def execute_def split: sum.splits prod.splits)

lemma location_delete_restricted:
  assumes "find (\<lambda>l. location_id l = lid) (locations st) = Some l"
    and "\<exists>s \<in> set (samples st). location s = lid"
  shows "snd (SamplingLocationDetailView_delete ev lid st) = st"
    and "\<not> failing ev 0 \<Longrightarrow>
         SamplingLocationDetailView_delete ev lid st = (Response 500 (Error RestrictedError), st)"
  using assms
  by (simp_all add: SamplingLocationDetailView_delete_def atomic_execute delete_location_def)

lemma location_delete_free:
  assumes "find (\<lambda>l. location_id l = lid) (locations st) = Some l"
    and "\<forall>s \<in> set (samples st). location s \<noteq> lid" and "\<not> failing ev 0"
  shows "SamplingLocationDetailView_delete ev lid st =
     (Response 204 NoContent, st\<lparr>locations := filter (\<lambda>l. location_id l \<noteq> lid) (locations st)\<rparr>)"
  using assms
  by (simp add: SamplingLocationDetailView_delete_def atomic_execute delete_location_def)

lemma condition_delete_restricted:
  assumes "find (\<lambda>k. condition_id k = cid) (conditions st) = Some c"
    and "\<exists>s \<in> set (samples st). condition s = cid"
  shows "snd (EnvironmentalConditionsDetailView_delete ev cid st) = st"
    and "\<not> failing ev 0 \<Longrightarrow>
         EnvironmentalConditionsDetailView_delete ev cid st = (Response 500 (Error RestrictedError), st)"
  using assms
  by (simp_all add: EnvironmentalConditionsDetailView_delete_def atomic_execute delete_condition_def)

lemma condition_delete_free:
  assumes "find (\<lambda>k. condition_id k = cid) (conditions st) = Some c"
    and "\<forall>s \<in> set (samples st). condition s \<noteq> cid" and "\<not> failing ev 0"
  shows "EnvironmentalConditionsDetailView_delete ev cid st =
     (Response 204 NoContent, st\<lparr>conditions := filter (\<lambda>k. condition_id k \<noteq> cid) (conditions st)\<rparr>)"
  using assms
  by (simp add: EnvironmentalConditionsDetailView_delete_def atomic_execute delete_condition_def)

lemma hard_delete_view_run:
  assumes "get_sample st sid = Some s"
    and "\<not> failing ev 0" and "\<not> failing ev 1" and "\<not> failing ev 2" and "\<not> failing ev 3"
  shows "\<exists>body e. PlantSampleHardDeleteView_delete ev sid st =
     (Response 200 body,
      (with_audit e st)\<lparr>growth_metrics := filter (\<lambda>g. gm_sample g \<noteq> sid) (growth_metrics st),
                 sample_researchers := filter (\<lambda>l. sr_sample l \<noteq> sid) (sample_researchers st),
                 samples := filter (\<lambda>s. sample_id s \<noteq> sid) (samples st)\<rparr>)"
proof -
  let ?sp = "dict_get_default (sample_detail s) ''species'' (JStr ''Unknown'')"
  define e where "e = audit_entry ev st sid ''HARD_DELETED''
                (JObj [(''species'', ?sp),
                       (''warning'', JStr ''PERMANENT DELETION - All data removed from database'')])"
  define st1 where "st1 = (with_audit e st)\<lparr>growth_metrics := filter (\<lambda>g. gm_sample g \<noteq> sid) (growth_metrics (with_audit e st))\<rparr>"
  define st2 where "st2 = st1\<lparr>sample_researchers := filter (\<lambda>l. sr_sample l \<noteq> sid) (sample_researchers st1)\<rparr>"
  define st3 where "st3 = st2\<lparr>growth_metrics := filter (\<lambda>g. gm_sample g \<noteq> sid) (growth_metrics st2),
                 sample_researchers := filter (\<lambda>l. sr_sample l \<noteq> sid) (sample_researchers st2),
                 samples := filter (\<lambda>s. sample_id s \<noteq> sid) (samples st2)\<rparr>"
  have sid: "sample_id s = sid" using assms(1) by (rule get_sample_id)
  have d1: "delete_growth_metrics_of sid (with_audit e st) = Inr ((), st1)"
    by (simp add: delete_growth_metrics_of_def st1_def)
  have d2: "delete_sample_researchers_of sid st1 = Inr ((), st2)"
    by (simp add: delete_sample_researchers_of_def st2_def)
  have d3: "delete_sample_row sid st2 = Inr ((), st3)"
    by (simp add: delete_sample_row_def st3_def)
  have tx: "atomic (hard_delete_tx ev s) st = (Inr ?sp, st3)"
    using assms(2-5) sid e_def d1 d2 d3 by (rule hard_delete_tx_run)
  have eq: "st3 = (with_audit e st)\<lparr>growth_metrics := filter (\<lambda>g. gm_sample g \<noteq> sid) (growth_metrics st),
                 sample_researchers := filter (\<lambda>l. sr_sample l \<noteq> sid) (sample_researchers st),
                 samples := filter (\<lambda>s. sample_id s \<noteq> sid) (samples st)\<rparr>"
    by (simp add: st3_def st2_def st1_def with_audit_def)
  have "\<exists>body. PlantSampleHardDeleteView_delete ev sid st =
     (Response 200 body,
      (with_audit e st)\<lparr>growth_metrics := filter (\<lambda>g. gm_sample g \<noteq> sid) (growth_metrics st),
                 sample_researchers := filter (\<lambda>l. sr_sample l \<noteq> sid) (sample_researchers st),
                 samples := filter (\<lambda>s. sample_id s \<noteq> sid) (samples st)\<rparr>)"
    using assms(1) by (simp add: PlantSampleHardDeleteView_delete_def tx eq)
  then show ?thesis by blast
qed

lemma hard_delete_view_store:
  assumes "get_sample st sid = Some s"
    and "\<not> failing ev 0" and "\<not> failing ev 1" and "\<not> failing ev 2" and "\<not> failing ev 3"
  shows "samples (snd (PlantSampleHardDeleteView_delete ev sid st)) =
           filter (\<lambda>s. sample_id s \<noteq> sid) (samples st)"
    and "locations (snd (PlantSampleHardDeleteView_delete ev sid st)) = locations st"
    and "conditions (snd (PlantSampleHardDeleteView_delete ev sid st)) = conditions st"
    and "sample_researchers (snd (PlantSampleHardDeleteView_delete ev sid st)) =
           filter (\<lambda>l. sr_sample l \<noteq> sid) (sample_researchers st)"
  using hard_delete_view_run [OF assms] by (auto simp: with_audit_def)

text \<open>
  Claim C7. A location or a condition that exists and that some sample row refers to
  (whether the sample is active or soft deleted: the flag is not looked at) cannot be
  deleted: the delete raises \<open>RestrictedError\<close> (status 500) and the store is as
  before. Once no sample row refers to it, the delete succeeds (status 204) and the row
  is gone; in particular after the hard delete of the only referring sample.
\<close>

theorem referenced_location_or_condition_cannot_be_deleted:
  "(find (\<lambda>l. location_id l = lid) (locations st) = Some l \<and>
      (\<exists>x \<in> set (samples st). location x = lid) \<longrightarrow>
        snd (SamplingLocationDetailView_delete ev lid st) = st \<and>
        (\<not> failing ev 0 \<longrightarrow>
           SamplingLocationDetailView_delete ev lid st = (Response 500 (Error RestrictedError), st))) \<and>
   (find (\<lambda>l. location_id l = lid) (locations st) = Some l \<and>
      (\<forall>x \<in> set (samples st). location x \<noteq> lid) \<and> \<not> failing ev 0 \<longrightarrow>
        fst (SamplingLocationDetailView_delete ev lid st) = Response 204 NoContent \<and>
        find (\<lambda>l. location_id l = lid) (locations (snd (SamplingLocationDetailView_delete ev lid st))) = None) \<and>
   (find (\<lambda>l. location_id l = lid) (locations st) = Some l \<and> get_sample st sid = Some s \<and>
      (\<forall>x \<in> set (samples st). location x = lid \<longrightarrow> sample_id x = sid) \<and>
      \<not> failing ev 0 \<and> \<not> failing ev 1 \<and> \<not> failing ev 2 \<and> \<not> failing ev 3 \<and> \<not> failing ev' 0 \<longrightarrow>
        fst (SamplingLocationDetailView_delete ev' lid
               (snd (PlantSampleHardDeleteView_delete ev sid st))) = Response 204 NoContent) \<and>
   (find (\<lambda>k. condition_id k = cid) (conditions st) = Some c \<and>
      (\<exists>x \<in> set (samples st). condition x = cid) \<longrightarrow>
        snd (EnvironmentalConditionsDetailView_delete ev cid st) = st \<and>
        (\<not> failing ev 0 \<longrightarrow>
           EnvironmentalConditionsDetailView_delete ev cid st = (Response 500 (Error RestrictedError), st))) \<and>
   (find (\<lambda>k. condition_id k = cid) (conditions st) = Some c \<and>
      (\<forall>x \<in> set (samples st). condition x \<noteq> cid) \<and> \<not> failing ev 0 \<longrightarrow>
        fst (EnvironmentalConditionsDetailView_delete ev cid st) = Response 204 NoContent \<and>
        find (\<lambda>k. condition_id k = cid)
          (conditions (snd (EnvironmentalConditionsDetailView_delete ev cid st))) = None) \<and>
   (find (\<lambda>k. condition_id k = cid) (conditions st) = Some c \<and> get_sample st sid = Some s \<and>
      (\<forall>x \<in> set (samples st). condition x = cid \<longrightarrow> sample_id x = sid) \<and>
      \<not> failing ev 0 \<and> \<not> failing ev 1 \<and> \<not> failing ev 2 \<and> \<not> failing ev 3 \<and> \<not> failing ev' 0 \<longrightarrow>
        fst (EnvironmentalConditionsDetailView_delete ev' cid
               (snd (PlantSampleHardDeleteView_delete ev sid st))) = Response 204 NoContent)"
proof -
  have l1: "find (\<lambda>l. location_id l = lid) (locations st) = Some l \<and>
      (\<exists>x \<in> set (samples st). location x = lid) \<longrightarrow>
        snd (SamplingLocationDetailView_delete ev lid st) = st \<and>
        (\<not> failing ev 0 \<longrightarrow>
           SamplingLocationDetailView_delete ev lid st = (Response 500 (Error RestrictedError), st))"
    using location_delete_restricted [of lid st l ev] by blast
  have l2: "find (\<lambda>l. location_id l = lid) (locations st) = Some l \<and>
      (\<forall>x \<in> set (samples st). location x \<noteq> lid) \<and> \<not> failing ev 0 \<longrightarrow>
        fst (SamplingLocationDetailView_delete ev lid st) = Response 204 NoContent \<and>
        find (\<lambda>l. location_id l = lid) (locations (snd (SamplingLocationDetailView_delete ev lid st))) = None"
    using location_delete_free [of lid st l ev]
    by (auto simp: find_filter_none)
  have l3: "find (\<lambda>l. location_id l = lid) (locations st) = Some l \<and> get_sample st sid = Some s \<and>
      (\<forall>x \<in> set (samples st). location x = lid \<longrightarrow> sample_id x = sid) \<and>
      \<not> failing ev 0 \<and> \<not> failing ev 1 \<and> \<not> failing ev 2 \<and> \<not> failing ev 3 \<and> \<not> failing ev' 0 \<longrightarrow>
        fst (SamplingLocationDetailView_delete ev' lid
               (snd (PlantSampleHardDeleteView_delete ev sid st))) = Response 204 NoContent"
  proof (intro impI, elim conjE)
    assume a: "find (\<lambda>l. location_id l = lid) (locations st) = Some l" "get_sample st sid = Some s"
      "\<forall>x \<in> set (samples st). location x = lid \<longrightarrow> sample_id x = sid"
      "\<not> failing ev 0" "\<not> failing ev 1" "\<not> failing ev 2" "\<not> failing ev 3" "\<not> failing ev' 0"
    let ?st = "snd (PlantSampleHardDeleteView_delete ev sid st)"
    have s: "samples ?st = filter (\<lambda>s. sample_id s \<noteq> sid) (samples st)"
      and l: "locations ?st = locations st"
      using hard_delete_view_store [OF a(2,4,5,6,7)] by simp_all
    have f: "find (\<lambda>l. location_id l = lid) (locations ?st) = Some l" using a(1) l by simp
    have n: "\<forall>x \<in> set (samples ?st). location x \<noteq> lid" using a(3) by (auto simp: s)
    show "fst (SamplingLocationDetailView_delete ev' lid ?st) = Response 204 NoContent"
      using location_delete_free [OF f n a(8)] by simp
  qed
  have c1: "find (\<lambda>k. condition_id k = cid) (conditions st) = Some c \<and>
      (\<exists>x \<in> set (samples st). condition x = cid) \<longrightarrow>
        snd (EnvironmentalConditionsDetailView_delete ev cid st) = st \<and>
        (\<not> failing ev 0 \<longrightarrow>
           EnvironmentalConditionsDetailView_delete ev cid st = (Response 500 (Error RestrictedError), st))"
    using condition_delete_restricted [of cid st c ev] by blast
  have c2: "find (\<lambda>k. condition_id k = cid) (conditions st) = Some c \<and>
      (\<forall>x \<in> set (samples st). condition x \<noteq> cid) \<and> \<not> failing ev 0 \<longrightarrow>
        fst (EnvironmentalConditionsDetailView_delete ev cid st) = Response 204 NoContent \<and>
        find (\<lambda>k. condition_id k = cid)
          (conditions (snd (EnvironmentalConditionsDetailView_delete ev cid st))) = None"
    using condition_delete_free [of cid st c ev]
    by (auto simp: find_filter_none)
  have c3: "find (\<lambda>k. condition_id k = cid) (conditions st) = Some c \<and> get_sample st sid = Some s \<and>
      (\<forall>x \<in> set (samples st). condition x = cid \<longrightarrow> sample_id x = sid) \<and>
      \<not> failing ev 0 \<and> \<not> failing ev 1 \<and> \<not> failing ev 2 \<and> \<not> failing ev 3 \<and> \<not> failing ev' 0 \<longrightarrow>
        fst (EnvironmentalConditionsDetailView_delete ev' cid
               (snd (PlantSampleHardDeleteView_delete ev sid st))) = Response 204 NoContent"
  proof (intro impI, elim conjE)
    assume a: "find (\<lambda>k. condition_id k = cid) (conditions st) = Some c" "get_sample st sid = Some s"
      "\<forall>x \<in> set (samples st). condition x = cid \<longrightarrow> sample_id x = sid"
      "\<not> failing ev 0" "\<not> failing ev 1" "\<not> failing ev 2" "\<not> failing ev 3" "\<not> failing ev' 0"
    let ?st = "snd (PlantSampleHardDeleteView_delete ev sid st)"
    have s: "samples ?st = filter (\<lambda>s. sample_id s \<noteq> sid) (samples st)"
      and l: "conditions ?st = conditions st"
      using hard_delete_view_store [OF a(2,4,5,6,7)] by simp_all
    have f: "find (\<lambda>k. condition_id k = cid) (conditions ?st) = Some c" using a(1) l by simp
    have n: "\<forall>x \<in> set (samples ?st). condition x \<noteq> cid" using a(3) by (auto simp: s)
    show "fst (EnvironmentalConditionsDetailView_delete ev' cid ?st) = Response 204 NoContent"
      using condition_delete_free [OF f n a(8)] by simp
  qed
  from l1 l2 l3 c1 c2 c3 show ?thesis by blast
qed

theorem referenced_location_or_condition_cannot_be_deleted_witness:
  "SamplingLocationDetailView_delete example_env 1 (example_store\<lparr>samples := [beech]\<rparr>) =
     (Response 500 (Error RestrictedError), example_store\<lparr>samples := [beech]\<rparr>) \<and>
   fst (SamplingLocationDetailView_delete example_env 1
          (snd (PlantSampleHardDeleteView_delete example_env 2 (example_store\<lparr>samples := [beech]\<rparr>)))) =
     Response 204 NoContent \<and>
   EnvironmentalConditionsDetailView_delete example_env 1 (example_store\<lparr>samples := [beech]\<rparr>) =
     (Response 500 (Error RestrictedError), example_store\<lparr>samples := [beech]\<rparr>) \<and>
   fst (EnvironmentalConditionsDetailView_delete example_env 1
          (snd (PlantSampleHardDeleteView_delete example_env 2 (example_store\<lparr>samples := [beech]\<rparr>)))) =
     Response 204 NoContent"
proof -
  let ?st = "example_store\<lparr>samples := [beech]\<rparr>"
  let ?l = "hd (locations example_store)"
  let ?c = "hd (conditions example_store)"
  have f: "find (\<lambda>l. location_id l = 1) (locations ?st) = Some ?l"
    "find (\<lambda>k. condition_id k = 1) (conditions ?st) = Some ?c"
    by (simp_all add: example_store_def)
  have g: "get_sample ?st 2 = Some beech"
    by (simp add: get_sample_def beech_def)
  have r: "\<exists>x \<in> set (samples ?st). location x = 1" "\<exists>x \<in> set (samples ?st). condition x = 1"
    "\<forall>x \<in> set (samples ?st). location x = 1 \<longrightarrow> sample_id x = 2"
    "\<forall>x \<in> set (samples ?st). condition x = 1 \<longrightarrow> sample_id x = 2"
    by (simp_all add: beech_def)
  have n: "\<And>k. \<not> failing example_env k" by (simp add: example_env_def)
  from referenced_location_or_condition_cannot_be_deleted
         [of 1 ?st ?l example_env 2 beech example_env 1 ?c] f g r n
  show ?thesis by blast
qed

subsection \<open>Growth metrics of a sample\<close>

lemma run_field_same:
  assumes "run_field p x f = Inr y" and "\<And>a b. f a = Inr b \<Longrightarrow> b = a"
  shows "y = x"
  using assms by (auto simp: run_field_def split: option.splits sum.splits if_splits)

lemma range_field_same: "range_field lo lt hi ht a = Inr b \<Longrightarrow> b = a"
  by (auto simp: range_field_def split: if_splits)

lemma choice_field_same: "choice_field cs a = Inr b \<Longrightarrow> b = a"
  by (auto simp: choice_field_def split: if_splits)

lemma growth_validate_Inr:
  assumes "GrowthMetricsSerializer_validate st sid req = Inr v"
  shows "v = req" and "clean_fields_growth st sid v = []"
proof -
  from assms obtain s' h' l' d' c' where
    s: "pk_field (map sample_id (samples st)) sid = Inr s'"
    and h: "run_field True (gr_height req) (range_field 0 ''0'' 200 ''200'') = Inr h'"
    and l: "run_field True (gr_leaf_count req) (range_field 0 ''0'' 100000 ''100000'') = Inr l'"
    and d: "run_field True (gr_stem_diameter req) (range_field 0 ''0'' 50 ''50'') = Inr d'"
    and c: "run_field True (gr_health_status req) (choice_field (map fst HEALTH_STATUS_CHOICES)) = Inr c'"
    and v: "v = \<lparr>gr_height = h', gr_leaf_count = l', gr_stem_diameter = d', gr_health_status = c'\<rparr>"
    unfolding GrowthMetricsSerializer_validate_def Let_def
    by (auto split: sum.splits)
  have e: "h' = gr_height req" "l' = gr_leaf_count req" "d' = gr_stem_diameter req"
    "c' = gr_health_status req"
  proof -
    show "h' = gr_height req" by (rule run_field_same [OF h]) (rule range_field_same)
    show "l' = gr_leaf_count req" by (rule run_field_same [OF l]) (rule range_field_same)
    show "d' = gr_stem_diameter req" by (rule run_field_same [OF d]) (rule range_field_same)
    show "c' = gr_health_status req" by (rule run_field_same [OF c]) (rule choice_field_same)
  qed
  show "v = req" by (simp add: v e)
  then show "clean_fields_growth st sid v = []"
    using s h l d c by (simp add: clean_fields_growth_def field_errors_def)
qed

lemma growth_row_insert:
  "insert_growth t sid v st =
     Inr (\<lparr>growth_id = next_growth_id st, gm_sample = sid, height = gr_height v,
           leaf_count = gr_leaf_count v, stem_diameter = gr_stem_diameter v,
           health_status = gr_health_status v, measured_at = t\<rparr>,
          st\<lparr>growth_metrics := growth_metrics st @
                [\<lparr>growth_id = next_growth_id st, gm_sample = sid, height = gr_height v,
                  leaf_count = gr_leaf_count v, stem_diameter = gr_stem_diameter v,
                  health_status = gr_health_status v, measured_at = t\<rparr>],
              next_growth_id := Suc (next_growth_id st)\<rparr>)"
  by (simp add: insert_growth_def Let_def)

lemma growth_create_formula:
  "GrowthMetrics_create ev sid v (0, st) =
     (case full_clean_growth ev sid v None st of
        Inl e \<Rightarrow> Inl e
      | Inr u \<Rightarrow>
          if failing ev 0 then Inl (StorageError Insert_growth_metrics)
          else Inr (new_growth ev st sid v, (Suc 0, with_growth (new_growth ev st sid v) st)))"
proof (cases "full_clean_growth ev sid v None st")
  case (Inl e)
  then show ?thesis
    by (simp add: GrowthMetrics_create_def bind_tx_def check_def)
next
  case (Inr u)
  then show ?thesis
    by (simp add: GrowthMetrics_create_def bind_tx_def check_def execute_def growth_row_insert
        new_growth_def with_growth_def)
qed

lemma audit_create_formula:
  "SampleAuditLog_create ev sid act det (k, st) =
     (if failing ev k then Inl (StorageError Insert_audit_log)
      else Inr (audit_entry ev st sid act det, (Suc k, with_audit (audit_entry ev st sid act det) st)))"
  by (simp add: SampleAuditLog_create_def execute_def insert_audit_def Let_def audit_entry_def with_audit_def)

lemma add_growth_tx_formula:
  "atomic (add_growth_tx ev sid v) st =
     (case full_clean_growth ev sid v None st of
        Inl e \<Rightarrow> (Inl e, st)
      | Inr u \<Rightarrow>
          if failing ev 0 then (Inl (StorageError Insert_growth_metrics), st)
          else if failing ev (Suc 0) then (Inl (StorageError Insert_audit_log), st)
          else (Inr (new_growth ev st sid v),
                with_audit (audit_entry ev (with_growth (new_growth ev st sid v) st) sid
                              ''GROWTH_METRICS_ADDED'' (growth_details (new_growth ev st sid v)))
                  (with_growth (new_growth ev st sid v) st)))"
proof (cases "full_clean_growth ev sid v None st")
  case (Inl e)
  then show ?thesis
    by (simp add: atomic_def add_growth_tx_def bind_tx_def growth_create_formula)
next
  case (Inr u)
  show ?thesis
  proof (cases "failing ev 0")
    case True
    with Inr show ?thesis
      by (simp add: atomic_def add_growth_tx_def bind_tx_def growth_create_formula)
  next
    case False
    with Inr show ?thesis
      by (simp add: atomic_def add_growth_tx_def bind_tx_def growth_create_formula
          audit_create_formula return_tx_def)
  qed
qed

lemma full_clean_growth_new:
  "full_clean_growth ev sid v None st =
     (if clean_fields_growth st sid v = [] then Inr () else Inl (ValidationError (clean_fields_growth st sid v)))"
  by (simp add: full_clean_growth_def clean_growth_def Let_def)

lemma growth_post_run:
  assumes "get_sample st sid = Some s" and "GrowthMetricsSerializer_validate st sid req = Inr v"
    and "\<not> failing ev 0" and "\<not> failing ev (Suc 0)"
  shows "GrowthMetricsCreateForSampleView_post ev sid req st =
     (Response 201 (GrowthData (new_growth ev st sid req)),
      with_audit (audit_entry ev st sid ''GROWTH_METRICS_ADDED'' (growth_details (new_growth ev st sid req)))
        (with_growth (new_growth ev st sid req) st))"
proof -
  have v: "v = req" and c: "clean_fields_growth st sid v = []"
    using growth_validate_Inr [OF assms(2)] by simp_all
  have fc: "full_clean_growth ev sid req None st = Inr ()"
    using c by (simp add: full_clean_growth_new v)
  have ae: "audit_entry ev (with_growth (new_growth ev st sid req) st) sid ''GROWTH_METRICS_ADDED''
              (growth_details (new_growth ev st sid req)) =
            audit_entry ev st sid ''GROWTH_METRICS_ADDED'' (growth_details (new_growth ev st sid req))"
    by (simp add: audit_entry_def with_growth_def)
  have tx: "atomic (add_growth_tx ev sid v) st =
      (Inr (new_growth ev st sid req),
       with_audit (audit_entry ev st sid ''GROWTH_METRICS_ADDED'' (growth_details (new_growth ev st sid req)))
        (with_growth (new_growth ev st sid req) st))"
    using assms(3,4) by (simp add: add_growth_tx_formula fc v ae)
  show ?thesis
    by (simp add: GrowthMetricsCreateForSampleView_post_def assms(1,2) tx)
qed

lemma find_map_key:
  "(\<And>x. P (f x) = P x) \<Longrightarrow> find P (map f xs) = map_option f (find P xs)"
  by (induction xs) auto

lemma get_sample_flags:
  "get_sample (st\<lparr>samples := map (\<lambda>x. x\<lparr>is_deleted := deleted x\<rparr>) (samples st)\<rparr>) sid =
     map_option (\<lambda>x. x\<lparr>is_deleted := deleted x\<rparr>) (get_sample st sid)"
  by (simp add: get_sample_def find_map_key)

lemma growth_validate_flags:
  "GrowthMetricsSerializer_validate (st\<lparr>samples := map (\<lambda>x. x\<lparr>is_deleted := deleted x\<rparr>) (samples st)\<rparr>) sid req =
     GrowthMetricsSerializer_validate st sid req"
  by (simp add: GrowthMetricsSerializer_validate_def o_def)

text \<open>
  Claim C10. For a sample that exists, soft deleted or not, and a growth request that
  the serializer accepts, the storage not failing: create-for-sample answers 201 with
  the new metric, appends it to the table and appends one GROWTH_METRICS_ADDED audit
  entry for the sample. No deleted-state check is made: with the \<open>is_deleted\<close> flags
  of the samples set in any other way the view gives the same response and writes the
  same rows. The per-sample listing afterwards returns every metric of the sample, the
  new one included, newest first.
\<close>

theorem growth_metrics_not_blocked_by_soft_delete:
  assumes "get_sample st sid = Some s"
    and "GrowthMetricsSerializer_validate st sid req = Inr v"
    and "\<not> failing ev 0" and "\<not> failing ev (Suc 0)"
  shows "\<exists>row entry st' ms.
      GrowthMetricsCreateForSampleView_post ev sid req st = (Response 201 (GrowthData row), st') \<and>
      gm_sample row = sid \<and> height row = gr_height req \<and> leaf_count row = gr_leaf_count req \<and>
      stem_diameter row = gr_stem_diameter req \<and> health_status row = gr_health_status req \<and>
      growth_metrics st' = growth_metrics st @ [row] \<and>
      audit_log st' = audit_log st @ [entry] \<and>
      log_sample_id entry = sid \<and> action entry = ''GROWTH_METRICS_ADDED'' \<and>
      (\<forall>deleted.
         GrowthMetricsCreateForSampleView_post ev sid req
           (st\<lparr>samples := map (\<lambda>x. x\<lparr>is_deleted := deleted x\<rparr>) (samples st)\<rparr>) =
         (Response 201 (GrowthData row),
          st'\<lparr>samples := map (\<lambda>x. x\<lparr>is_deleted := deleted x\<rparr>) (samples st)\<rparr>)) \<and>
      GrowthMetricsBySampleView_get sid st' = Response 200 (GrowthList ms) \<and>
      mset ms = mset (filter (\<lambda>g. gm_sample g = sid) (growth_metrics st)) + {#row#} \<and>
      sorted_wrt (\<lambda>a b. measured_at b \<le> measured_at a) ms"
proof -
  let ?row = "new_growth ev st sid req"
  let ?e = "audit_entry ev st sid ''GROWTH_METRICS_ADDED'' (growth_details ?row)"
  let ?st' = "with_audit ?e (with_growth ?row st)"
  let ?ms = "order_by_desc measured_at (filter (\<lambda>g. gm_sample g = sid) (growth_metrics ?st'))"
  have p: "GrowthMetricsCreateForSampleView_post ev sid req st = (Response 201 (GrowthData ?row), ?st')"
    using assms by (rule growth_post_run)
  have r: "gm_sample ?row = sid" "height ?row = gr_height req" "leaf_count ?row = gr_leaf_count req"
    "stem_diameter ?row = gr_stem_diameter req" "health_status ?row = gr_health_status req"
    by (simp_all add: new_growth_def)
  have g: "growth_metrics ?st' = growth_metrics st @ [?row]"
    by (simp add: with_audit_def with_growth_def)
  have a: "audit_log ?st' = audit_log st @ [?e]"
    by (simp add: with_audit_def with_growth_def)
  have e: "log_sample_id ?e = sid" "action ?e = ''GROWTH_METRICS_ADDED''"
    by (simp_all add: audit_entry_def)
  have f: "\<forall>deleted.
         GrowthMetricsCreateForSampleView_post ev sid req
           (st\<lparr>samples := map (\<lambda>x. x\<lparr>is_deleted := deleted x\<rparr>) (samples st)\<rparr>) =
         (Response 201 (GrowthData ?row),
          ?st'\<lparr>samples := map (\<lambda>x. x\<lparr>is_deleted := deleted x\<rparr>) (samples st)\<rparr>)"
  proof
    fix deleted
    let ?stf = "st\<lparr>samples := map (\<lambda>x. x\<lparr>is_deleted := deleted x\<rparr>) (samples st)\<rparr>"
    have 1: "get_sample ?stf sid = Some (s\<lparr>is_deleted := deleted s\<rparr>)"
      by (simp add: get_sample_flags assms(1))
    have 2: "GrowthMetricsSerializer_validate ?stf sid req = Inr v"
      by (simp add: growth_validate_flags assms(2))
    have 3: "new_growth ev ?stf sid req = ?row"
      by (simp add: new_growth_def)
    have 4: "audit_entry ev ?stf sid ''GROWTH_METRICS_ADDED'' (growth_details ?row) = ?e"
      by (simp add: audit_entry_def)
    have 5: "with_audit ?e (with_growth ?row ?stf) =
        ?st'\<lparr>samples := map (\<lambda>x. x\<lparr>is_deleted := deleted x\<rparr>) (samples st)\<rparr>"
      by (simp add: with_audit_def with_growth_def)
    show "GrowthMetricsCreateForSampleView_post ev sid req ?stf =
         (Response 201 (GrowthData ?row),
          ?st'\<lparr>samples := map (\<lambda>x. x\<lparr>is_deleted := deleted x\<rparr>) (samples st)\<rparr>)"
      using growth_post_run [OF 1 2 assms(3,4)] by (simp only: 3 4 5)
  qed
  have l: "GrowthMetricsBySampleView_get sid ?st' = Response 200 (GrowthList ?ms)"
    by (simp add: GrowthMetricsBySampleView_get_def)
  have m: "mset ?ms = mset (filter (\<lambda>g. gm_sample g = sid) (growth_metrics st)) + {#?row#}"
    by (simp add: mset_order_by_desc g r(1))
  have s: "sorted_wrt (\<lambda>a b. measured_at b \<le> measured_at a) ?ms"
    by (rule sorted_order_by_desc)
  from p r g a e f l m s show ?thesis by blast
qed

theorem growth_metrics_not_blocked_by_soft_delete_witness:
  "is_deleted beech \<and> get_sample example_store 2 = Some beech \<and>
   (\<exists>row entry st' ms.
      GrowthMetricsCreateForSampleView_post example_env 2
        \<lparr>gr_height = Some 25, gr_leaf_count = Some 40, gr_stem_diameter = None,
         gr_health_status = Some ''good''\<rparr> example_store = (Response 201 (GrowthData row), st') \<and>
      gm_sample row = 2 \<and> height row = Some 25 \<and>
      growth_metrics st' = growth_metrics example_store @ [row] \<and>
      audit_log st' = audit_log example_store @ [entry] \<and>
      log_sample_id entry = 2 \<and> action entry = ''GROWTH_METRICS_ADDED'' \<and>
      GrowthMetricsBySampleView_get 2 st' = Response 200 (GrowthList ms) \<and>
      mset ms = mset (filter (\<lambda>g. gm_sample g = 2) (growth_metrics example_store)) + {#row#})"
proof -
  let ?req = "\<lparr>gr_height = Some 25, gr_leaf_count = Some 40, gr_stem_diameter = None,
         gr_health_status = Some ''good''\<rparr>"
  have d: "is_deleted beech" by (simp add: beech_def)
  have g: "get_sample example_store 2 = Some beech"
    by (simp add: get_sample_def example_store_def oak_def beech_def)
  have v: "GrowthMetricsSerializer_validate example_store 2 ?req = Inr ?req"
    by (simp add: GrowthMetricsSerializer_validate_def example_store_def oak_def beech_def
        pk_field_def run_field_def range_field_def choice_field_def HEALTH_STATUS_CHOICES_def)
  have n: "\<not> failing example_env 0" "\<not> failing example_env (Suc 0)"
    by (simp_all add: example_env_def)
  from growth_metrics_not_blocked_by_soft_delete [OF g v n] d g
  show ?thesis by auto
qed

subsection \<open>Atomic transactions\<close>

lemma bind_tx_Inr_iff:
  "bind_tx m f s = Inr r \<longleftrightarrow> (\<exists>a s1. m s = Inr (a, s1) \<and> f a s1 = Inr r)"
  by (cases "m s") (auto simp: bind_tx_def)

lemma execute_Inr_iff:
  "execute ev q w (k, st) = Inr (a, (k', st')) \<longleftrightarrow>
     \<not> failing ev k \<and> w st = Inr (a, st') \<and> k' = Suc k"
  by (cases "w st") (auto simp: execute_def)

lemma check_Inr_iff:
  "check f (k, st) = Inr (a, (k', st')) \<longleftrightarrow> f st = Inr a \<and> k' = k \<and> st' = st"
  by (cases "f st") (auto simp: check_def)

lemma query_Inr_iff:
  "query f (k, st) = Inr (a, (k', st')) \<longleftrightarrow> a = f st \<and> k' = k \<and> st' = st"
  by (auto simp: query_def)

lemma return_tx_Inr_iff:
  "return_tx x (k, st) = Inr (a, (k', st')) \<longleftrightarrow> a = x \<and> k' = k \<and> st' = st"
  by (auto simp: return_tx_def)

lemma atomic_cases:
  obtains (rollback) e where "atomic m st = (Inl e, st)" "m (0, st) = Inl e"
        | (commit) a k st' where "atomic m st = (Inr a, st')" "m (0, st) = Inr (a, (k, st'))"
  by (cases "m (0, st)") (auto simp: atomic_def)

lemma audit_create_Inr:
  assumes "SampleAuditLog_create ev sid act det (k, st) = Inr (e, (k', st'))"
  shows "e = audit_entry ev st sid act det" and "st' = with_audit e st" and "k' = Suc k"
    and "\<not> failing ev k"
  using assms
  by (auto simp: SampleAuditLog_create_def execute_Inr_iff insert_audit_def Let_def
      audit_entry_def with_audit_def)

lemma save_Inr:
  assumes "PlantSample_save ev adding self (k, st) = Inr (row, (k', st'))"
  shows "full_clean_sample ev
           (self\<lparr>sample_detail := autofill_sampling_date (today ev) (sample_detail self)\<rparr>) st = Inr ()"
    and "\<not> failing ev k" and "k' = Suc k"
    and "adding \<Longrightarrow> row = self\<lparr>sample_detail := autofill_sampling_date (today ev) (sample_detail self),
                              sample_id := next_sample_id st, created_at := now ev, updated_at := now ev\<rparr>
                   \<and> st' = with_sample row st"
    and "\<not> adding \<Longrightarrow> row = self\<lparr>sample_detail := autofill_sampling_date (today ev) (sample_detail self),
                              updated_at := now ev\<rparr>
                   \<and> st' = replace_sample row st"
  using assms
  by (auto simp: PlantSample_save_def Let_def bind_tx_Inr_iff check_Inr_iff execute_Inr_iff
      write_sample_def with_sample_def replace_sample_def split: if_splits)

lemma create_tx_Inr:
  assumes "create_sample_tx ev v (0, st) = Inr (data, (k, st'))"
  shows "\<exists>row entry.
      row = (set_validated v new_sample)
              \<lparr>sample_detail := autofill_sampling_date (today ev) (sample_detail (set_validated v new_sample)),
               sample_id := next_sample_id st, created_at := now ev, updated_at := now ev\<rparr> \<and>
      entry = audit_entry ev st (sample_id row) ''CREATED''
                (JObj [(''species'', dict_get (sample_detail row) ''species''),
                       (''location_id'', JNum (of_nat (location row)))]) \<and>
      st' = with_audit entry (with_sample row st) \<and>
      data = PlantSampleDetailSerializer_data row st' \<and>
      full_clean_sample ev row st = Inr ()"
proof -
  from assms obtain row k1 st1 entry k2 st2 where
    s: "PlantSample_save ev True (set_validated v new_sample) (0, st) = Inr (row, (k1, st1))"
    and a: "SampleAuditLog_create ev (sample_id row) ''CREATED''
              (JObj [(''species'', dict_get (sample_detail row) ''species''),
                     (''location_id'', JNum (of_nat (location row)))]) (k1, st1) = Inr (entry, (k2, st2))"
    and q: "query (PlantSampleDetailSerializer_data row) (k2, st2) = Inr (data, (k, st'))"
    unfolding create_sample_tx_def bind_tx_Inr_iff by auto
  from save_Inr(4) [OF s] have r: "row = (set_validated v new_sample)
              \<lparr>sample_detail := autofill_sampling_date (today ev) (sample_detail (set_validated v new_sample)),
               sample_id := next_sample_id st, created_at := now ev, updated_at := now ev\<rparr>"
    and st1: "st1 = with_sample row st" by simp_all
  from audit_create_Inr(1,2) [OF a] have e: "entry = audit_entry ev st1 (sample_id row) ''CREATED''
                (JObj [(''species'', dict_get (sample_detail row) ''species''),
                       (''location_id'', JNum (of_nat (location row)))])"
    and st2: "st2 = with_audit entry st1" by simp_all
  have e': "entry = audit_entry ev st (sample_id row) ''CREATED''
                (JObj [(''species'', dict_get (sample_detail row) ''species''),
                       (''location_id'', JNum (of_nat (location row)))])"
    using e by (simp add: audit_entry_def st1 with_sample_def)
  from q have d: "data = PlantSampleDetailSerializer_data row st2" "st' = st2"
    by (simp_all add: query_Inr_iff)
  have "full_clean_sample ev row st =
      full_clean_sample ev ((set_validated v new_sample)
         \<lparr>sample_detail := autofill_sampling_date (today ev) (sample_detail (set_validated v new_sample))\<rparr>) st"
    by (rule full_clean_sample_cong) (simp_all add: r)
  then have fc: "full_clean_sample ev row st = Inr ()"
    using save_Inr(1) [OF s] by simp
  from r e' st1 st2 d fc show ?thesis by blast
qed

lemma create_view_cases:
  "(snd (PlantSampleCreateView_post ev req st) = st \<and>
      (\<exists>b. fst (PlantSampleCreateView_post ev req st) = Response 400 b)) \<or>
   (\<exists>v row entry st'.
      PlantSampleSerializer_validate False st req = Inr v \<and>
      PlantSampleCreateView_post ev req st =
        (Response 201 (SampleDetail (PlantSampleDetailSerializer_data row st')), st') \<and>
      row = (set_validated v new_sample)
              \<lparr>sample_detail := autofill_sampling_date (today ev) (sample_detail (set_validated v new_sample)),
               sample_id := next_sample_id st, created_at := now ev, updated_at := now ev\<rparr> \<and>
      entry = audit_entry ev st (sample_id row) ''CREATED''
                (JObj [(''species'', dict_get (sample_detail row) ''species''),
                       (''location_id'', JNum (of_nat (location row)))]) \<and>
      st' = with_audit entry (with_sample row st) \<and>
      full_clean_sample ev row st = Inr ())"
proof (cases "PlantSampleSerializer_validate False st req")
  case (Inl errors)
  then show ?thesis by (simp add: PlantSampleCreateView_post_def)
next
  case (Inr v)
  show ?thesis
  proof (cases rule: atomic_cases [of "create_sample_tx ev v" st])
    case (rollback e)
    then show ?thesis using Inr by (simp add: PlantSampleCreateView_post_def)
  next
    case (commit data k st')
    from create_tx_Inr [OF commit(2)] obtain row entry where
      x: "row = (set_validated v new_sample)
              \<lparr>sample_detail := autofill_sampling_date (today ev) (sample_detail (set_validated v new_sample)),
               sample_id := next_sample_id st, created_at := now ev, updated_at := now ev\<rparr>"
      "entry = audit_entry ev st (sample_id row) ''CREATED''
                (JObj [(''species'', dict_get (sample_detail row) ''species''),
                       (''location_id'', JNum (of_nat (location row)))])"
      "st' = with_audit entry (with_sample row st)"
      "data = PlantSampleDetailSerializer_data row st'"
      "full_clean_sample ev row st = Inr ()"
      by blast
    have "PlantSampleCreateView_post ev req st =
        (Response 201 (SampleDetail (PlantSampleDetailSerializer_data row st')), st')"
      using Inr commit(1) x(4) by (simp add: PlantSampleCreateView_post_def)
    with Inr x show ?thesis by blast
  qed
qed

lemma update_tx_Inr:
  assumes "update_sample_tx ev s v (0, st) = Inr (data, (k, st'))"
  shows "\<exists>row entry.
      row = (set_validated v s)
              \<lparr>sample_detail := autofill_sampling_date (today ev) (sample_detail (set_validated v s)),
               updated_at := now ev\<rparr> \<and>
      entry = audit_entry ev st (sample_id s) ''UPDATED''
                (JObj [(''old_detail'', JObj (sample_detail s)),
                       (''new_detail'', JObj (sample_detail row))]) \<and>
      st' = with_audit entry (replace_sample row st) \<and>
      data = PlantSampleDetailSerializer_data row st' \<and>
      full_clean_sample ev row st = Inr ()"
proof -
  from assms obtain row k1 st1 entry k2 st2 where
    s: "PlantSample_save ev False (set_validated v s) (0, st) = Inr (row, (k1, st1))"
    and a: "SampleAuditLog_create ev (sample_id row) ''UPDATED''
              (JObj [(''old_detail'', JObj (sample_detail s)),
                     (''new_detail'', JObj (sample_detail row))]) (k1, st1) = Inr (entry, (k2, st2))"
    and q: "query (PlantSampleDetailSerializer_data row) (k2, st2) = Inr (data, (k, st'))"
    unfolding update_sample_tx_def Let_def bind_tx_Inr_iff by auto
  from save_Inr(5) [OF s] have r: "row = (set_validated v s)
              \<lparr>sample_detail := autofill_sampling_date (today ev) (sample_detail (set_validated v s)),
               updated_at := now ev\<rparr>"
    and st1: "st1 = replace_sample row st" by simp_all
  have id: "sample_id row = sample_id s" by (simp add: r set_validated_def)
  from audit_create_Inr(1,2) [OF a] have e: "entry = audit_entry ev st1 (sample_id row) ''UPDATED''
                (JObj [(''old_detail'', JObj (sample_detail s)),
                     (''new_detail'', JObj (sample_detail row))])"
    and st2: "st2 = with_audit entry st1" by simp_all
  have e': "entry = audit_entry ev st (sample_id s) ''UPDATED''
                (JObj [(''old_detail'', JObj (sample_detail s)),
                     (''new_detail'', JObj (sample_detail row))])"
    using e by (simp add: audit_entry_def st1 replace_sample_def id)
  from q have d: "data = PlantSampleDetailSerializer_data row st2" "st' = st2"
    by (simp_all add: query_Inr_iff)
  have "full_clean_sample ev row st =
      full_clean_sample ev ((set_validated v s)
         \<lparr>sample_detail := autofill_sampling_date (today ev) (sample_detail (set_validated v s))\<rparr>) st"
    by (rule full_clean_sample_cong) (simp_all add: r)
  then have fc: "full_clean_sample ev row st = Inr ()"
    using save_Inr(1) [OF s] by simp
  from r e' st1 st2 d fc show ?thesis by blast
qed

lemma update_view_cases:
  "(snd (update_sample partial ev sid req st) = st \<and>
      (\<exists>b. fst (update_sample partial ev sid req st) = Response 400 b \<or>
           fst (update_sample partial ev sid req st) = Response 404 b)) \<or>
   (\<exists>s v row entry st'.
      get_sample st sid = Some s \<and> \<not> is_deleted s \<and>
      PlantSampleSerializer_validate partial st req = Inr v \<and>
      update_sample partial ev sid req st =
        (Response 200 (SampleDetail (PlantSampleDetailSerializer_data row st')), st') \<and>
      row = (set_validated v s)
              \<lparr>sample_detail := autofill_sampling_date (today ev) (sample_detail (set_validated v s)),
               updated_at := now ev\<rparr> \<and>
      entry = audit_entry ev st sid ''UPDATED''
                (JObj [(''old_detail'', JObj (sample_detail s)),
                       (''new_detail'', JObj (sample_detail row))]) \<and>
      st' = with_audit entry (replace_sample row st) \<and>
      full_clean_sample ev row st = Inr ())"
proof (cases "get_sample st sid")
  case None
  then show ?thesis by (simp add: update_sample_def)
next
  case (Some s)
  note s = Some
  have sid: "sample_id s = sid" using s by (rule get_sample_id)
  show ?thesis
  proof (cases "is_deleted s")
    case True
    then show ?thesis using s by (simp add: update_sample_def)
  next
    case False
    note act = False
    show ?thesis
    proof (cases "PlantSampleSerializer_validate partial st req")
      case (Inl errors)
      then show ?thesis using s act by (simp add: update_sample_def)
    next
      case (Inr v)
      show ?thesis
      proof (cases rule: atomic_cases [of "update_sample_tx ev s v" st])
        case (rollback e)
        then show ?thesis using s act Inr by (simp add: update_sample_def)
      next
        case (commit data k st')
        from update_tx_Inr [OF commit(2)] obtain row entry where
          x: "row = (set_validated v s)
              \<lparr>sample_detail := autofill_sampling_date (today ev) (sample_detail (set_validated v s)),
               updated_at := now ev\<rparr>"
          "entry = audit_entry ev st (sample_id s) ''UPDATED''
                (JObj [(''old_detail'', JObj (sample_detail s)),
                       (''new_detail'', JObj (sample_detail row))])"
          "st' = with_audit entry (replace_sample row st)"
          "data = PlantSampleDetailSerializer_data row st'"
          "full_clean_sample ev row st = Inr ()"
          by blast
        have "update_sample partial ev sid req st =
            (Response 200 (SampleDetail (PlantSampleDetailSerializer_data row st')), st')"
          using s act Inr commit(1) x(4) by (simp add: update_sample_def)
        with s act Inr x sid show ?thesis by blast
      qed
    qed
  qed
qed

lemma soft_delete_tx_Inr:
  assumes "soft_delete_tx ev s (0, st) = Inr (species, (k, st'))"
  shows "\<exists>row entry.
      entry = audit_entry ev st (sample_id s) ''DELETED''
                (JObj [(''species'', dict_get_default (sample_detail s) ''species'' (JStr ''Unknown''))]) \<and>
      row = s\<lparr>is_deleted := True, deleted_at := Some (now ev),
               sample_detail := autofill_sampling_date (today ev) (sample_detail s),
               updated_at := now ev\<rparr> \<and>
      st' = replace_sample row (with_audit entry st) \<and>
      species = dict_get_default (sample_detail s) ''species'' (JStr ''Unknown'')"
proof -
  let ?sp = "dict_get_default (sample_detail s) ''species'' (JStr ''Unknown'')"
  from assms obtain entry k1 st1 row k2 st2 where
    a: "SampleAuditLog_create ev (sample_id s) ''DELETED'' (JObj [(''species'', ?sp)]) (0, st) =
          Inr (entry, (k1, st1))"
    and s: "PlantSample_soft_delete ev s (k1, st1) = Inr (row, (k2, st2))"
    and r: "return_tx ?sp (k2, st2) = Inr (species, (k, st'))"
    unfolding soft_delete_tx_def Let_def bind_tx_Inr_iff by auto
  from audit_create_Inr(1,2) [OF a] have e: "entry = audit_entry ev st (sample_id s) ''DELETED''
                (JObj [(''species'', ?sp)])" and st1: "st1 = with_audit entry st" by simp_all
  from save_Inr(5) [OF s [unfolded PlantSample_soft_delete_def]]
  have row: "row = s\<lparr>is_deleted := True, deleted_at := Some (now ev),
               sample_detail := autofill_sampling_date (today ev) (sample_detail s),
               updated_at := now ev\<rparr>" and st2: "st2 = replace_sample row st1"
    by simp_all
  from r have "species = ?sp" "st' = st2" by (simp_all add: return_tx_Inr_iff)
  with e st1 row st2 show ?thesis by blast
qed

lemma soft_delete_view_cases:
  "(snd (PlantSampleDetailView_delete ev sid st) = st \<and>
      (fst (PlantSampleDetailView_delete ev sid st) = Response 404 (Error Http404) \<or>
       fst (PlantSampleDetailView_delete ev sid st) =
         Response 200 (deleted_marker ''Sample already deleted'' sid) \<or>
       (\<exists>e. fst (PlantSampleDetailView_delete ev sid st) = Response 400 (Error e)))) \<or>
   (\<exists>s body row entry st'.
      get_sample st sid = Some s \<and> \<not> is_deleted s \<and>
      PlantSampleDetailView_delete ev sid st = (Response 200 body, st') \<and>
      entry = audit_entry ev st sid ''DELETED''
                (JObj [(''species'', dict_get_default (sample_detail s) ''species'' (JStr ''Unknown''))]) \<and>
      row = s\<lparr>is_deleted := True, deleted_at := Some (now ev),
               sample_detail := autofill_sampling_date (today ev) (sample_detail s),
               updated_at := now ev\<rparr> \<and>
      st' = replace_sample row (with_audit entry st))"
proof (cases "get_sample st sid")
  case None
  then show ?thesis by (simp add: PlantSampleDetailView_delete_def)
next
  case (Some s)
  note s = Some
  have sid: "sample_id s = sid" using s by (rule get_sample_id)
  show ?thesis
  proof (cases "is_deleted s")
    case True
    then show ?thesis using s by (simp add: PlantSampleDetailView_delete_def)
  next
    case False
    note act = False
    show ?thesis
    proof (cases rule: atomic_cases [of "soft_delete_tx ev s" st])
      case (rollback e)
      then show ?thesis using s act by (simp add: PlantSampleDetailView_delete_def)
    next
      case (commit species k st')
      from soft_delete_tx_Inr [OF commit(2)] obtain row entry where
        x: "entry = audit_entry ev st (sample_id s) ''DELETED''
                (JObj [(''species'', dict_get_default (sample_detail s) ''species'' (JStr ''Unknown''))])"
          "row = s\<lparr>is_deleted := True, deleted_at := Some (now ev),
               sample_detail := autofill_sampling_date (today ev) (sample_detail s),
               updated_at := now ev\<rparr>"
          "st' = replace_sample row (with_audit entry st)"
        by blast
      have "\<exists>body. PlantSampleDetailView_delete ev sid st = (Response 200 body, st')"
        using s act commit(1) by (simp add: PlantSampleDetailView_delete_def)
      with s act x sid show ?thesis by blast
    qed
  qed
qed

lemma hard_delete_tx_Inr:
  assumes "hard_delete_tx ev s (0, st) = Inr (species, (k, st'))"
  shows "\<exists>entry.
      entry = audit_entry ev st (sample_id s) ''HARD_DELETED''
                (JObj [(''species'', dict_get_default (sample_detail s) ''species'' (JStr ''Unknown'')),
                       (''warning'', JStr ''PERMANENT DELETION - All data removed from database'')]) \<and>
      st' = (with_audit entry st)
              \<lparr>growth_metrics := filter (\<lambda>g. gm_sample g \<noteq> sample_id s) (growth_metrics st),
               sample_researchers := filter (\<lambda>l. sr_sample l \<noteq> sample_id s) (sample_researchers st),
               samples := filter (\<lambda>x. sample_id x \<noteq> sample_id s) (samples st)\<rparr>"
proof -
  let ?sp = "dict_get_default (sample_detail s) ''species'' (JStr ''Unknown'')"
  let ?det = "JObj [(''species'', ?sp),
                    (''warning'', JStr ''PERMANENT DELETION - All data removed from database'')]"
  from assms obtain entry k1 st1 k2 st2 where
    a: "SampleAuditLog_create ev (sample_id s) ''HARD_DELETED'' ?det (0, st) = Inr (entry, (k1, st1))"
    and h: "PlantSample_hard_delete ev s (k1, st1) = Inr ((), (k2, st2))"
    and r: "return_tx ?sp (k2, st2) = Inr (species, (k, st'))"
    unfolding hard_delete_tx_def Let_def bind_tx_Inr_iff by auto
  from audit_create_Inr(1,2) [OF a] have e: "entry = audit_entry ev st (sample_id s) ''HARD_DELETED'' ?det"
    and st1: "st1 = with_audit entry st" by simp_all
  from h obtain ka sa kb sb where
    1: "execute ev Delete_growth_metrics (delete_growth_metrics_of (sample_id s)) (k1, st1) = Inr ((), (ka, sa))"
    and 2: "execute ev Delete_sample_researchers (delete_sample_researchers_of (sample_id s)) (ka, sa) = Inr ((), (kb, sb))"
    and 3: "execute ev Delete_sample (delete_sample_row (sample_id s)) (kb, sb) = Inr ((), (k2, st2))"
    unfolding PlantSample_hard_delete_def bind_tx_Inr_iff by auto
  from 1 have sa: "sa = st1\<lparr>growth_metrics := filter (\<lambda>g. gm_sample g \<noteq> sample_id s) (growth_metrics st1)\<rparr>"
    by (simp add: execute_Inr_iff delete_growth_metrics_of_def)
  from 2 have sb: "sb = sa\<lparr>sample_researchers := filter (\<lambda>l. sr_sample l \<noteq> sample_id s) (sample_researchers sa)\<rparr>"
    by (simp add: execute_Inr_iff delete_sample_researchers_of_def)
  from 3 have s2: "st2 = sb\<lparr>growth_metrics := filter (\<lambda>g. gm_sample g \<noteq> sample_id s) (growth_metrics sb),
                 sample_researchers := filter (\<lambda>l. sr_sample l \<noteq> sample_id s) (sample_researchers sb),
                 samples := filter (\<lambda>x. sample_id x \<noteq> sample_id s) (samples sb)\<rparr>"
    by (simp add: execute_Inr_iff delete_sample_row_def)
  from r have "st' = st2" by (simp add: return_tx_Inr_iff)
  then have "st' = (with_audit entry st)
              \<lparr>growth_metrics := filter (\<lambda>g. gm_sample g \<noteq> sample_id s) (growth_metrics st),
               sample_researchers := filter (\<lambda>l. sr_sample l \<noteq> sample_id s) (sample_researchers st),
               samples := filter (\<lambda>x. sample_id x \<noteq> sample_id s) (samples st)\<rparr>"
    by (simp add: s2 sb sa st1 with_audit_def)
  with e show ?thesis by blast
qed

lemma hard_delete_view_cases:
  "(snd (PlantSampleHardDeleteView_delete ev sid st) = st \<and>
      (fst (PlantSampleHardDeleteView_delete ev sid st) = Response 404 (Error Http404) \<or>
       (\<exists>e. fst (PlantSampleHardDeleteView_delete ev sid st) = Response 400 (Error e)))) \<or>
   (\<exists>s body entry st'.
      get_sample st sid = Some s \<and>
      PlantSampleHardDeleteView_delete ev sid st = (Response 200 body, st') \<and>
      entry = audit_entry ev st sid ''HARD_DELETED''
                (JObj [(''species'', dict_get_default (sample_detail s) ''species'' (JStr ''Unknown'')),
                       (''warning'', JStr ''PERMANENT DELETION - All data removed from database'')]) \<and>
      st' = (with_audit entry st)
              \<lparr>growth_metrics := filter (\<lambda>g. gm_sample g \<noteq> sid) (growth_metrics st),
               sample_researchers := filter (\<lambda>l. sr_sample l \<noteq> sid) (sample_researchers st),
               samples := filter (\<lambda>x. sample_id x \<noteq> sid) (samples st)\<rparr>)"
proof (cases "get_sample st sid")
  case None
  then show ?thesis by (simp add: PlantSampleHardDeleteView_delete_def)
next
  case (Some s)
  note s = Some
  have sid: "sample_id s = sid" using s by (rule get_sample_id)
  show ?thesis
  proof (cases rule: atomic_cases [of "hard_delete_tx ev s" st])
    case (rollback e)
    then show ?thesis using s by (simp add: PlantSampleHardDeleteView_delete_def)
  next
    case (commit species k st')
    from hard_delete_tx_Inr [OF commit(2)] obtain entry where
      x: "entry = audit_entry ev st (sample_id s) ''HARD_DELETED''
                (JObj [(''species'', dict_get_default (sample_detail s) ''species'' (JStr ''Unknown'')),
                       (''warning'', JStr ''PERMANENT DELETION - All data removed from database'')])"
        "st' = (with_audit entry st)
              \<lparr>growth_metrics := filter (\<lambda>g. gm_sample g \<noteq> sample_id s) (growth_metrics st),
               sample_researchers := filter (\<lambda>l. sr_sample l \<noteq> sample_id s) (sample_researchers st),
               samples := filter (\<lambda>x. sample_id x \<noteq> sample_id s) (samples st)\<rparr>"
      by blast
    have "\<exists>body. PlantSampleHardDeleteView_delete ev sid st = (Response 200 body, st')"
      using s commit(1) by (simp add: PlantSampleHardDeleteView_delete_def)
    with s x sid show ?thesis by blast
  qed
qed

lemma create_tx_no_failure:
  assumes "create_sample_tx ev v (0, st) = Inr r"
  shows "\<not> failing ev 0 \<and> \<not> failing ev (Suc 0)"
proof -
  from assms obtain row k1 st1 entry s2 where
    s: "PlantSample_save ev True (set_validated v new_sample) (0, st) = Inr (row, (k1, st1))"
    and a: "SampleAuditLog_create ev (sample_id row) ''CREATED''
              (JObj [(''species'', dict_get (sample_detail row) ''species''),
                     (''location_id'', JNum (of_nat (location row)))]) (k1, st1) = Inr (entry, s2)"
    unfolding create_sample_tx_def bind_tx_Inr_iff by auto
  obtain k2 st2 where s2: "s2 = (k2, st2)" by (cases s2)
  from save_Inr(2,3) [OF s] audit_create_Inr(4) [OF a [unfolded s2]] show ?thesis by simp
qed

lemma update_tx_no_failure:
  assumes "update_sample_tx ev s v (0, st) = Inr r"
  shows "\<not> failing ev 0 \<and> \<not> failing ev (Suc 0)"
proof -
  from assms obtain row k1 st1 entry s2 where
    s: "PlantSample_save ev False (set_validated v s) (0, st) = Inr (row, (k1, st1))"
    and a: "SampleAuditLog_create ev (sample_id row) ''UPDATED''
              (JObj [(''old_detail'', JObj (sample_detail s)),
                     (''new_detail'', JObj (sample_detail row))]) (k1, st1) = Inr (entry, s2)"
    unfolding update_sample_tx_def Let_def bind_tx_Inr_iff by auto
  obtain k2 st2 where s2: "s2 = (k2, st2)" by (cases s2)
  from save_Inr(2,3) [OF s] audit_create_Inr(4) [OF a [unfolded s2]] show ?thesis by simp
qed

lemma soft_delete_tx_no_failure:
  assumes "soft_delete_tx ev s (0, st) = Inr r"
  shows "\<not> failing ev 0 \<and> \<not> failing ev (Suc 0)"
proof -
  let ?sp = "dict_get_default (sample_detail s) ''species'' (JStr ''Unknown'')"
  from assms obtain entry k1 st1 row s2 where
    a: "SampleAuditLog_create ev (sample_id s) ''DELETED'' (JObj [(''species'', ?sp)]) (0, st) =
          Inr (entry, (k1, st1))"
    and s: "PlantSample_soft_delete ev s (k1, st1) = Inr (row, s2)"
    unfolding soft_delete_tx_def Let_def bind_tx_Inr_iff by auto
  obtain k2 st2 where s2: "s2 = (k2, st2)" by (cases s2)
  from audit_create_Inr(3,4) [OF a] save_Inr(2) [OF s [unfolded PlantSample_soft_delete_def s2]]
  show ?thesis by simp
qed

lemma hard_delete_tx_no_failure:
  assumes "hard_delete_tx ev s (0, st) = Inr r"
  shows "\<not> failing ev 0 \<and> \<not> failing ev (Suc 0) \<and> \<not> failing ev (Suc (Suc 0)) \<and>
         \<not> failing ev (Suc (Suc (Suc 0)))"
proof -
  let ?sp = "dict_get_default (sample_detail s) ''species'' (JStr ''Unknown'')"
  let ?det = "JObj [(''species'', ?sp),
                    (''warning'', JStr ''PERMANENT DELETION - All data removed from database'')]"
  from assms obtain entry k1 st1 s2 where
    a: "SampleAuditLog_create ev (sample_id s) ''HARD_DELETED'' ?det (0, st) = Inr (entry, (k1, st1))"
    and h: "PlantSample_hard_delete ev s (k1, st1) = Inr ((), s2)"
    unfolding hard_delete_tx_def Let_def bind_tx_Inr_iff by auto
  from h obtain ka sa kb sb k2 st2 where
    1: "execute ev Delete_growth_metrics (delete_growth_metrics_of (sample_id s)) (k1, st1) = Inr ((), (ka, sa))"
    and 2: "execute ev Delete_sample_researchers (delete_sample_researchers_of (sample_id s)) (ka, sa) = Inr ((), (kb, sb))"
    and 3: "execute ev Delete_sample (delete_sample_row (sample_id s)) (kb, sb) = Inr ((), (k2, st2))"
    unfolding PlantSample_hard_delete_def bind_tx_Inr_iff by (cases s2) auto
  from audit_create_Inr(3,4) [OF a] 1 2 3 show ?thesis
    by (simp add: execute_Inr_iff)
qed

lemma create_view_rollback:
  "failing ev 0 \<or> failing ev (Suc 0) \<Longrightarrow> snd (PlantSampleCreateView_post ev req st) = st"
proof (cases "PlantSampleSerializer_validate False st req")
  case (Inl errors)
  then show ?thesis by (simp add: PlantSampleCreateView_post_def)
next
  case (Inr v)
  assume f: "failing ev 0 \<or> failing ev (Suc 0)"
  show ?thesis
  proof (cases rule: atomic_cases [of "create_sample_tx ev v" st])
    case (rollback e)
    then show ?thesis using Inr by (simp add: PlantSampleCreateView_post_def)
  next
    case (commit data k st')
    from create_tx_no_failure [OF commit(2)] f show ?thesis by simp
  qed
qed

lemma update_view_rollback:
  "failing ev 0 \<or> failing ev (Suc 0) \<Longrightarrow> snd (update_sample partial ev sid req st) = st"
proof (cases "get_sample st sid")
  case None
  then show ?thesis by (simp add: update_sample_def)
next
  case (Some s)
  assume f: "failing ev 0 \<or> failing ev (Suc 0)"
  show ?thesis
  proof (cases "is_deleted s")
    case True
    then show ?thesis using Some by (simp add: update_sample_def)
  next
    case False
    show ?thesis
    proof (cases "PlantSampleSerializer_validate partial st req")
      case (Inl errors)
      then show ?thesis using Some False by (simp add: update_sample_def)
    next
      case (Inr v)
      show ?thesis
      proof (cases rule: atomic_cases [of "update_sample_tx ev s v" st])
        case (rollback e)
        then show ?thesis using Some False Inr by (simp add: update_sample_def)
      next
        case (commit data k st')
        from update_tx_no_failure [OF commit(2)] f show ?thesis by simp
      qed
    qed
  qed
qed

lemma soft_delete_view_rollback:
  "failing ev 0 \<or> failing ev (Suc 0) \<Longrightarrow> snd (PlantSampleDetailView_delete ev sid st) = st"
proof (cases "get_sample st sid")
  case None
  then show ?thesis by (simp add: PlantSampleDetailView_delete_def)
next
  case (Some s)
  assume f: "failing ev 0 \<or> failing ev (Suc 0)"
  show ?thesis
  proof (cases "is_deleted s")
    case True
    then show ?thesis using Some by (simp add: PlantSampleDetailView_delete_def)
  next
    case False
    show ?thesis
    proof (cases rule: atomic_cases [of "soft_delete_tx ev s" st])
      case (rollback e)
      then show ?thesis using Some False by (simp add: PlantSampleDetailView_delete_def)
    next
      case (commit species k st')
      from soft_delete_tx_no_failure [OF commit(2)] f show ?thesis by simp
    qed
  qed
qed

lemma hard_delete_view_rollback:
  "failing ev 0 \<or> failing ev (Suc 0) \<or> failing ev (Suc (Suc 0)) \<or> failing ev (Suc (Suc (Suc 0))) \<Longrightarrow>
   snd (PlantSampleHardDeleteView_delete ev sid st) = st"
proof (cases "get_sample st sid")
  case None
  then show ?thesis by (simp add: PlantSampleHardDeleteView_delete_def)
next
  case (Some s)
  assume f: "failing ev 0 \<or> failing ev (Suc 0) \<or> failing ev (Suc (Suc 0)) \<or> failing ev (Suc (Suc (Suc 0)))"
  show ?thesis
  proof (cases rule: atomic_cases [of "hard_delete_tx ev s" st])
    case (rollback e)
    then show ?thesis using Some by (simp add: PlantSampleHardDeleteView_delete_def)
  next
    case (commit species k st')
    from hard_delete_tx_no_failure [OF commit(2)] f show ?thesis by simp
  qed
qed

lemma get_sample_replace:
  "get_sample st sid = Some s \<Longrightarrow> sample_id row = sid \<Longrightarrow>
   get_sample (replace_sample row st) sid = Some row"
  using find_map_replace [of "\<lambda>x. sample_id x = sid" "samples st" s row]
  by (simp add: get_sample_def replace_sample_def)

text \<open>
  Claim C5. Create, update (PUT and PATCH), soft delete and hard delete of a sample,
  under any pattern of storage failures: each call either leaves the store exactly as it
  was and answers with an error status (or, for the soft delete of an already deleted
  sample, with the "already deleted" marker), or it answers with its success status
  and the store holds both the change of the sample and the one audit entry for it
  (and, for the hard delete, the removal of the growth metrics and researcher links). In
  particular, when any write statement of the call fails the store is as before.
\<close>

theorem multi_step_writes_are_atomic:
  "((snd (PlantSampleCreateView_post ev req st) = st \<and>
       (\<exists>b. fst (PlantSampleCreateView_post ev req st) = Response 400 b)) \<or>
    (\<exists>data row entry.
       fst (PlantSampleCreateView_post ev req st) = Response 201 (SampleDetail data) \<and>
       samples (snd (PlantSampleCreateView_post ev req st)) = samples st @ [row] \<and>
       audit_log (snd (PlantSampleCreateView_post ev req st)) = audit_log st @ [entry] \<and>
       action entry = ''CREATED'' \<and> log_sample_id entry = sample_id row)) \<and>
   (failing ev 0 \<or> failing ev (Suc 0) \<longrightarrow> snd (PlantSampleCreateView_post ev req st) = st) \<and>
   ((snd (update_sample partial ev sid req st) = st \<and>
       (\<exists>b. fst (update_sample partial ev sid req st) = Response 400 b \<or>
            fst (update_sample partial ev sid req st) = Response 404 b)) \<or>
    (\<exists>data s row entry.
       fst (update_sample partial ev sid req st) = Response 200 (SampleDetail data) \<and>
       get_sample st sid = Some s \<and>
       get_sample (snd (update_sample partial ev sid req st)) sid = Some row \<and>
       audit_log (snd (update_sample partial ev sid req st)) = audit_log st @ [entry] \<and>
       action entry = ''UPDATED'' \<and> log_sample_id entry = sid \<and>
       details entry = JObj [(''old_detail'', JObj (sample_detail s)),
                             (''new_detail'', JObj (sample_detail row))])) \<and>
   (failing ev 0 \<or> failing ev (Suc 0) \<longrightarrow> snd (update_sample partial ev sid req st) = st) \<and>
   ((snd (PlantSampleDetailView_delete ev sid st) = st \<and>
       (fst (PlantSampleDetailView_delete ev sid st) = Response 404 (Error Http404) \<or>
        fst (PlantSampleDetailView_delete ev sid st) =
          Response 200 (deleted_marker ''Sample already deleted'' sid) \<or>
        (\<exists>e. fst (PlantSampleDetailView_delete ev sid st) = Response 400 (Error e)))) \<or>
    (\<exists>body row entry.
       fst (PlantSampleDetailView_delete ev sid st) = Response 200 body \<and>
       get_sample (snd (PlantSampleDetailView_delete ev sid st)) sid = Some row \<and>
       is_deleted row \<and> deleted_at row = Some (now ev) \<and>
       audit_log (snd (PlantSampleDetailView_delete ev sid st)) = audit_log st @ [entry] \<and>
       action entry = ''DELETED'' \<and> log_sample_id entry = sid)) \<and>
   (failing ev 0 \<or> failing ev (Suc 0) \<longrightarrow> snd (PlantSampleDetailView_delete ev sid st) = st) \<and>
   ((snd (PlantSampleHardDeleteView_delete ev sid st) = st \<and>
       (fst (PlantSampleHardDeleteView_delete ev sid st) = Response 404 (Error Http404) \<or>
        (\<exists>e. fst (PlantSampleHardDeleteView_delete ev sid st) = Response 400 (Error e)))) \<or>
    (\<exists>body entry.
       fst (PlantSampleHardDeleteView_delete ev sid st) = Response 200 body \<and>
       get_sample (snd (PlantSampleHardDeleteView_delete ev sid st)) sid = None \<and>
       (\<forall>g \<in> set (growth_metrics (snd (PlantSampleHardDeleteView_delete ev sid st))). gm_sample g \<noteq> sid) \<and>
       (\<forall>l \<in> set (sample_researchers (snd (PlantSampleHardDeleteView_delete ev sid st))). sr_sample l \<noteq> sid) \<and>
       audit_log (snd (PlantSampleHardDeleteView_delete ev sid st)) = audit_log st @ [entry] \<and>
       action entry = ''HARD_DELETED'' \<and> log_sample_id entry = sid)) \<and>
   (failing ev 0 \<or> failing ev (Suc 0) \<or> failing ev (Suc (Suc 0)) \<or> failing ev (Suc (Suc (Suc 0))) \<longrightarrow>
      snd (PlantSampleHardDeleteView_delete ev sid st) = st)"
proof -
  have c: "(snd (PlantSampleCreateView_post ev req st) = st \<and>
       (\<exists>b. fst (PlantSampleCreateView_post ev req st) = Response 400 b)) \<or>
    (\<exists>data row entry.
       fst (PlantSampleCreateView_post ev req st) = Response 201 (SampleDetail data) \<and>
       samples (snd (PlantSampleCreateView_post ev req st)) = samples st @ [row] \<and>
       audit_log (snd (PlantSampleCreateView_post ev req st)) = audit_log st @ [entry] \<and>
       action entry = ''CREATED'' \<and> log_sample_id entry = sample_id row)"
  proof (rule disjE [OF create_view_cases [of ev req st]], blast, elim exE conjE)
    fix v row entry st'
    assume p: "PlantSampleCreateView_post ev req st =
        (Response 201 (SampleDetail (PlantSampleDetailSerializer_data row st')), st')"
      and e: "entry = audit_entry ev st (sample_id row) ''CREATED''
                (JObj [(''species'', dict_get (sample_detail row) ''species''),
                       (''location_id'', JNum (of_nat (location row)))])"
      and s: "st' = with_audit entry (with_sample row st)"
    have "samples st' = samples st @ [row]" "audit_log st' = audit_log st @ [entry]"
      by (simp_all add: s with_audit_def with_sample_def)
    moreover have "action entry = ''CREATED''" "log_sample_id entry = sample_id row"
      by (simp_all add: e audit_entry_def)
    ultimately show ?thesis using p by auto
  qed
  have u: "(snd (update_sample partial ev sid req st) = st \<and>
       (\<exists>b. fst (update_sample partial ev sid req st) = Response 400 b \<or>
            fst (update_sample partial ev sid req st) = Response 404 b)) \<or>
    (\<exists>data s row entry.
       fst (update_sample partial ev sid req st) = Response 200 (SampleDetail data) \<and>
       get_sample st sid = Some s \<and>
       get_sample (snd (update_sample partial ev sid req st)) sid = Some row \<and>
       audit_log (snd (update_sample partial ev sid req st)) = audit_log st @ [entry] \<and>
       action entry = ''UPDATED'' \<and> log_sample_id entry = sid \<and>
       details entry = JObj [(''old_detail'', JObj (sample_detail s)),
                             (''new_detail'', JObj (sample_detail row))])"
  proof (rule disjE [OF update_view_cases [of partial ev sid req st]], blast, elim exE conjE)
    fix s v row entry st'
    assume g: "get_sample st sid = Some s"
      and p: "update_sample partial ev sid req st =
        (Response 200 (SampleDetail (PlantSampleDetailSerializer_data row st')), st')"
      and r: "row = (set_validated v s)
              \<lparr>sample_detail := autofill_sampling_date (today ev) (sample_detail (set_validated v s)),
               updated_at := now ev\<rparr>"
      and e: "entry = audit_entry ev st sid ''UPDATED''
                (JObj [(''old_detail'', JObj (sample_detail s)),
                       (''new_detail'', JObj (sample_detail row))])"
      and s: "st' = with_audit entry (replace_sample row st)"
    have id: "sample_id row = sid" using get_sample_id [OF g] by (simp add: r set_validated_def)
    have "get_sample (replace_sample row st) sid = Some row"
      using g id by (rule get_sample_replace)
    then have 1: "get_sample st' sid = Some row"
      by (simp add: s with_audit_def get_sample_def)
    have 2: "audit_log st' = audit_log st @ [entry]"
      by (simp add: s with_audit_def replace_sample_def)
    have 3: "action entry = ''UPDATED''" "log_sample_id entry = sid"
      "details entry = JObj [(''old_detail'', JObj (sample_detail s)),
                             (''new_detail'', JObj (sample_detail row))]"
      by (simp_all add: e audit_entry_def)
    from p g 1 2 3 show ?thesis by auto
  qed
  have d: "(snd (PlantSampleDetailView_delete ev sid st) = st \<and>
       (fst (PlantSampleDetailView_delete ev sid st) = Response 404 (Error Http404) \<or>
        fst (PlantSampleDetailView_delete ev sid st) =
          Response 200 (deleted_marker ''Sample already deleted'' sid) \<or>
        (\<exists>e. fst (PlantSampleDetailView_delete ev sid st) = Response 400 (Error e)))) \<or>
    (\<exists>body row entry.
       fst (PlantSampleDetailView_delete ev sid st) = Response 200 body \<and>
       get_sample (snd (PlantSampleDetailView_delete ev sid st)) sid = Some row \<and>
       is_deleted row \<and> deleted_at row = Some (now ev) \<and>
       audit_log (snd (PlantSampleDetailView_delete ev sid st)) = audit_log st @ [entry] \<and>
       action entry = ''DELETED'' \<and> log_sample_id entry = sid)"
  proof (rule disjE [OF soft_delete_view_cases [of ev sid st]], blast, elim exE conjE)
    fix s body row entry st'
    assume g: "get_sample st sid = Some s"
      and p: "PlantSampleDetailView_delete ev sid st = (Response 200 body, st')"
      and e: "entry = audit_entry ev st sid ''DELETED''
                (JObj [(''species'', dict_get_default (sample_detail s) ''species'' (JStr ''Unknown''))])"
      and r: "row = s\<lparr>is_deleted := True, deleted_at := Some (now ev),
               sample_detail := autofill_sampling_date (today ev) (sample_detail s),
               updated_at := now ev\<rparr>"
      and s: "st' = replace_sample row (with_audit entry st)"
    have id: "sample_id row = sid" using get_sample_id [OF g] by (simp add: r)
    have g': "get_sample (with_audit entry st) sid = Some s"
      using g by (simp add: get_sample_def with_audit_def)
    have 1: "get_sample st' sid = Some row"
      unfolding s using g' id by (rule get_sample_replace)
    have 2: "audit_log st' = audit_log st @ [entry]"
      by (simp add: s with_audit_def replace_sample_def)
    have 3: "action entry = ''DELETED''" "log_sample_id entry = sid"
      by (simp_all add: e audit_entry_def)
    have 4: "is_deleted row" "deleted_at row = Some (now ev)" by (simp_all add: r)
    from p 1 2 3 4 show ?thesis by auto
  qed
  have h: "(snd (PlantSampleHardDeleteView_delete ev sid st) = st \<and>
       (fst (PlantSampleHardDeleteView_delete ev sid st) = Response 404 (Error Http404) \<or>
        (\<exists>e. fst (PlantSampleHardDeleteView_delete ev sid st) = Response 400 (Error e)))) \<or>
    (\<exists>body entry.
       fst (PlantSampleHardDeleteView_delete ev sid st) = Response 200 body \<and>
       get_sample (snd (PlantSampleHardDeleteView_delete ev sid st)) sid = None \<and>
       (\<forall>g \<in> set (growth_metrics (snd (PlantSampleHardDeleteView_delete ev sid st))). gm_sample g \<noteq> sid) \<and>
       (\<forall>l \<in> set (sample_researchers (snd (PlantSampleHardDeleteView_delete ev sid st))). sr_sample l \<noteq> sid) \<and>
       audit_log (snd (PlantSampleHardDeleteView_delete ev sid st)) = audit_log st @ [entry] \<and>
       action entry = ''HARD_DELETED'' \<and> log_sample_id entry = sid)"
  proof (rule disjE [OF hard_delete_view_cases [of ev sid st]], blast, elim exE conjE)
    fix s body entry st'
    assume p: "PlantSampleHardDeleteView_delete ev sid st = (Response 200 body, st')"
      and e: "entry = audit_entry ev st sid ''HARD_DELETED''
                (JObj [(''species'', dict_get_default (sample_detail s) ''species'' (JStr ''Unknown'')),
                       (''warning'', JStr ''PERMANENT DELETION - All data removed from database'')])"
      and s: "st' = (with_audit entry st)
              \<lparr>growth_metrics := filter (\<lambda>g. gm_sample g \<noteq> sid) (growth_metrics st),
               sample_researchers := filter (\<lambda>l. sr_sample l \<noteq> sid) (sample_researchers st),
               samples := filter (\<lambda>x. sample_id x \<noteq> sid) (samples st)\<rparr>"
    have 1: "get_sample st' sid = None"
      by (rule get_sample_after_delete_row [of st' sid st]) (simp add: s)
    have 2: "\<forall>g \<in> set (growth_metrics st'). gm_sample g \<noteq> sid"
      "\<forall>l \<in> set (sample_researchers st'). sr_sample l \<noteq> sid"
      by (simp_all add: s)
    have 3: "audit_log st' = audit_log st @ [entry]" by (simp add: s with_audit_def)
    have 4: "action entry = ''HARD_DELETED''" "log_sample_id entry = sid"
      by (simp_all add: e audit_entry_def)
    from p 1 2 3 4 show ?thesis by auto
  qed
  from c u d h create_view_rollback [of ev req st] update_view_rollback [of ev partial sid req st]
    soft_delete_view_rollback [of ev sid st] hard_delete_view_rollback [of ev sid st]
  show ?thesis by blast
qed

theorem multi_step_writes_are_atomic_witness:
  "failing (example_env\<lparr>failing := (\<lambda>k. k = Suc 0)\<rparr>) (Suc 0) \<and>
   PlantSampleSerializer_validate False example_store
     \<lparr>req_sample_detail = Some (JObj [(''species'', JStr ''Acer campestre''),
                                      (''common_name'', JStr ''Field Maple''),
                                      (''sampling_date'', JStr ''2024-03-05'')]),
      req_location = Some 1, req_condition = Some 1\<rparr> =
     Inr \<lparr>v_sample_detail = Some [(''species'', JStr ''Acer campestre''),
                                  (''common_name'', JStr ''Field Maple''),
                                  (''sampling_date'', JStr ''2024-03-05'')],
          v_location = Some 1, v_condition = Some 1\<rparr> \<and>
   snd (PlantSampleCreateView_post (example_env\<lparr>failing := (\<lambda>k. k = Suc 0)\<rparr>)
          \<lparr>req_sample_detail = Some (JObj [(''species'', JStr ''Acer campestre''),
                                           (''common_name'', JStr ''Field Maple''),
                                           (''sampling_date'', JStr ''2024-03-05'')]),
           req_location = Some 1, req_condition = Some 1\<rparr> example_store) = example_store \<and>
   (\<exists>b. fst (PlantSampleCreateView_post (example_env\<lparr>failing := (\<lambda>k. k = Suc 0)\<rparr>)
          \<lparr>req_sample_detail = Some (JObj [(''species'', JStr ''Acer campestre''),
                                           (''common_name'', JStr ''Field Maple''),
                                           (''sampling_date'', JStr ''2024-03-05'')]),
           req_location = Some 1, req_condition = Some 1\<rparr> example_store) = Response 400 b)"
proof -
  let ?ev = "example_env\<lparr>failing := (\<lambda>k. k = Suc 0)\<rparr>"
  let ?req = "\<lparr>req_sample_detail = Some (JObj [(''species'', JStr ''Acer campestre''),
                                           (''common_name'', JStr ''Field Maple''),
                                           (''sampling_date'', JStr ''2024-03-05'')]),
           req_location = Some 1, req_condition = Some 1\<rparr>"
  have f: "failing ?ev (Suc 0)" by simp
  have v: "PlantSampleSerializer_validate False example_store ?req =
     Inr \<lparr>v_sample_detail = Some [(''species'', JStr ''Acer campestre''),
                                  (''common_name'', JStr ''Field Maple''),
                                  (''sampling_date'', JStr ''2024-03-05'')],
          v_location = Some 1, v_condition = Some 1\<rparr>"
    by (simp add: PlantSampleSerializer_validate_def run_field_def sample_detail_field_def
        validate_sample_detail_def pk_field_def example_store_def)
  note a = multi_step_writes_are_atomic [of ?ev ?req example_store True 1]
  from a f have s: "snd (PlantSampleCreateView_post ?ev ?req example_store) = example_store"
    by blast
  have "\<not> (\<exists>row. samples (snd (PlantSampleCreateView_post ?ev ?req example_store)) =
             samples example_store @ [row])"
    unfolding s by simp
  with a have "\<exists>b. fst (PlantSampleCreateView_post ?ev ?req example_store) = Response 400 b"
    by blast
  with f v s show ?thesis by blast
qed

(*THMS-END*)

end
